theory Spec2Isabelle
  imports Main
begin

section \<open>Python values, strings and exceptions\<close>

text \<open>
  A Python \<open>str\<close> is a sequence of Unicode code points, so it is modelled as a list of
  natural numbers and not as a list of 8-bit characters. String literals of the source
  are embedded with \<open>lit\<close>.
\<close>

type_synonym codepoint = nat
type_synonym pystr = "codepoint list"

definition lit :: "string \<Rightarrow> pystr" where
  "lit s = map of_char s"

text \<open>
  A Python float: only whether it is zero matters to the program (truthiness of
  \<open>message\<close>). \<open>PyFinite neg m e\<close> stands for \<open>(-1)^neg * m * 2^e\<close>, so both
  \<open>0.0\<close> and \<open>-0.0\<close> have mantissa \<open>0\<close>.
\<close>

datatype pyfloat = PyFinite bool nat int | PyInf bool | PyNaN

fun float_is_zero :: "pyfloat \<Rightarrow> bool" where
  "float_is_zero (PyFinite neg m e) = (m = 0)"
| "float_is_zero (PyInf neg) = False"
| "float_is_zero PyNaN = False"

text \<open>
  The objects \<open>json.load\<close> produces and \<open>json.dumps\<close> consumes: \<open>None\<close>, \<open>bool\<close>,
  \<open>int\<close>, \<open>float\<close>, \<open>str\<close>, \<open>list\<close> and \<open>dict\<close>. A dict is an association list in
  insertion order, read with \<open>map_of\<close>; a Python dict holds each key once, and where a
  list repeats a key \<open>map_of\<close> reads its first entry.
\<close>

datatype pyval =
    VNone
  | VBool bool
  | VInt int
  | VFloat pyfloat
  | VStr pystr
  | VList "pyval list"
  | VDict "(pystr \<times> pyval) list"

text \<open>
  An exception object: the name of its class, the names of the classes it inherits
  from, and \<open>str(e)\<close>.
\<close>

datatype py_exc = PyExc (exc_name: pystr) (exc_bases: "pystr list") (exc_str: pystr)

definition isinstance :: "py_exc \<Rightarrow> pystr \<Rightarrow> bool" where
  "isinstance e c = (c = exc_name e \<or> c \<in> set (exc_bases e))"

definition ValueError :: "pystr \<Rightarrow> py_exc" where
  "ValueError msg =
     PyExc (lit ''ValueError'') [lit ''Exception'', lit ''BaseException'', lit ''object''] msg"

fun type_name :: "pyval \<Rightarrow> pystr" where
  "type_name VNone = lit ''NoneType''"
| "type_name (VBool b) = lit ''bool''"
| "type_name (VInt i) = lit ''int''"
| "type_name (VFloat f) = lit ''float''"
| "type_name (VStr s) = lit ''str''"
| "type_name (VList xs) = lit ''list''"
| "type_name (VDict d) = lit ''dict''"

text \<open>
  What Python raises for \<open>v.attr\<close> when the type of \<open>v\<close> has no such attribute; U+0027
  is the apostrophe around the type and the attribute.
\<close>

definition AttributeError :: "pyval \<Rightarrow> string \<Rightarrow> py_exc" where
  "AttributeError v attr =
     PyExc (lit ''AttributeError'') [lit ''Exception'', lit ''BaseException'', lit ''object'']
       ([0x27] @ type_name v @ [0x27] @ lit '' object has no attribute '' @ [0x27]
          @ lit attr @ [0x27])"

text \<open>Sequencing of statements that may raise: the first exception wins.\<close>

definition bind_exc :: "py_exc + 'a \<Rightarrow> ('a \<Rightarrow> py_exc + 'b) \<Rightarrow> py_exc + 'b" where
  "bind_exc m f = (case m of Inl e \<Rightarrow> Inl e | Inr v \<Rightarrow> f v)"

text \<open>\<open>v.get(k, dflt)\<close>: only a dict has the method.\<close>

fun py_get :: "pyval \<Rightarrow> pystr \<Rightarrow> pyval \<Rightarrow> py_exc + pyval" where
  "py_get (VDict d) k dflt = Inr (case map_of d k of None \<Rightarrow> dflt | Some v \<Rightarrow> v)"
| "py_get v k dflt = Inl (AttributeError v ''get'')"

text \<open>Truthiness, as tested by \<open>not message\<close>.\<close>

fun truthy :: "pyval \<Rightarrow> bool" where
  "truthy VNone = False"
| "truthy (VBool b) = b"
| "truthy (VInt i) = (i \<noteq> 0)"
| "truthy (VFloat f) = (\<not> float_is_zero f)"
| "truthy (VStr s) = (s \<noteq> [])"
| "truthy (VList xs) = (xs \<noteq> [])"
| "truthy (VDict d) = (d \<noteq> [])"

section \<open>The parts of the Python runtime the program relies on\<close>

text \<open>
  The Unicode character database behind \<open>str.upper\<close> and \<open>str.lower\<close> and the text
  that an f-string produces for a value that is not a \<open>str\<close> belong to the interpreter,
  not to the program; they are parameters of the model. The case mappings of the
  version of the database that CPython 3.11 has are given further down.
\<close>

record py_runtime =
  upper_full :: "codepoint \<Rightarrow> codepoint list"
  lower_full :: "codepoint \<Rightarrow> codepoint list"
  is_cased :: "codepoint \<Rightarrow> bool"
  is_case_ignorable :: "codepoint \<Rightarrow> bool"
  str_of :: "pyval \<Rightarrow> pystr"

text \<open>\<open>str.upper\<close>: the full upper-case mapping of every code point, concatenated.\<close>

definition py_upper :: "py_runtime \<Rightarrow> pystr \<Rightarrow> pystr" where
  "py_upper rt s = concat (map (upper_full rt) s)"

text \<open>
  \<open>str.lower\<close>: the full lower-case mapping of every code point, except that capital
  sigma (U+03A3) becomes final sigma (U+03C2) when it follows a cased letter and is not
  followed by one, case-ignorable code points being skipped on both sides, and small
  sigma (U+03C3) otherwise. \<open>seen\<close> holds the code points already passed, nearest
  first.
\<close>

definition final_sigma :: "py_runtime \<Rightarrow> pystr \<Rightarrow> pystr \<Rightarrow> bool" where
  "final_sigma rt seen ahead =
     (case dropWhile (is_case_ignorable rt) seen of
        [] \<Rightarrow> False
      | c # _ \<Rightarrow> is_cased rt c \<and>
          (case dropWhile (is_case_ignorable rt) ahead of
             [] \<Rightarrow> True
           | c' # _ \<Rightarrow> \<not> is_cased rt c'))"

fun lower_from :: "py_runtime \<Rightarrow> pystr \<Rightarrow> pystr \<Rightarrow> pystr" where
  "lower_from rt seen [] = []"
| "lower_from rt seen (c # rest) =
     (if c = 0x3A3 then [if final_sigma rt seen rest then 0x3C2 else 0x3C3]
      else lower_full rt c) @ lower_from rt (c # seen) rest"

definition py_lower :: "py_runtime \<Rightarrow> pystr \<Rightarrow> pystr" where
  "py_lower rt s = lower_from rt [] s"

text \<open>\<open>v.upper()\<close> and \<open>v.lower()\<close>: only a \<open>str\<close> has the methods.\<close>

fun upper_method :: "py_runtime \<Rightarrow> pyval \<Rightarrow> py_exc + pyval" where
  "upper_method rt (VStr s) = Inr (VStr (py_upper rt s))"
| "upper_method rt v = Inl (AttributeError v ''upper'')"

fun lower_method :: "py_runtime \<Rightarrow> pyval \<Rightarrow> py_exc + pyval" where
  "lower_method rt (VStr s) = Inr (VStr (py_lower rt s))"
| "lower_method rt v = Inl (AttributeError v ''lower'')"

text \<open>\<open>f"{v}"\<close>: a \<open>str\<close> is inserted as it is.\<close>

fun format_value :: "py_runtime \<Rightarrow> pyval \<Rightarrow> pystr" where
  "format_value rt (VStr s) = s"
| "format_value rt v = str_of rt v"

section \<open>The operations\<close>

text \<open>The log lines go to stderr and are not part of the model.\<close>

definition process_echo :: "pyval \<Rightarrow> pyval" where
  "process_echo message =
     VDict [(lit ''status'', VStr (lit ''success'')),
            (lit ''operation'', VStr (lit ''echo'')),
            (lit ''message'', message)]"

definition process_uppercase :: "py_runtime \<Rightarrow> pyval \<Rightarrow> py_exc + pyval" where
  "process_uppercase rt message =
     bind_exc (upper_method rt message) (\<lambda>up.
       Inr (VDict [(lit ''status'', VStr (lit ''success'')),
                   (lit ''operation'', VStr (lit ''uppercase'')),
                   (lit ''message'', up)]))"

definition process_lowercase :: "py_runtime \<Rightarrow> pyval \<Rightarrow> py_exc + pyval" where
  "process_lowercase rt message =
     bind_exc (lower_method rt message) (\<lambda>low.
       Inr (VDict [(lit ''status'', VStr (lit ''success'')),
                   (lit ''operation'', VStr (lit ''lowercase'')),
                   (lit ''message'', low)]))"

definition describe_data :: pyval where
  "describe_data =
     VDict [
       (lit ''input_schema'', VDict [
          (lit ''type'', VStr (lit ''object'')),
          (lit ''properties'', VDict [
             (lit ''operation'', VDict [
                (lit ''type'', VStr (lit ''string'')),
                (lit ''enum'', VList [VStr (lit ''echo''), VStr (lit ''uppercase''),
                                      VStr (lit ''lowercase''), VStr (lit ''describe'')]),
                (lit ''description'', VStr (lit ''The operation to perform''))]),
             (lit ''message'', VDict [
                (lit ''type'', VStr (lit ''string'')),
                (lit ''description'', VStr (lit ''The message to process''))])]),
          (lit ''required'', VList [VStr (lit ''operation'')])]),
       (lit ''operations'', VDict [
          (lit ''echo'', VDict [
             (lit ''description'', VStr (lit ''Returns the input message as-is'')),
             (lit ''required'', VList [VStr (lit ''message'')]),
             (lit ''optional'', VList [])]),
          (lit ''uppercase'', VDict [
             (lit ''description'', VStr (lit ''Converts message to uppercase'')),
             (lit ''required'', VList [VStr (lit ''message'')]),
             (lit ''optional'', VList [])]),
          (lit ''lowercase'', VDict [
             (lit ''description'', VStr (lit ''Converts message to lowercase'')),
             (lit ''required'', VList [VStr (lit ''message'')]),
             (lit ''optional'', VList [])]),
          (lit ''describe'', VDict [
             (lit ''description'',
                VStr (lit ''Returns the input schema and available operations'')),
             (lit ''required'', VList []),
             (lit ''optional'', VList [])])])]"

definition process_describe :: pyval where
  "process_describe =
     VDict [(lit ''status'', VStr (lit ''success'')),
            (lit ''operation'', VStr (lit ''describe'')),
            (lit ''data'', describe_data)]"

section \<open>The entry point\<close>

text \<open>
  \<open>main\<close> is modelled in three parts. \<open>dispatch\<close> is the \<open>if operation == "describe"\<close>
  statement with its \<open>else\<close> branch: the check of the message, then the chain on the
  operation name. \<open>main_body\<close> is the body of the \<open>try\<close> block. Its argument is what
  \<open>json.load(sys.stdin)\<close> does: it raises, or it returns the parsed document. The
  result is the exception that leaves the block, or the document handed to
  \<open>print(json.dumps(...))\<close>. The three \<open>get\<close> calls inside the log messages are
  evaluated before anything is logged, so they are part of the model. Logging itself
  does not raise, and writing the one line to stdout is taken to succeed.
\<close>

definition dispatch :: "py_runtime \<Rightarrow> pyval \<Rightarrow> pyval \<Rightarrow> py_exc + pyval" where
  "dispatch rt user_input operation =
     (if operation = VStr (lit ''describe'') then Inr process_describe
      else bind_exc (py_get user_input (lit ''message'') (VStr [])) (\<lambda>message.
        if \<not> truthy message then Inl (ValueError (lit ''Message is required''))
        else if operation = VStr (lit ''echo'') then Inr (process_echo message)
        else if operation = VStr (lit ''uppercase'') then process_uppercase rt message
        else if operation = VStr (lit ''lowercase'') then process_lowercase rt message
        else Inl (ValueError (lit ''Unknown operation: '' @ format_value rt operation))))"

definition main_body :: "py_runtime \<Rightarrow> py_exc + pyval \<Rightarrow> py_exc + pyval" where
  "main_body rt loaded =
     bind_exc loaded (\<lambda>input_data.
     bind_exc (py_get input_data (lit ''workspace_id'') VNone) (\<lambda>_.
     bind_exc (py_get input_data (lit ''stf_id'') VNone) (\<lambda>_.
     bind_exc (py_get input_data (lit ''caller'') VNone) (\<lambda>_.
     bind_exc (py_get input_data (lit ''input'') (VDict [])) (\<lambda>user_input.
     bind_exc (py_get user_input (lit ''operation'') (VStr (lit ''echo''))) (\<lambda>operation.
     bind_exc (dispatch rt user_input operation) (\<lambda>result.
     Inr (VDict [(lit ''output'', result)]))))))))"

text \<open>
  How the process ends: the documents written to stdout and the exit code, or an
  exception that no handler caught.
\<close>

datatype outcome = Exit (stdout: "pyval list") (exit_code: int) | Uncaught py_exc

definition error_envelope :: "pystr \<Rightarrow> pystr \<Rightarrow> pyval" where
  "error_envelope error_msg kind =
     VDict [(lit ''error'', VStr error_msg), (lit ''type'', VStr kind)]"

text \<open>
  The \<open>except\<close> clauses, in the order of the source. Each prints its envelope and calls
  \<open>sys.exit(1)\<close>; a block that ends without an exception leaves the exit code 0. An
  exception that is not an instance of \<open>Exception\<close> passes all three clauses.
\<close>

definition main :: "py_runtime \<Rightarrow> py_exc + pyval \<Rightarrow> outcome" where
  "main rt loaded =
     (case main_body rt loaded of
        Inr output \<Rightarrow> Exit [output] 0
      | Inl e \<Rightarrow>
          if isinstance e (lit ''JSONDecodeError'') then
            Exit [error_envelope (lit ''Invalid JSON input: '' @ exc_str e)
                    (lit ''JSONDecodeError'')] 1
          else if isinstance e (lit ''ValueError'') then
            Exit [error_envelope (exc_str e) (lit ''ValueError'')] 1
          else if isinstance e (lit ''Exception'') then
            Exit [error_envelope (lit ''Unexpected error: '' @ exc_str e) (exc_name e)] 1
          else Uncaught e)"

section \<open>Definitions used to state the properties\<close>

text \<open>
  A small runtime on which the model can be run: the case mappings and the case
  properties of the ASCII range, every other code point left alone, and \<open>str\<close> of
  \<open>None\<close> and of the booleans.
\<close>

definition ascii_runtime :: py_runtime where
  "ascii_runtime =
     \<lparr>upper_full = (\<lambda>c. if 0x61 \<le> c \<and> c \<le> 0x7A then [c - 0x20] else [c]),
      lower_full = (\<lambda>c. if 0x41 \<le> c \<and> c \<le> 0x5A then [c + 0x20] else [c]),
      is_cased = (\<lambda>c. (0x41 \<le> c \<and> c \<le> 0x5A) \<or> (0x61 \<le> c \<and> c \<le> 0x7A)),
      is_case_ignorable = (\<lambda>c. c \<in> {0x27, 0x2E, 0x3A, 0x5E, 0x60}),
      str_of = (\<lambda>v. case v of
                  VNone \<Rightarrow> lit ''None''
                | VBool b \<Rightarrow> (if b then lit ''True'' else lit ''False'')
                | _ \<Rightarrow> [])\<rparr>"

text \<open>
  The success envelope of the three text operations, as the specification writes it:
  \<open>{"output": {"status": "success", "operation": <op>, "message": <result>}}\<close>.
\<close>

definition success_envelope :: "pystr \<Rightarrow> pyval \<Rightarrow> pyval" where
  "success_envelope opname result =
     VDict [(lit ''output'',
        VDict [(lit ''status'', VStr (lit ''success'')),
               (lit ''operation'', VStr opname),
               (lit ''message'', result)])]"

text \<open>The \<open>message\<close> field of what an operation returns.\<close>

definition result_message :: "py_exc + pyval \<Rightarrow> pyval option" where
  "result_message r =
     (case r of Inr (VDict d) \<Rightarrow> map_of d (lit ''message'') | _ \<Rightarrow> None)"

text \<open>
  The static structure that section 6 of the specification gives for the \<open>data\<close> of
  \<open>describe\<close>, written from the specification.
\<close>

definition spec_describe_data :: pyval where
  "spec_describe_data =
     VDict [
       (lit ''input_schema'', VDict [
          (lit ''type'', VStr (lit ''object'')),
          (lit ''properties'', VDict [
             (lit ''operation'', VDict [
                (lit ''type'', VStr (lit ''string'')),
                (lit ''enum'', VList [VStr (lit ''echo''), VStr (lit ''uppercase''),
                                      VStr (lit ''lowercase''), VStr (lit ''describe'')]),
                (lit ''description'', VStr (lit ''The operation to perform''))]),
             (lit ''message'', VDict [
                (lit ''type'', VStr (lit ''string'')),
                (lit ''description'', VStr (lit ''The message to process''))])]),
          (lit ''required'', VList [VStr (lit ''operation'')])]),
       (lit ''operations'', VDict [
          (lit ''echo'', VDict [
             (lit ''description'', VStr (lit ''Returns the input message as-is'')),
             (lit ''required'', VList [VStr (lit ''message'')]),
             (lit ''optional'', VList [])]),
          (lit ''uppercase'', VDict [
             (lit ''description'', VStr (lit ''Converts message to uppercase'')),
             (lit ''required'', VList [VStr (lit ''message'')]),
             (lit ''optional'', VList [])]),
          (lit ''lowercase'', VDict [
             (lit ''description'', VStr (lit ''Converts message to lowercase'')),
             (lit ''required'', VList [VStr (lit ''message'')]),
             (lit ''optional'', VList [])]),
          (lit ''describe'', VDict [
             (lit ''description'',
                VStr (lit ''Returns the input schema and available operations'')),
             (lit ''required'', VList []),
             (lit ''optional'', VList [])])])]"



text \<open>The code points for which \<open>str.isspace\<close> holds, which \<open>str.strip\<close> would remove.\<close>

definition py_isspace :: "codepoint \<Rightarrow> bool" where
  "py_isspace c =
     ((0x09 \<le> c \<and> c \<le> 0x0D) \<or> (0x1C \<le> c \<and> c \<le> 0x20) \<or> c = 0x85 \<or> c = 0xA0
      \<or> c = 0x1680 \<or> (0x2000 \<le> c \<and> c \<le> 0x200A) \<or> c = 0x2028 \<or> c = 0x2029
      \<or> c = 0x202F \<or> c = 0x205F \<or> c = 0x3000)"

text \<open>The dict without the key \<open>k\<close>.\<close>

definition dict_delete :: "pystr \<Rightarrow> (pystr \<times> pyval) list \<Rightarrow> (pystr \<times> pyval) list" where
  "dict_delete k d = filter (\<lambda>(k', v). k' \<noteq> k) d"

section \<open>The case mappings of Unicode 14.0.0\<close>

text \<open>
  The full case mappings of the Unicode Character Database, version 14.0.0, the one
  CPython 3.11 is built with: for every code point \<open>c\<close> whose upper case (lower case) is
  not \<open>c\<close> itself, the code points of \<open>chr(c).upper()\<close> (\<open>chr(c).lower()\<close>), the
  simple mappings of \<open>UnicodeData.txt\<close> overridden by the unconditional ones of
  \<open>SpecialCasing.txt\<close>. The rows are in the order of the code points, in blocks of 32;
  \<open>upper_lookup\<close> and \<open>lower_lookup\<close> find the block of a code point by bisection. A
  code point without a row is its own upper case (lower case).
\<close>

definition upper_blk_1 :: "codepoint \<Rightarrow> codepoint list option" where
  "upper_blk_1 c =
    (if c = 0x61 then Some [0x41]
     else if c = 0x62 then Some [0x42]
     else if c = 0x63 then Some [0x43]
     else if c = 0x64 then Some [0x44]
     else if c = 0x65 then Some [0x45]
     else if c = 0x66 then Some [0x46]
     else if c = 0x67 then Some [0x47]
     else if c = 0x68 then Some [0x48]
     else if c = 0x69 then Some [0x49]
     else if c = 0x6A then Some [0x4A]
     else if c = 0x6B then Some [0x4B]
     else if c = 0x6C then Some [0x4C]
     else if c = 0x6D then Some [0x4D]
     else if c = 0x6E then Some [0x4E]
     else if c = 0x6F then Some [0x4F]
     else if c = 0x70 then Some [0x50]
     else if c = 0x71 then Some [0x51]
     else if c = 0x72 then Some [0x52]
     else if c = 0x73 then Some [0x53]
     else if c = 0x74 then Some [0x54]
     else if c = 0x75 then Some [0x55]
     else if c = 0x76 then Some [0x56]
     else if c = 0x77 then Some [0x57]
     else if c = 0x78 then Some [0x58]
     else if c = 0x79 then Some [0x59]
     else if c = 0x7A then Some [0x5A]
     else if c = 0xB5 then Some [0x39C]
     else if c = 0xDF then Some [0x53, 0x53]
     else if c = 0xE0 then Some [0xC0]
     else if c = 0xE1 then Some [0xC1]
     else if c = 0xE2 then Some [0xC2]
     else if c = 0xE3 then Some [0xC3]
     else None)"

definition upper_blk_2 :: "codepoint \<Rightarrow> codepoint list option" where
  "upper_blk_2 c =
    (if c = 0xE4 then Some [0xC4]
     else if c = 0xE5 then Some [0xC5]
     else if c = 0xE6 then Some [0xC6]
     else if c = 0xE7 then Some [0xC7]
     else if c = 0xE8 then Some [0xC8]
     else if c = 0xE9 then Some [0xC9]
     else if c = 0xEA then Some [0xCA]
     else if c = 0xEB then Some [0xCB]
     else if c = 0xEC then Some [0xCC]
     else if c = 0xED then Some [0xCD]
     else if c = 0xEE then Some [0xCE]
     else if c = 0xEF then Some [0xCF]
     else if c = 0xF0 then Some [0xD0]
     else if c = 0xF1 then Some [0xD1]
     else if c = 0xF2 then Some [0xD2]
     else if c = 0xF3 then Some [0xD3]
     else if c = 0xF4 then Some [0xD4]
     else if c = 0xF5 then Some [0xD5]
     else if c = 0xF6 then Some [0xD6]
     else if c = 0xF8 then Some [0xD8]
     else if c = 0xF9 then Some [0xD9]
     else if c = 0xFA then Some [0xDA]
     else if c = 0xFB then Some [0xDB]
     else if c = 0xFC then Some [0xDC]
     else if c = 0xFD then Some [0xDD]
     else if c = 0xFE then Some [0xDE]
     else if c = 0xFF then Some [0x178]
     else if c = 0x101 then Some [0x100]
     else if c = 0x103 then Some [0x102]
     else if c = 0x105 then Some [0x104]
     else if c = 0x107 then Some [0x106]
     else if c = 0x109 then Some [0x108]
     else None)"

definition upper_blk_3 :: "codepoint \<Rightarrow> codepoint list option" where
  "upper_blk_3 c =
    (if c = 0x10B then Some [0x10A]
     else if c = 0x10D then Some [0x10C]
     else if c = 0x10F then Some [0x10E]
     else if c = 0x111 then Some [0x110]
     else if c = 0x113 then Some [0x112]
     else if c = 0x115 then Some [0x114]
     else if c = 0x117 then Some [0x116]
     else if c = 0x119 then Some [0x118]
     else if c = 0x11B then Some [0x11A]
     else if c = 0x11D then Some [0x11C]
     else if c = 0x11F then Some [0x11E]
     else if c = 0x121 then Some [0x120]
     else if c = 0x123 then Some [0x122]
     else if c = 0x125 then Some [0x124]
     else if c = 0x127 then Some [0x126]
     else if c = 0x129 then Some [0x128]
     else if c = 0x12B then Some [0x12A]
     else if c = 0x12D then Some [0x12C]
     else if c = 0x12F then Some [0x12E]
     else if c = 0x131 then Some [0x49]
     else if c = 0x133 then Some [0x132]
     else if c = 0x135 then Some [0x134]
     else if c = 0x137 then Some [0x136]
     else if c = 0x13A then Some [0x139]
     else if c = 0x13C then Some [0x13B]
     else if c = 0x13E then Some [0x13D]
     else if c = 0x140 then Some [0x13F]
     else if c = 0x142 then Some [0x141]
     else if c = 0x144 then Some [0x143]
     else if c = 0x146 then Some [0x145]
     else if c = 0x148 then Some [0x147]
     else if c = 0x149 then Some [0x2BC, 0x4E]
     else None)"

definition upper_blk_4 :: "codepoint \<Rightarrow> codepoint list option" where
  "upper_blk_4 c =
    (if c = 0x14B then Some [0x14A]
     else if c = 0x14D then Some [0x14C]
     else if c = 0x14F then Some [0x14E]
     else if c = 0x151 then Some [0x150]
     else if c = 0x153 then Some [0x152]
     else if c = 0x155 then Some [0x154]
     else if c = 0x157 then Some [0x156]
     else if c = 0x159 then Some [0x158]
     else if c = 0x15B then Some [0x15A]
     else if c = 0x15D then Some [0x15C]
     else if c = 0x15F then Some [0x15E]
     else if c = 0x161 then Some [0x160]
     else if c = 0x163 then Some [0x162]
     else if c = 0x165 then Some [0x164]
     else if c = 0x167 then Some [0x166]
     else if c = 0x169 then Some [0x168]
     else if c = 0x16B then Some [0x16A]
     else if c = 0x16D then Some [0x16C]
     else if c = 0x16F then Some [0x16E]
     else if c = 0x171 then Some [0x170]
     else if c = 0x173 then Some [0x172]
     else if c = 0x175 then Some [0x174]
     else if c = 0x177 then Some [0x176]
     else if c = 0x17A then Some [0x179]
     else if c = 0x17C then Some [0x17B]
     else if c = 0x17E then Some [0x17D]
     else if c = 0x17F then Some [0x53]
     else if c = 0x180 then Some [0x243]
     else if c = 0x183 then Some [0x182]
     else if c = 0x185 then Some [0x184]
     else if c = 0x188 then Some [0x187]
     else if c = 0x18C then Some [0x18B]
     else None)"

definition upper_blk_5 :: "codepoint \<Rightarrow> codepoint list option" where
  "upper_blk_5 c =
    (if c = 0x192 then Some [0x191]
     else if c = 0x195 then Some [0x1F6]
     else if c = 0x199 then Some [0x198]
     else if c = 0x19A then Some [0x23D]
     else if c = 0x19E then Some [0x220]
     else if c = 0x1A1 then Some [0x1A0]
     else if c = 0x1A3 then Some [0x1A2]
     else if c = 0x1A5 then Some [0x1A4]
     else if c = 0x1A8 then Some [0x1A7]
     else if c = 0x1AD then Some [0x1AC]
     else if c = 0x1B0 then Some [0x1AF]
     else if c = 0x1B4 then Some [0x1B3]
     else if c = 0x1B6 then Some [0x1B5]
     else if c = 0x1B9 then Some [0x1B8]
     else if c = 0x1BD then Some [0x1BC]
     else if c = 0x1BF then Some [0x1F7]
     else if c = 0x1C5 then Some [0x1C4]
     else if c = 0x1C6 then Some [0x1C4]
     else if c = 0x1C8 then Some [0x1C7]
     else if c = 0x1C9 then Some [0x1C7]
     else if c = 0x1CB then Some [0x1CA]
     else if c = 0x1CC then Some [0x1CA]
     else if c = 0x1CE then Some [0x1CD]
     else if c = 0x1D0 then Some [0x1CF]
     else if c = 0x1D2 then Some [0x1D1]
     else if c = 0x1D4 then Some [0x1D3]
     else if c = 0x1D6 then Some [0x1D5]
     else if c = 0x1D8 then Some [0x1D7]
     else if c = 0x1DA then Some [0x1D9]
     else if c = 0x1DC then Some [0x1DB]
     else if c = 0x1DD then Some [0x18E]
     else if c = 0x1DF then Some [0x1DE]
     else None)"

definition upper_blk_6 :: "codepoint \<Rightarrow> codepoint list option" where
  "upper_blk_6 c =
    (if c = 0x1E1 then Some [0x1E0]
     else if c = 0x1E3 then Some [0x1E2]
     else if c = 0x1E5 then Some [0x1E4]
     else if c = 0x1E7 then Some [0x1E6]
     else if c = 0x1E9 then Some [0x1E8]
     else if c = 0x1EB then Some [0x1EA]
     else if c = 0x1ED then Some [0x1EC]
     else if c = 0x1EF then Some [0x1EE]
     else if c = 0x1F0 then Some [0x4A, 0x30C]
     else if c = 0x1F2 then Some [0x1F1]
     else if c = 0x1F3 then Some [0x1F1]
     else if c = 0x1F5 then Some [0x1F4]
     else if c = 0x1F9 then Some [0x1F8]
     else if c = 0x1FB then Some [0x1FA]
     else if c = 0x1FD then Some [0x1FC]
     else if c = 0x1FF then Some [0x1FE]
     else if c = 0x201 then Some [0x200]
     else if c = 0x203 then Some [0x202]
     else if c = 0x205 then Some [0x204]
     else if c = 0x207 then Some [0x206]
     else if c = 0x209 then Some [0x208]
     else if c = 0x20B then Some [0x20A]
     else if c = 0x20D then Some [0x20C]
     else if c = 0x20F then Some [0x20E]
     else if c = 0x211 then Some [0x210]
     else if c = 0x213 then Some [0x212]
     else if c = 0x215 then Some [0x214]
     else if c = 0x217 then Some [0x216]
     else if c = 0x219 then Some [0x218]
     else if c = 0x21B then Some [0x21A]
     else if c = 0x21D then Some [0x21C]
     else if c = 0x21F then Some [0x21E]
     else None)"

definition upper_blk_7 :: "codepoint \<Rightarrow> codepoint list option" where
  "upper_blk_7 c =
    (if c = 0x223 then Some [0x222]
     else if c = 0x225 then Some [0x224]
     else if c = 0x227 then Some [0x226]
     else if c = 0x229 then Some [0x228]
     else if c = 0x22B then Some [0x22A]
     else if c = 0x22D then Some [0x22C]
     else if c = 0x22F then Some [0x22E]
     else if c = 0x231 then Some [0x230]
     else if c = 0x233 then Some [0x232]
     else if c = 0x23C then Some [0x23B]
     else if c = 0x23F then Some [0x2C7E]
     else if c = 0x240 then Some [0x2C7F]
     else if c = 0x242 then Some [0x241]
     else if c = 0x247 then Some [0x246]
     else if c = 0x249 then Some [0x248]
     else if c = 0x24B then Some [0x24A]
     else if c = 0x24D then Some [0x24C]
     else if c = 0x24F then Some [0x24E]
     else if c = 0x250 then Some [0x2C6F]
     else if c = 0x251 then Some [0x2C6D]
     else if c = 0x252 then Some [0x2C70]
     else if c = 0x253 then Some [0x181]
     else if c = 0x254 then Some [0x186]
     else if c = 0x256 then Some [0x189]
     else if c = 0x257 then Some [0x18A]
     else if c = 0x259 then Some [0x18F]
     else if c = 0x25B then Some [0x190]
     else if c = 0x25C then Some [0xA7AB]
     else if c = 0x260 then Some [0x193]
     else if c = 0x261 then Some [0xA7AC]
     else if c = 0x263 then Some [0x194]
     else if c = 0x265 then Some [0xA78D]
     else None)"

definition upper_blk_8 :: "codepoint \<Rightarrow> codepoint list option" where
  "upper_blk_8 c =
    (if c = 0x266 then Some [0xA7AA]
     else if c = 0x268 then Some [0x197]
     else if c = 0x269 then Some [0x196]
     else if c = 0x26A then Some [0xA7AE]
     else if c = 0x26B then Some [0x2C62]
     else if c = 0x26C then Some [0xA7AD]
     else if c = 0x26F then Some [0x19C]
     else if c = 0x271 then Some [0x2C6E]
     else if c = 0x272 then Some [0x19D]
     else if c = 0x275 then Some [0x19F]
     else if c = 0x27D then Some [0x2C64]
     else if c = 0x280 then Some [0x1A6]
     else if c = 0x282 then Some [0xA7C5]
     else if c = 0x283 then Some [0x1A9]
     else if c = 0x287 then Some [0xA7B1]
     else if c = 0x288 then Some [0x1AE]
     else if c = 0x289 then Some [0x244]
     else if c = 0x28A then Some [0x1B1]
     else if c = 0x28B then Some [0x1B2]
     else if c = 0x28C then Some [0x245]
     else if c = 0x292 then Some [0x1B7]
     else if c = 0x29D then Some [0xA7B2]
     else if c = 0x29E then Some [0xA7B0]
     else if c = 0x345 then Some [0x399]
     else if c = 0x371 then Some [0x370]
     else if c = 0x373 then Some [0x372]
     else if c = 0x377 then Some [0x376]
     else if c = 0x37B then Some [0x3FD]
     else if c = 0x37C then Some [0x3FE]
     else if c = 0x37D then Some [0x3FF]
     else if c = 0x390 then Some [0x399, 0x308, 0x301]
     else if c = 0x3AC then Some [0x386]
     else None)"

definition upper_blk_9 :: "codepoint \<Rightarrow> codepoint list option" where
  "upper_blk_9 c =
    (if c = 0x3AD then Some [0x388]
     else if c = 0x3AE then Some [0x389]
     else if c = 0x3AF then Some [0x38A]
     else if c = 0x3B0 then Some [0x3A5, 0x308, 0x301]
     else if c = 0x3B1 then Some [0x391]
     else if c = 0x3B2 then Some [0x392]
     else if c = 0x3B3 then Some [0x393]
     else if c = 0x3B4 then Some [0x394]
     else if c = 0x3B5 then Some [0x395]
     else if c = 0x3B6 then Some [0x396]
     else if c = 0x3B7 then Some [0x397]
     else if c = 0x3B8 then Some [0x398]
     else if c = 0x3B9 then Some [0x399]
     else if c = 0x3BA then Some [0x39A]
     else if c = 0x3BB then Some [0x39B]
     else if c = 0x3BC then Some [0x39C]
     else if c = 0x3BD then Some [0x39D]
     else if c = 0x3BE then Some [0x39E]
     else if c = 0x3BF then Some [0x39F]
     else if c = 0x3C0 then Some [0x3A0]
     else if c = 0x3C1 then Some [0x3A1]
     else if c = 0x3C2 then Some [0x3A3]
     else if c = 0x3C3 then Some [0x3A3]
     else if c = 0x3C4 then Some [0x3A4]
     else if c = 0x3C5 then Some [0x3A5]
     else if c = 0x3C6 then Some [0x3A6]
     else if c = 0x3C7 then Some [0x3A7]
     else if c = 0x3C8 then Some [0x3A8]
     else if c = 0x3C9 then Some [0x3A9]
     else if c = 0x3CA then Some [0x3AA]
     else if c = 0x3CB then Some [0x3AB]
     else if c = 0x3CC then Some [0x38C]
     else None)"

definition upper_blk_10 :: "codepoint \<Rightarrow> codepoint list option" where
  "upper_blk_10 c =
    (if c = 0x3CD then Some [0x38E]
     else if c = 0x3CE then Some [0x38F]
     else if c = 0x3D0 then Some [0x392]
     else if c = 0x3D1 then Some [0x398]
     else if c = 0x3D5 then Some [0x3A6]
     else if c = 0x3D6 then Some [0x3A0]
     else if c = 0x3D7 then Some [0x3CF]
     else if c = 0x3D9 then Some [0x3D8]
     else if c = 0x3DB then Some [0x3DA]
     else if c = 0x3DD then Some [0x3DC]
     else if c = 0x3DF then Some [0x3DE]
     else if c = 0x3E1 then Some [0x3E0]
     else if c = 0x3E3 then Some [0x3E2]
     else if c = 0x3E5 then Some [0x3E4]
     else if c = 0x3E7 then Some [0x3E6]
     else if c = 0x3E9 then Some [0x3E8]
     else if c = 0x3EB then Some [0x3EA]
     else if c = 0x3ED then Some [0x3EC]
     else if c = 0x3EF then Some [0x3EE]
     else if c = 0x3F0 then Some [0x39A]
     else if c = 0x3F1 then Some [0x3A1]
     else if c = 0x3F2 then Some [0x3F9]
     else if c = 0x3F3 then Some [0x37F]
     else if c = 0x3F5 then Some [0x395]
     else if c = 0x3F8 then Some [0x3F7]
     else if c = 0x3FB then Some [0x3FA]
     else if c = 0x430 then Some [0x410]
     else if c = 0x431 then Some [0x411]
     else if c = 0x432 then Some [0x412]
     else if c = 0x433 then Some [0x413]
     else if c = 0x434 then Some [0x414]
     else if c = 0x435 then Some [0x415]
     else None)"

definition upper_blk_11 :: "codepoint \<Rightarrow> codepoint list option" where
  "upper_blk_11 c =
    (if c = 0x436 then Some [0x416]
     else if c = 0x437 then Some [0x417]
     else if c = 0x438 then Some [0x418]
     else if c = 0x439 then Some [0x419]
     else if c = 0x43A then Some [0x41A]
     else if c = 0x43B then Some [0x41B]
     else if c = 0x43C then Some [0x41C]
     else if c = 0x43D then Some [0x41D]
     else if c = 0x43E then Some [0x41E]
     else if c = 0x43F then Some [0x41F]
     else if c = 0x440 then Some [0x420]
     else if c = 0x441 then Some [0x421]
     else if c = 0x442 then Some [0x422]
     else if c = 0x443 then Some [0x423]
     else if c = 0x444 then Some [0x424]
     else if c = 0x445 then Some [0x425]
     else if c = 0x446 then Some [0x426]
     else if c = 0x447 then Some [0x427]
     else if c = 0x448 then Some [0x428]
     else if c = 0x449 then Some [0x429]
     else if c = 0x44A then Some [0x42A]
     else if c = 0x44B then Some [0x42B]
     else if c = 0x44C then Some [0x42C]
     else if c = 0x44D then Some [0x42D]
     else if c = 0x44E then Some [0x42E]
     else if c = 0x44F then Some [0x42F]
     else if c = 0x450 then Some [0x400]
     else if c = 0x451 then Some [0x401]
     else if c = 0x452 then Some [0x402]
     else if c = 0x453 then Some [0x403]
     else if c = 0x454 then Some [0x404]
     else if c = 0x455 then Some [0x405]
     else None)"

definition upper_blk_12 :: "codepoint \<Rightarrow> codepoint list option" where
  "upper_blk_12 c =
    (if c = 0x456 then Some [0x406]
     else if c = 0x457 then Some [0x407]
     else if c = 0x458 then Some [0x408]
     else if c = 0x459 then Some [0x409]
     else if c = 0x45A then Some [0x40A]
     else if c = 0x45B then Some [0x40B]
     else if c = 0x45C then Some [0x40C]
     else if c = 0x45D then Some [0x40D]
     else if c = 0x45E then Some [0x40E]
     else if c = 0x45F then Some [0x40F]
     else if c = 0x461 then Some [0x460]
     else if c = 0x463 then Some [0x462]
     else if c = 0x465 then Some [0x464]
     else if c = 0x467 then Some [0x466]
     else if c = 0x469 then Some [0x468]
     else if c = 0x46B then Some [0x46A]
     else if c = 0x46D then Some [0x46C]
     else if c = 0x46F then Some [0x46E]
     else if c = 0x471 then Some [0x470]
     else if c = 0x473 then Some [0x472]
     else if c = 0x475 then Some [0x474]
     else if c = 0x477 then Some [0x476]
     else if c = 0x479 then Some [0x478]
     else if c = 0x47B then Some [0x47A]
     else if c = 0x47D then Some [0x47C]
     else if c = 0x47F then Some [0x47E]
     else if c = 0x481 then Some [0x480]
     else if c = 0x48B then Some [0x48A]
     else if c = 0x48D then Some [0x48C]
     else if c = 0x48F then Some [0x48E]
     else if c = 0x491 then Some [0x490]
     else if c = 0x493 then Some [0x492]
     else None)"

definition upper_blk_13 :: "codepoint \<Rightarrow> codepoint list option" where
  "upper_blk_13 c =
    (if c = 0x495 then Some [0x494]
     else if c = 0x497 then Some [0x496]
     else if c = 0x499 then Some [0x498]
     else if c = 0x49B then Some [0x49A]
     else if c = 0x49D then Some [0x49C]
     else if c = 0x49F then Some [0x49E]
     else if c = 0x4A1 then Some [0x4A0]
     else if c = 0x4A3 then Some [0x4A2]
     else if c = 0x4A5 then Some [0x4A4]
     else if c = 0x4A7 then Some [0x4A6]
     else if c = 0x4A9 then Some [0x4A8]
     else if c = 0x4AB then Some [0x4AA]
     else if c = 0x4AD then Some [0x4AC]
     else if c = 0x4AF then Some [0x4AE]
     else if c = 0x4B1 then Some [0x4B0]
     else if c = 0x4B3 then Some [0x4B2]
     else if c = 0x4B5 then Some [0x4B4]
     else if c = 0x4B7 then Some [0x4B6]
     else if c = 0x4B9 then Some [0x4B8]
     else if c = 0x4BB then Some [0x4BA]
     else if c = 0x4BD then Some [0x4BC]
     else if c = 0x4BF then Some [0x4BE]
     else if c = 0x4C2 then Some [0x4C1]
     else if c = 0x4C4 then Some [0x4C3]
     else if c = 0x4C6 then Some [0x4C5]
     else if c = 0x4C8 then Some [0x4C7]
     else if c = 0x4CA then Some [0x4C9]
     else if c = 0x4CC then Some [0x4CB]
     else if c = 0x4CE then Some [0x4CD]
     else if c = 0x4CF then Some [0x4C0]
     else if c = 0x4D1 then Some [0x4D0]
     else if c = 0x4D3 then Some [0x4D2]
     else None)"

definition upper_blk_14 :: "codepoint \<Rightarrow> codepoint list option" where
  "upper_blk_14 c =
    (if c = 0x4D5 then Some [0x4D4]
     else if c = 0x4D7 then Some [0x4D6]
     else if c = 0x4D9 then Some [0x4D8]
     else if c = 0x4DB then Some [0x4DA]
     else if c = 0x4DD then Some [0x4DC]
     else if c = 0x4DF then Some [0x4DE]
     else if c = 0x4E1 then Some [0x4E0]
     else if c = 0x4E3 then Some [0x4E2]
     else if c = 0x4E5 then Some [0x4E4]
     else if c = 0x4E7 then Some [0x4E6]
     else if c = 0x4E9 then Some [0x4E8]
     else if c = 0x4EB then Some [0x4EA]
     else if c = 0x4ED then Some [0x4EC]
     else if c = 0x4EF then Some [0x4EE]
     else if c = 0x4F1 then Some [0x4F0]
     else if c = 0x4F3 then Some [0x4F2]
     else if c = 0x4F5 then Some [0x4F4]
     else if c = 0x4F7 then Some [0x4F6]
     else if c = 0x4F9 then Some [0x4F8]
     else if c = 0x4FB then Some [0x4FA]
     else if c = 0x4FD then Some [0x4FC]
     else if c = 0x4FF then Some [0x4FE]
     else if c = 0x501 then Some [0x500]
     else if c = 0x503 then Some [0x502]
     else if c = 0x505 then Some [0x504]
     else if c = 0x507 then Some [0x506]
     else if c = 0x509 then Some [0x508]
     else if c = 0x50B then Some [0x50A]
     else if c = 0x50D then Some [0x50C]
     else if c = 0x50F then Some [0x50E]
     else if c = 0x511 then Some [0x510]
     else if c = 0x513 then Some [0x512]
     else None)"

definition upper_blk_15 :: "codepoint \<Rightarrow> codepoint list option" where
  "upper_blk_15 c =
    (if c = 0x515 then Some [0x514]
     else if c = 0x517 then Some [0x516]
     else if c = 0x519 then Some [0x518]
     else if c = 0x51B then Some [0x51A]
     else if c = 0x51D then Some [0x51C]
     else if c = 0x51F then Some [0x51E]
     else if c = 0x521 then Some [0x520]
     else if c = 0x523 then Some [0x522]
     else if c = 0x525 then Some [0x524]
     else if c = 0x527 then Some [0x526]
     else if c = 0x529 then Some [0x528]
     else if c = 0x52B then Some [0x52A]
     else if c = 0x52D then Some [0x52C]
     else if c = 0x52F then Some [0x52E]
     else if c = 0x561 then Some [0x531]
     else if c = 0x562 then Some [0x532]
     else if c = 0x563 then Some [0x533]
     else if c = 0x564 then Some [0x534]
     else if c = 0x565 then Some [0x535]
     else if c = 0x566 then Some [0x536]
     else if c = 0x567 then Some [0x537]
     else if c = 0x568 then Some [0x538]
     else if c = 0x569 then Some [0x539]
     else if c = 0x56A then Some [0x53A]
     else if c = 0x56B then Some [0x53B]
     else if c = 0x56C then Some [0x53C]
     else if c = 0x56D then Some [0x53D]
     else if c = 0x56E then Some [0x53E]
     else if c = 0x56F then Some [0x53F]
     else if c = 0x570 then Some [0x540]
     else if c = 0x571 then Some [0x541]
     else if c = 0x572 then Some [0x542]
     else None)"

definition upper_blk_16 :: "codepoint \<Rightarrow> codepoint list option" where
  "upper_blk_16 c =
    (if c = 0x573 then Some [0x543]
     else if c = 0x574 then Some [0x544]
     else if c = 0x575 then Some [0x545]
     else if c = 0x576 then Some [0x546]
     else if c = 0x577 then Some [0x547]
     else if c = 0x578 then Some [0x548]
     else if c = 0x579 then Some [0x549]
     else if c = 0x57A then Some [0x54A]
     else if c = 0x57B then Some [0x54B]
     else if c = 0x57C then Some [0x54C]
     else if c = 0x57D then Some [0x54D]
     else if c = 0x57E then Some [0x54E]
     else if c = 0x57F then Some [0x54F]
     else if c = 0x580 then Some [0x550]
     else if c = 0x581 then Some [0x551]
     else if c = 0x582 then Some [0x552]
     else if c = 0x583 then Some [0x553]
     else if c = 0x584 then Some [0x554]
     else if c = 0x585 then Some [0x555]
     else if c = 0x586 then Some [0x556]
     else if c = 0x587 then Some [0x535, 0x552]
     else if c = 0x10D0 then Some [0x1C90]
     else if c = 0x10D1 then Some [0x1C91]
     else if c = 0x10D2 then Some [0x1C92]
     else if c = 0x10D3 then Some [0x1C93]
     else if c = 0x10D4 then Some [0x1C94]
     else if c = 0x10D5 then Some [0x1C95]
     else if c = 0x10D6 then Some [0x1C96]
     else if c = 0x10D7 then Some [0x1C97]
     else if c = 0x10D8 then Some [0x1C98]
     else if c = 0x10D9 then Some [0x1C99]
     else if c = 0x10DA then Some [0x1C9A]
     else None)"

definition upper_blk_17 :: "codepoint \<Rightarrow> codepoint list option" where
  "upper_blk_17 c =
    (if c = 0x10DB then Some [0x1C9B]
     else if c = 0x10DC then Some [0x1C9C]
     else if c = 0x10DD then Some [0x1C9D]
     else if c = 0x10DE then Some [0x1C9E]
     else if c = 0x10DF then Some [0x1C9F]
     else if c = 0x10E0 then Some [0x1CA0]
     else if c = 0x10E1 then Some [0x1CA1]
     else if c = 0x10E2 then Some [0x1CA2]
     else if c = 0x10E3 then Some [0x1CA3]
     else if c = 0x10E4 then Some [0x1CA4]
     else if c = 0x10E5 then Some [0x1CA5]
     else if c = 0x10E6 then Some [0x1CA6]
     else if c = 0x10E7 then Some [0x1CA7]
     else if c = 0x10E8 then Some [0x1CA8]
     else if c = 0x10E9 then Some [0x1CA9]
     else if c = 0x10EA then Some [0x1CAA]
     else if c = 0x10EB then Some [0x1CAB]
     else if c = 0x10EC then Some [0x1CAC]
     else if c = 0x10ED then Some [0x1CAD]
     else if c = 0x10EE then Some [0x1CAE]
     else if c = 0x10EF then Some [0x1CAF]
     else if c = 0x10F0 then Some [0x1CB0]
     else if c = 0x10F1 then Some [0x1CB1]
     else if c = 0x10F2 then Some [0x1CB2]
     else if c = 0x10F3 then Some [0x1CB3]
     else if c = 0x10F4 then Some [0x1CB4]
     else if c = 0x10F5 then Some [0x1CB5]
     else if c = 0x10F6 then Some [0x1CB6]
     else if c = 0x10F7 then Some [0x1CB7]
     else if c = 0x10F8 then Some [0x1CB8]
     else if c = 0x10F9 then Some [0x1CB9]
     else if c = 0x10FA then Some [0x1CBA]
     else None)"

definition upper_blk_18 :: "codepoint \<Rightarrow> codepoint list option" where
  "upper_blk_18 c =
    (if c = 0x10FD then Some [0x1CBD]
     else if c = 0x10FE then Some [0x1CBE]
     else if c = 0x10FF then Some [0x1CBF]
     else if c = 0x13F8 then Some [0x13F0]
     else if c = 0x13F9 then Some [0x13F1]
     else if c = 0x13FA then Some [0x13F2]
     else if c = 0x13FB then Some [0x13F3]
     else if c = 0x13FC then Some [0x13F4]
     else if c = 0x13FD then Some [0x13F5]
     else if c = 0x1C80 then Some [0x412]
     else if c = 0x1C81 then Some [0x414]
     else if c = 0x1C82 then Some [0x41E]
     else if c = 0x1C83 then Some [0x421]
     else if c = 0x1C84 then Some [0x422]
     else if c = 0x1C85 then Some [0x422]
     else if c = 0x1C86 then Some [0x42A]
     else if c = 0x1C87 then Some [0x462]
     else if c = 0x1C88 then Some [0xA64A]
     else if c = 0x1D79 then Some [0xA77D]
     else if c = 0x1D7D then Some [0x2C63]
     else if c = 0x1D8E then Some [0xA7C6]
     else if c = 0x1E01 then Some [0x1E00]
     else if c = 0x1E03 then Some [0x1E02]
     else if c = 0x1E05 then Some [0x1E04]
     else if c = 0x1E07 then Some [0x1E06]
     else if c = 0x1E09 then Some [0x1E08]
     else if c = 0x1E0B then Some [0x1E0A]
     else if c = 0x1E0D then Some [0x1E0C]
     else if c = 0x1E0F then Some [0x1E0E]
     else if c = 0x1E11 then Some [0x1E10]
     else if c = 0x1E13 then Some [0x1E12]
     else if c = 0x1E15 then Some [0x1E14]
     else None)"

definition upper_blk_19 :: "codepoint \<Rightarrow> codepoint list option" where
  "upper_blk_19 c =
    (if c = 0x1E17 then Some [0x1E16]
     else if c = 0x1E19 then Some [0x1E18]
     else if c = 0x1E1B then Some [0x1E1A]
     else if c = 0x1E1D then Some [0x1E1C]
     else if c = 0x1E1F then Some [0x1E1E]
     else if c = 0x1E21 then Some [0x1E20]
     else if c = 0x1E23 then Some [0x1E22]
     else if c = 0x1E25 then Some [0x1E24]
     else if c = 0x1E27 then Some [0x1E26]
     else if c = 0x1E29 then Some [0x1E28]
     else if c = 0x1E2B then Some [0x1E2A]
     else if c = 0x1E2D then Some [0x1E2C]
     else if c = 0x1E2F then Some [0x1E2E]
     else if c = 0x1E31 then Some [0x1E30]
     else if c = 0x1E33 then Some [0x1E32]
     else if c = 0x1E35 then Some [0x1E34]
     else if c = 0x1E37 then Some [0x1E36]
     else if c = 0x1E39 then Some [0x1E38]
     else if c = 0x1E3B then Some [0x1E3A]
     else if c = 0x1E3D then Some [0x1E3C]
     else if c = 0x1E3F then Some [0x1E3E]
     else if c = 0x1E41 then Some [0x1E40]
     else if c = 0x1E43 then Some [0x1E42]
     else if c = 0x1E45 then Some [0x1E44]
     else if c = 0x1E47 then Some [0x1E46]
     else if c = 0x1E49 then Some [0x1E48]
     else if c = 0x1E4B then Some [0x1E4A]
     else if c = 0x1E4D then Some [0x1E4C]
     else if c = 0x1E4F then Some [0x1E4E]
     else if c = 0x1E51 then Some [0x1E50]
     else if c = 0x1E53 then Some [0x1E52]
     else if c = 0x1E55 then Some [0x1E54]
     else None)"

definition upper_blk_20 :: "codepoint \<Rightarrow> codepoint list option" where
  "upper_blk_20 c =
    (if c = 0x1E57 then Some [0x1E56]
     else if c = 0x1E59 then Some [0x1E58]
     else if c = 0x1E5B then Some [0x1E5A]
     else if c = 0x1E5D then Some [0x1E5C]
     else if c = 0x1E5F then Some [0x1E5E]
     else if c = 0x1E61 then Some [0x1E60]
     else if c = 0x1E63 then Some [0x1E62]
     else if c = 0x1E65 then Some [0x1E64]
     else if c = 0x1E67 then Some [0x1E66]
     else if c = 0x1E69 then Some [0x1E68]
     else if c = 0x1E6B then Some [0x1E6A]
     else if c = 0x1E6D then Some [0x1E6C]
     else if c = 0x1E6F then Some [0x1E6E]
     else if c = 0x1E71 then Some [0x1E70]
     else if c = 0x1E73 then Some [0x1E72]
     else if c = 0x1E75 then Some [0x1E74]
     else if c = 0x1E77 then Some [0x1E76]
     else if c = 0x1E79 then Some [0x1E78]
     else if c = 0x1E7B then Some [0x1E7A]
     else if c = 0x1E7D then Some [0x1E7C]
     else if c = 0x1E7F then Some [0x1E7E]
     else if c = 0x1E81 then Some [0x1E80]
     else if c = 0x1E83 then Some [0x1E82]
     else if c = 0x1E85 then Some [0x1E84]
     else if c = 0x1E87 then Some [0x1E86]
     else if c = 0x1E89 then Some [0x1E88]
     else if c = 0x1E8B then Some [0x1E8A]
     else if c = 0x1E8D then Some [0x1E8C]
     else if c = 0x1E8F then Some [0x1E8E]
     else if c = 0x1E91 then Some [0x1E90]
     else if c = 0x1E93 then Some [0x1E92]
     else if c = 0x1E95 then Some [0x1E94]
     else None)"

definition upper_blk_21 :: "codepoint \<Rightarrow> codepoint list option" where
  "upper_blk_21 c =
    (if c = 0x1E96 then Some [0x48, 0x331]
     else if c = 0x1E97 then Some [0x54, 0x308]
     else if c = 0x1E98 then Some [0x57, 0x30A]
     else if c = 0x1E99 then Some [0x59, 0x30A]
     else if c = 0x1E9A then Some [0x41, 0x2BE]
     else if c = 0x1E9B then Some [0x1E60]
     else if c = 0x1EA1 then Some [0x1EA0]
     else if c = 0x1EA3 then Some [0x1EA2]
     else if c = 0x1EA5 then Some [0x1EA4]
     else if c = 0x1EA7 then Some [0x1EA6]
     else if c = 0x1EA9 then Some [0x1EA8]
     else if c = 0x1EAB then Some [0x1EAA]
     else if c = 0x1EAD then Some [0x1EAC]
     else if c = 0x1EAF then Some [0x1EAE]
     else if c = 0x1EB1 then Some [0x1EB0]
     else if c = 0x1EB3 then Some [0x1EB2]
     else if c = 0x1EB5 then Some [0x1EB4]
     else if c = 0x1EB7 then Some [0x1EB6]
     else if c = 0x1EB9 then Some [0x1EB8]
     else if c = 0x1EBB then Some [0x1EBA]
     else if c = 0x1EBD then Some [0x1EBC]
     else if c = 0x1EBF then Some [0x1EBE]
     else if c = 0x1EC1 then Some [0x1EC0]
     else if c = 0x1EC3 then Some [0x1EC2]
     else if c = 0x1EC5 then Some [0x1EC4]
     else if c = 0x1EC7 then Some [0x1EC6]
     else if c = 0x1EC9 then Some [0x1EC8]
     else if c = 0x1ECB then Some [0x1ECA]
     else if c = 0x1ECD then Some [0x1ECC]
     else if c = 0x1ECF then Some [0x1ECE]
     else if c = 0x1ED1 then Some [0x1ED0]
     else if c = 0x1ED3 then Some [0x1ED2]
     else None)"

definition upper_blk_22 :: "codepoint \<Rightarrow> codepoint list option" where
  "upper_blk_22 c =
    (if c = 0x1ED5 then Some [0x1ED4]
     else if c = 0x1ED7 then Some [0x1ED6]
     else if c = 0x1ED9 then Some [0x1ED8]
     else if c = 0x1EDB then Some [0x1EDA]
     else if c = 0x1EDD then Some [0x1EDC]
     else if c = 0x1EDF then Some [0x1EDE]
     else if c = 0x1EE1 then Some [0x1EE0]
     else if c = 0x1EE3 then Some [0x1EE2]
     else if c = 0x1EE5 then Some [0x1EE4]
     else if c = 0x1EE7 then Some [0x1EE6]
     else if c = 0x1EE9 then Some [0x1EE8]
     else if c = 0x1EEB then Some [0x1EEA]
     else if c = 0x1EED then Some [0x1EEC]
     else if c = 0x1EEF then Some [0x1EEE]
     else if c = 0x1EF1 then Some [0x1EF0]
     else if c = 0x1EF3 then Some [0x1EF2]
     else if c = 0x1EF5 then Some [0x1EF4]
     else if c = 0x1EF7 then Some [0x1EF6]
     else if c = 0x1EF9 then Some [0x1EF8]
     else if c = 0x1EFB then Some [0x1EFA]
     else if c = 0x1EFD then Some [0x1EFC]
     else if c = 0x1EFF then Some [0x1EFE]
     else if c = 0x1F00 then Some [0x1F08]
     else if c = 0x1F01 then Some [0x1F09]
     else if c = 0x1F02 then Some [0x1F0A]
     else if c = 0x1F03 then Some [0x1F0B]
     else if c = 0x1F04 then Some [0x1F0C]
     else if c = 0x1F05 then Some [0x1F0D]
     else if c = 0x1F06 then Some [0x1F0E]
     else if c = 0x1F07 then Some [0x1F0F]
     else if c = 0x1F10 then Some [0x1F18]
     else if c = 0x1F11 then Some [0x1F19]
     else None)"

definition upper_blk_23 :: "codepoint \<Rightarrow> codepoint list option" where
  "upper_blk_23 c =
    (if c = 0x1F12 then Some [0x1F1A]
     else if c = 0x1F13 then Some [0x1F1B]
     else if c = 0x1F14 then Some [0x1F1C]
     else if c = 0x1F15 then Some [0x1F1D]
     else if c = 0x1F20 then Some [0x1F28]
     else if c = 0x1F21 then Some [0x1F29]
     else if c = 0x1F22 then Some [0x1F2A]
     else if c = 0x1F23 then Some [0x1F2B]
     else if c = 0x1F24 then Some [0x1F2C]
     else if c = 0x1F25 then Some [0x1F2D]
     else if c = 0x1F26 then Some [0x1F2E]
     else if c = 0x1F27 then Some [0x1F2F]
     else if c = 0x1F30 then Some [0x1F38]
     else if c = 0x1F31 then Some [0x1F39]
     else if c = 0x1F32 then Some [0x1F3A]
     else if c = 0x1F33 then Some [0x1F3B]
     else if c = 0x1F34 then Some [0x1F3C]
     else if c = 0x1F35 then Some [0x1F3D]
     else if c = 0x1F36 then Some [0x1F3E]
     else if c = 0x1F37 then Some [0x1F3F]
     else if c = 0x1F40 then Some [0x1F48]
     else if c = 0x1F41 then Some [0x1F49]
     else if c = 0x1F42 then Some [0x1F4A]
     else if c = 0x1F43 then Some [0x1F4B]
     else if c = 0x1F44 then Some [0x1F4C]
     else if c = 0x1F45 then Some [0x1F4D]
     else if c = 0x1F50 then Some [0x3A5, 0x313]
     else if c = 0x1F51 then Some [0x1F59]
     else if c = 0x1F52 then Some [0x3A5, 0x313, 0x300]
     else if c = 0x1F53 then Some [0x1F5B]
     else if c = 0x1F54 then Some [0x3A5, 0x313, 0x301]
     else if c = 0x1F55 then Some [0x1F5D]
     else None)"

definition upper_blk_24 :: "codepoint \<Rightarrow> codepoint list option" where
  "upper_blk_24 c =
    (if c = 0x1F56 then Some [0x3A5, 0x313, 0x342]
     else if c = 0x1F57 then Some [0x1F5F]
     else if c = 0x1F60 then Some [0x1F68]
     else if c = 0x1F61 then Some [0x1F69]
     else if c = 0x1F62 then Some [0x1F6A]
     else if c = 0x1F63 then Some [0x1F6B]
     else if c = 0x1F64 then Some [0x1F6C]
     else if c = 0x1F65 then Some [0x1F6D]
     else if c = 0x1F66 then Some [0x1F6E]
     else if c = 0x1F67 then Some [0x1F6F]
     else if c = 0x1F70 then Some [0x1FBA]
     else if c = 0x1F71 then Some [0x1FBB]
     else if c = 0x1F72 then Some [0x1FC8]
     else if c = 0x1F73 then Some [0x1FC9]
     else if c = 0x1F74 then Some [0x1FCA]
     else if c = 0x1F75 then Some [0x1FCB]
     else if c = 0x1F76 then Some [0x1FDA]
     else if c = 0x1F77 then Some [0x1FDB]
     else if c = 0x1F78 then Some [0x1FF8]
     else if c = 0x1F79 then Some [0x1FF9]
     else if c = 0x1F7A then Some [0x1FEA]
     else if c = 0x1F7B then Some [0x1FEB]
     else if c = 0x1F7C then Some [0x1FFA]
     else if c = 0x1F7D then Some [0x1FFB]
     else if c = 0x1F80 then Some [0x1F08, 0x399]
     else if c = 0x1F81 then Some [0x1F09, 0x399]
     else if c = 0x1F82 then Some [0x1F0A, 0x399]
     else if c = 0x1F83 then Some [0x1F0B, 0x399]
     else if c = 0x1F84 then Some [0x1F0C, 0x399]
     else if c = 0x1F85 then Some [0x1F0D, 0x399]
     else if c = 0x1F86 then Some [0x1F0E, 0x399]
     else if c = 0x1F87 then Some [0x1F0F, 0x399]
     else None)"

definition upper_blk_25 :: "codepoint \<Rightarrow> codepoint list option" where
  "upper_blk_25 c =
    (if c = 0x1F88 then Some [0x1F08, 0x399]
     else if c = 0x1F89 then Some [0x1F09, 0x399]
     else if c = 0x1F8A then Some [0x1F0A, 0x399]
     else if c = 0x1F8B then Some [0x1F0B, 0x399]
     else if c = 0x1F8C then Some [0x1F0C, 0x399]
     else if c = 0x1F8D then Some [0x1F0D, 0x399]
     else if c = 0x1F8E then Some [0x1F0E, 0x399]
     else if c = 0x1F8F then Some [0x1F0F, 0x399]
     else if c = 0x1F90 then Some [0x1F28, 0x399]
     else if c = 0x1F91 then Some [0x1F29, 0x399]
     else if c = 0x1F92 then Some [0x1F2A, 0x399]
     else if c = 0x1F93 then Some [0x1F2B, 0x399]
     else if c = 0x1F94 then Some [0x1F2C, 0x399]
     else if c = 0x1F95 then Some [0x1F2D, 0x399]
     else if c = 0x1F96 then Some [0x1F2E, 0x399]
     else if c = 0x1F97 then Some [0x1F2F, 0x399]
     else if c = 0x1F98 then Some [0x1F28, 0x399]
     else if c = 0x1F99 then Some [0x1F29, 0x399]
     else if c = 0x1F9A then Some [0x1F2A, 0x399]
     else if c = 0x1F9B then Some [0x1F2B, 0x399]
     else if c = 0x1F9C then Some [0x1F2C, 0x399]
     else if c = 0x1F9D then Some [0x1F2D, 0x399]
     else if c = 0x1F9E then Some [0x1F2E, 0x399]
     else if c = 0x1F9F then Some [0x1F2F, 0x399]
     else if c = 0x1FA0 then Some [0x1F68, 0x399]
     else if c = 0x1FA1 then Some [0x1F69, 0x399]
     else if c = 0x1FA2 then Some [0x1F6A, 0x399]
     else if c = 0x1FA3 then Some [0x1F6B, 0x399]
     else if c = 0x1FA4 then Some [0x1F6C, 0x399]
     else if c = 0x1FA5 then Some [0x1F6D, 0x399]
     else if c = 0x1FA6 then Some [0x1F6E, 0x399]
     else if c = 0x1FA7 then Some [0x1F6F, 0x399]
     else None)"

definition upper_blk_26 :: "codepoint \<Rightarrow> codepoint list option" where
  "upper_blk_26 c =
    (if c = 0x1FA8 then Some [0x1F68, 0x399]
     else if c = 0x1FA9 then Some [0x1F69, 0x399]
     else if c = 0x1FAA then Some [0x1F6A, 0x399]
     else if c = 0x1FAB then Some [0x1F6B, 0x399]
     else if c = 0x1FAC then Some [0x1F6C, 0x399]
     else if c = 0x1FAD then Some [0x1F6D, 0x399]
     else if c = 0x1FAE then Some [0x1F6E, 0x399]
     else if c = 0x1FAF then Some [0x1F6F, 0x399]
     else if c = 0x1FB0 then Some [0x1FB8]
     else if c = 0x1FB1 then Some [0x1FB9]
     else if c = 0x1FB2 then Some [0x1FBA, 0x399]
     else if c = 0x1FB3 then Some [0x391, 0x399]
     else if c = 0x1FB4 then Some [0x386, 0x399]
     else if c = 0x1FB6 then Some [0x391, 0x342]
     else if c = 0x1FB7 then Some [0x391, 0x342, 0x399]
     else if c = 0x1FBC then Some [0x391, 0x399]
     else if c = 0x1FBE then Some [0x399]
     else if c = 0x1FC2 then Some [0x1FCA, 0x399]
     else if c = 0x1FC3 then Some [0x397, 0x399]
     else if c = 0x1FC4 then Some [0x389, 0x399]
     else if c = 0x1FC6 then Some [0x397, 0x342]
     else if c = 0x1FC7 then Some [0x397, 0x342, 0x399]
     else if c = 0x1FCC then Some [0x397, 0x399]
     else if c = 0x1FD0 then Some [0x1FD8]
     else if c = 0x1FD1 then Some [0x1FD9]
     else if c = 0x1FD2 then Some [0x399, 0x308, 0x300]
     else if c = 0x1FD3 then Some [0x399, 0x308, 0x301]
     else if c = 0x1FD6 then Some [0x399, 0x342]
     else if c = 0x1FD7 then Some [0x399, 0x308, 0x342]
     else if c = 0x1FE0 then Some [0x1FE8]
     else if c = 0x1FE1 then Some [0x1FE9]
     else if c = 0x1FE2 then Some [0x3A5, 0x308, 0x300]
     else None)"

definition upper_blk_27 :: "codepoint \<Rightarrow> codepoint list option" where
  "upper_blk_27 c =
    (if c = 0x1FE3 then Some [0x3A5, 0x308, 0x301]
     else if c = 0x1FE4 then Some [0x3A1, 0x313]
     else if c = 0x1FE5 then Some [0x1FEC]
     else if c = 0x1FE6 then Some [0x3A5, 0x342]
     else if c = 0x1FE7 then Some [0x3A5, 0x308, 0x342]
     else if c = 0x1FF2 then Some [0x1FFA, 0x399]
     else if c = 0x1FF3 then Some [0x3A9, 0x399]
     else if c = 0x1FF4 then Some [0x38F, 0x399]
     else if c = 0x1FF6 then Some [0x3A9, 0x342]
     else if c = 0x1FF7 then Some [0x3A9, 0x342, 0x399]
     else if c = 0x1FFC then Some [0x3A9, 0x399]
     else if c = 0x214E then Some [0x2132]
     else if c = 0x2170 then Some [0x2160]
     else if c = 0x2171 then Some [0x2161]
     else if c = 0x2172 then Some [0x2162]
     else if c = 0x2173 then Some [0x2163]
     else if c = 0x2174 then Some [0x2164]
     else if c = 0x2175 then Some [0x2165]
     else if c = 0x2176 then Some [0x2166]
     else if c = 0x2177 then Some [0x2167]
     else if c = 0x2178 then Some [0x2168]
     else if c = 0x2179 then Some [0x2169]
     else if c = 0x217A then Some [0x216A]
     else if c = 0x217B then Some [0x216B]
     else if c = 0x217C then Some [0x216C]
     else if c = 0x217D then Some [0x216D]
     else if c = 0x217E then Some [0x216E]
     else if c = 0x217F then Some [0x216F]
     else if c = 0x2184 then Some [0x2183]
     else if c = 0x24D0 then Some [0x24B6]
     else if c = 0x24D1 then Some [0x24B7]
     else if c = 0x24D2 then Some [0x24B8]
     else None)"

definition upper_blk_28 :: "codepoint \<Rightarrow> codepoint list option" where
  "upper_blk_28 c =
    (if c = 0x24D3 then Some [0x24B9]
     else if c = 0x24D4 then Some [0x24BA]
     else if c = 0x24D5 then Some [0x24BB]
     else if c = 0x24D6 then Some [0x24BC]
     else if c = 0x24D7 then Some [0x24BD]
     else if c = 0x24D8 then Some [0x24BE]
     else if c = 0x24D9 then Some [0x24BF]
     else if c = 0x24DA then Some [0x24C0]
     else if c = 0x24DB then Some [0x24C1]
     else if c = 0x24DC then Some [0x24C2]
     else if c = 0x24DD then Some [0x24C3]
     else if c = 0x24DE then Some [0x24C4]
     else if c = 0x24DF then Some [0x24C5]
     else if c = 0x24E0 then Some [0x24C6]
     else if c = 0x24E1 then Some [0x24C7]
     else if c = 0x24E2 then Some [0x24C8]
     else if c = 0x24E3 then Some [0x24C9]
     else if c = 0x24E4 then Some [0x24CA]
     else if c = 0x24E5 then Some [0x24CB]
     else if c = 0x24E6 then Some [0x24CC]
     else if c = 0x24E7 then Some [0x24CD]
     else if c = 0x24E8 then Some [0x24CE]
     else if c = 0x24E9 then Some [0x24CF]
     else if c = 0x2C30 then Some [0x2C00]
     else if c = 0x2C31 then Some [0x2C01]
     else if c = 0x2C32 then Some [0x2C02]
     else if c = 0x2C33 then Some [0x2C03]
     else if c = 0x2C34 then Some [0x2C04]
     else if c = 0x2C35 then Some [0x2C05]
     else if c = 0x2C36 then Some [0x2C06]
     else if c = 0x2C37 then Some [0x2C07]
     else if c = 0x2C38 then Some [0x2C08]
     else None)"

definition upper_blk_29 :: "codepoint \<Rightarrow> codepoint list option" where
  "upper_blk_29 c =
    (if c = 0x2C39 then Some [0x2C09]
     else if c = 0x2C3A then Some [0x2C0A]
     else if c = 0x2C3B then Some [0x2C0B]
     else if c = 0x2C3C then Some [0x2C0C]
     else if c = 0x2C3D then Some [0x2C0D]
     else if c = 0x2C3E then Some [0x2C0E]
     else if c = 0x2C3F then Some [0x2C0F]
     else if c = 0x2C40 then Some [0x2C10]
     else if c = 0x2C41 then Some [0x2C11]
     else if c = 0x2C42 then Some [0x2C12]
     else if c = 0x2C43 then Some [0x2C13]
     else if c = 0x2C44 then Some [0x2C14]
     else if c = 0x2C45 then Some [0x2C15]
     else if c = 0x2C46 then Some [0x2C16]
     else if c = 0x2C47 then Some [0x2C17]
     else if c = 0x2C48 then Some [0x2C18]
     else if c = 0x2C49 then Some [0x2C19]
     else if c = 0x2C4A then Some [0x2C1A]
     else if c = 0x2C4B then Some [0x2C1B]
     else if c = 0x2C4C then Some [0x2C1C]
     else if c = 0x2C4D then Some [0x2C1D]
     else if c = 0x2C4E then Some [0x2C1E]
     else if c = 0x2C4F then Some [0x2C1F]
     else if c = 0x2C50 then Some [0x2C20]
     else if c = 0x2C51 then Some [0x2C21]
     else if c = 0x2C52 then Some [0x2C22]
     else if c = 0x2C53 then Some [0x2C23]
     else if c = 0x2C54 then Some [0x2C24]
     else if c = 0x2C55 then Some [0x2C25]
     else if c = 0x2C56 then Some [0x2C26]
     else if c = 0x2C57 then Some [0x2C27]
     else if c = 0x2C58 then Some [0x2C28]
     else None)"

definition upper_blk_30 :: "codepoint \<Rightarrow> codepoint list option" where
  "upper_blk_30 c =
    (if c = 0x2C59 then Some [0x2C29]
     else if c = 0x2C5A then Some [0x2C2A]
     else if c = 0x2C5B then Some [0x2C2B]
     else if c = 0x2C5C then Some [0x2C2C]
     else if c = 0x2C5D then Some [0x2C2D]
     else if c = 0x2C5E then Some [0x2C2E]
     else if c = 0x2C5F then Some [0x2C2F]
     else if c = 0x2C61 then Some [0x2C60]
     else if c = 0x2C65 then Some [0x23A]
     else if c = 0x2C66 then Some [0x23E]
     else if c = 0x2C68 then Some [0x2C67]
     else if c = 0x2C6A then Some [0x2C69]
     else if c = 0x2C6C then Some [0x2C6B]
     else if c = 0x2C73 then Some [0x2C72]
     else if c = 0x2C76 then Some [0x2C75]
     else if c = 0x2C81 then Some [0x2C80]
     else if c = 0x2C83 then Some [0x2C82]
     else if c = 0x2C85 then Some [0x2C84]
     else if c = 0x2C87 then Some [0x2C86]
     else if c = 0x2C89 then Some [0x2C88]
     else if c = 0x2C8B then Some [0x2C8A]
     else if c = 0x2C8D then Some [0x2C8C]
     else if c = 0x2C8F then Some [0x2C8E]
     else if c = 0x2C91 then Some [0x2C90]
     else if c = 0x2C93 then Some [0x2C92]
     else if c = 0x2C95 then Some [0x2C94]
     else if c = 0x2C97 then Some [0x2C96]
     else if c = 0x2C99 then Some [0x2C98]
     else if c = 0x2C9B then Some [0x2C9A]
     else if c = 0x2C9D then Some [0x2C9C]
     else if c = 0x2C9F then Some [0x2C9E]
     else if c = 0x2CA1 then Some [0x2CA0]
     else None)"

definition upper_blk_31 :: "codepoint \<Rightarrow> codepoint list option" where
  "upper_blk_31 c =
    (if c = 0x2CA3 then Some [0x2CA2]
     else if c = 0x2CA5 then Some [0x2CA4]
     else if c = 0x2CA7 then Some [0x2CA6]
     else if c = 0x2CA9 then Some [0x2CA8]
     else if c = 0x2CAB then Some [0x2CAA]
     else if c = 0x2CAD then Some [0x2CAC]
     else if c = 0x2CAF then Some [0x2CAE]
     else if c = 0x2CB1 then Some [0x2CB0]
     else if c = 0x2CB3 then Some [0x2CB2]
     else if c = 0x2CB5 then Some [0x2CB4]
     else if c = 0x2CB7 then Some [0x2CB6]
     else if c = 0x2CB9 then Some [0x2CB8]
     else if c = 0x2CBB then Some [0x2CBA]
     else if c = 0x2CBD then Some [0x2CBC]
     else if c = 0x2CBF then Some [0x2CBE]
     else if c = 0x2CC1 then Some [0x2CC0]
     else if c = 0x2CC3 then Some [0x2CC2]
     else if c = 0x2CC5 then Some [0x2CC4]
     else if c = 0x2CC7 then Some [0x2CC6]
     else if c = 0x2CC9 then Some [0x2CC8]
     else if c = 0x2CCB then Some [0x2CCA]
     else if c = 0x2CCD then Some [0x2CCC]
     else if c = 0x2CCF then Some [0x2CCE]
     else if c = 0x2CD1 then Some [0x2CD0]
     else if c = 0x2CD3 then Some [0x2CD2]
     else if c = 0x2CD5 then Some [0x2CD4]
     else if c = 0x2CD7 then Some [0x2CD6]
     else if c = 0x2CD9 then Some [0x2CD8]
     else if c = 0x2CDB then Some [0x2CDA]
     else if c = 0x2CDD then Some [0x2CDC]
     else if c = 0x2CDF then Some [0x2CDE]
     else if c = 0x2CE1 then Some [0x2CE0]
     else None)"

definition upper_blk_32 :: "codepoint \<Rightarrow> codepoint list option" where
  "upper_blk_32 c =
    (if c = 0x2CE3 then Some [0x2CE2]
     else if c = 0x2CEC then Some [0x2CEB]
     else if c = 0x2CEE then Some [0x2CED]
     else if c = 0x2CF3 then Some [0x2CF2]
     else if c = 0x2D00 then Some [0x10A0]
     else if c = 0x2D01 then Some [0x10A1]
     else if c = 0x2D02 then Some [0x10A2]
     else if c = 0x2D03 then Some [0x10A3]
     else if c = 0x2D04 then Some [0x10A4]
     else if c = 0x2D05 then Some [0x10A5]
     else if c = 0x2D06 then Some [0x10A6]
     else if c = 0x2D07 then Some [0x10A7]
     else if c = 0x2D08 then Some [0x10A8]
     else if c = 0x2D09 then Some [0x10A9]
     else if c = 0x2D0A then Some [0x10AA]
     else if c = 0x2D0B then Some [0x10AB]
     else if c = 0x2D0C then Some [0x10AC]
     else if c = 0x2D0D then Some [0x10AD]
     else if c = 0x2D0E then Some [0x10AE]
     else if c = 0x2D0F then Some [0x10AF]
     else if c = 0x2D10 then Some [0x10B0]
     else if c = 0x2D11 then Some [0x10B1]
     else if c = 0x2D12 then Some [0x10B2]
     else if c = 0x2D13 then Some [0x10B3]
     else if c = 0x2D14 then Some [0x10B4]
     else if c = 0x2D15 then Some [0x10B5]
     else if c = 0x2D16 then Some [0x10B6]
     else if c = 0x2D17 then Some [0x10B7]
     else if c = 0x2D18 then Some [0x10B8]
     else if c = 0x2D19 then Some [0x10B9]
     else if c = 0x2D1A then Some [0x10BA]
     else if c = 0x2D1B then Some [0x10BB]
     else None)"

definition upper_blk_33 :: "codepoint \<Rightarrow> codepoint list option" where
  "upper_blk_33 c =
    (if c = 0x2D1C then Some [0x10BC]
     else if c = 0x2D1D then Some [0x10BD]
     else if c = 0x2D1E then Some [0x10BE]
     else if c = 0x2D1F then Some [0x10BF]
     else if c = 0x2D20 then Some [0x10C0]
     else if c = 0x2D21 then Some [0x10C1]
     else if c = 0x2D22 then Some [0x10C2]
     else if c = 0x2D23 then Some [0x10C3]
     else if c = 0x2D24 then Some [0x10C4]
     else if c = 0x2D25 then Some [0x10C5]
     else if c = 0x2D27 then Some [0x10C7]
     else if c = 0x2D2D then Some [0x10CD]
     else if c = 0xA641 then Some [0xA640]
     else if c = 0xA643 then Some [0xA642]
     else if c = 0xA645 then Some [0xA644]
     else if c = 0xA647 then Some [0xA646]
     else if c = 0xA649 then Some [0xA648]
     else if c = 0xA64B then Some [0xA64A]
     else if c = 0xA64D then Some [0xA64C]
     else if c = 0xA64F then Some [0xA64E]
     else if c = 0xA651 then Some [0xA650]
     else if c = 0xA653 then Some [0xA652]
     else if c = 0xA655 then Some [0xA654]
     else if c = 0xA657 then Some [0xA656]
     else if c = 0xA659 then Some [0xA658]
     else if c = 0xA65B then Some [0xA65A]
     else if c = 0xA65D then Some [0xA65C]
     else if c = 0xA65F then Some [0xA65E]
     else if c = 0xA661 then Some [0xA660]
     else if c = 0xA663 then Some [0xA662]
     else if c = 0xA665 then Some [0xA664]
     else if c = 0xA667 then Some [0xA666]
     else None)"

definition upper_blk_34 :: "codepoint \<Rightarrow> codepoint list option" where
  "upper_blk_34 c =
    (if c = 0xA669 then Some [0xA668]
     else if c = 0xA66B then Some [0xA66A]
     else if c = 0xA66D then Some [0xA66C]
     else if c = 0xA681 then Some [0xA680]
     else if c = 0xA683 then Some [0xA682]
     else if c = 0xA685 then Some [0xA684]
     else if c = 0xA687 then Some [0xA686]
     else if c = 0xA689 then Some [0xA688]
     else if c = 0xA68B then Some [0xA68A]
     else if c = 0xA68D then Some [0xA68C]
     else if c = 0xA68F then Some [0xA68E]
     else if c = 0xA691 then Some [0xA690]
     else if c = 0xA693 then Some [0xA692]
     else if c = 0xA695 then Some [0xA694]
     else if c = 0xA697 then Some [0xA696]
     else if c = 0xA699 then Some [0xA698]
     else if c = 0xA69B then Some [0xA69A]
     else if c = 0xA723 then Some [0xA722]
     else if c = 0xA725 then Some [0xA724]
     else if c = 0xA727 then Some [0xA726]
     else if c = 0xA729 then Some [0xA728]
     else if c = 0xA72B then Some [0xA72A]
     else if c = 0xA72D then Some [0xA72C]
     else if c = 0xA72F then Some [0xA72E]
     else if c = 0xA733 then Some [0xA732]
     else if c = 0xA735 then Some [0xA734]
     else if c = 0xA737 then Some [0xA736]
     else if c = 0xA739 then Some [0xA738]
     else if c = 0xA73B then Some [0xA73A]
     else if c = 0xA73D then Some [0xA73C]
     else if c = 0xA73F then Some [0xA73E]
     else if c = 0xA741 then Some [0xA740]
     else None)"

definition upper_blk_35 :: "codepoint \<Rightarrow> codepoint list option" where
  "upper_blk_35 c =
    (if c = 0xA743 then Some [0xA742]
     else if c = 0xA745 then Some [0xA744]
     else if c = 0xA747 then Some [0xA746]
     else if c = 0xA749 then Some [0xA748]
     else if c = 0xA74B then Some [0xA74A]
     else if c = 0xA74D then Some [0xA74C]
     else if c = 0xA74F then Some [0xA74E]
     else if c = 0xA751 then Some [0xA750]
     else if c = 0xA753 then Some [0xA752]
     else if c = 0xA755 then Some [0xA754]
     else if c = 0xA757 then Some [0xA756]
     else if c = 0xA759 then Some [0xA758]
     else if c = 0xA75B then Some [0xA75A]
     else if c = 0xA75D then Some [0xA75C]
     else if c = 0xA75F then Some [0xA75E]
     else if c = 0xA761 then Some [0xA760]
     else if c = 0xA763 then Some [0xA762]
     else if c = 0xA765 then Some [0xA764]
     else if c = 0xA767 then Some [0xA766]
     else if c = 0xA769 then Some [0xA768]
     else if c = 0xA76B then Some [0xA76A]
     else if c = 0xA76D then Some [0xA76C]
     else if c = 0xA76F then Some [0xA76E]
     else if c = 0xA77A then Some [0xA779]
     else if c = 0xA77C then Some [0xA77B]
     else if c = 0xA77F then Some [0xA77E]
     else if c = 0xA781 then Some [0xA780]
     else if c = 0xA783 then Some [0xA782]
     else if c = 0xA785 then Some [0xA784]
     else if c = 0xA787 then Some [0xA786]
     else if c = 0xA78C then Some [0xA78B]
     else if c = 0xA791 then Some [0xA790]
     else None)"

definition upper_blk_36 :: "codepoint \<Rightarrow> codepoint list option" where
  "upper_blk_36 c =
    (if c = 0xA793 then Some [0xA792]
     else if c = 0xA794 then Some [0xA7C4]
     else if c = 0xA797 then Some [0xA796]
     else if c = 0xA799 then Some [0xA798]
     else if c = 0xA79B then Some [0xA79A]
     else if c = 0xA79D then Some [0xA79C]
     else if c = 0xA79F then Some [0xA79E]
     else if c = 0xA7A1 then Some [0xA7A0]
     else if c = 0xA7A3 then Some [0xA7A2]
     else if c = 0xA7A5 then Some [0xA7A4]
     else if c = 0xA7A7 then Some [0xA7A6]
     else if c = 0xA7A9 then Some [0xA7A8]
     else if c = 0xA7B5 then Some [0xA7B4]
     else if c = 0xA7B7 then Some [0xA7B6]
     else if c = 0xA7B9 then Some [0xA7B8]
     else if c = 0xA7BB then Some [0xA7BA]
     else if c = 0xA7BD then Some [0xA7BC]
     else if c = 0xA7BF then Some [0xA7BE]
     else if c = 0xA7C1 then Some [0xA7C0]
     else if c = 0xA7C3 then Some [0xA7C2]
     else if c = 0xA7C8 then Some [0xA7C7]
     else if c = 0xA7CA then Some [0xA7C9]
     else if c = 0xA7D1 then Some [0xA7D0]
     else if c = 0xA7D7 then Some [0xA7D6]
     else if c = 0xA7D9 then Some [0xA7D8]
     else if c = 0xA7F6 then Some [0xA7F5]
     else if c = 0xAB53 then Some [0xA7B3]
     else if c = 0xAB70 then Some [0x13A0]
     else if c = 0xAB71 then Some [0x13A1]
     else if c = 0xAB72 then Some [0x13A2]
     else if c = 0xAB73 then Some [0x13A3]
     else if c = 0xAB74 then Some [0x13A4]
     else None)"

definition upper_blk_37 :: "codepoint \<Rightarrow> codepoint list option" where
  "upper_blk_37 c =
    (if c = 0xAB75 then Some [0x13A5]
     else if c = 0xAB76 then Some [0x13A6]
     else if c = 0xAB77 then Some [0x13A7]
     else if c = 0xAB78 then Some [0x13A8]
     else if c = 0xAB79 then Some [0x13A9]
     else if c = 0xAB7A then Some [0x13AA]
     else if c = 0xAB7B then Some [0x13AB]
     else if c = 0xAB7C then Some [0x13AC]
     else if c = 0xAB7D then Some [0x13AD]
     else if c = 0xAB7E then Some [0x13AE]
     else if c = 0xAB7F then Some [0x13AF]
     else if c = 0xAB80 then Some [0x13B0]
     else if c = 0xAB81 then Some [0x13B1]
     else if c = 0xAB82 then Some [0x13B2]
     else if c = 0xAB83 then Some [0x13B3]
     else if c = 0xAB84 then Some [0x13B4]
     else if c = 0xAB85 then Some [0x13B5]
     else if c = 0xAB86 then Some [0x13B6]
     else if c = 0xAB87 then Some [0x13B7]
     else if c = 0xAB88 then Some [0x13B8]
     else if c = 0xAB89 then Some [0x13B9]
     else if c = 0xAB8A then Some [0x13BA]
     else if c = 0xAB8B then Some [0x13BB]
     else if c = 0xAB8C then Some [0x13BC]
     else if c = 0xAB8D then Some [0x13BD]
     else if c = 0xAB8E then Some [0x13BE]
     else if c = 0xAB8F then Some [0x13BF]
     else if c = 0xAB90 then Some [0x13C0]
     else if c = 0xAB91 then Some [0x13C1]
     else if c = 0xAB92 then Some [0x13C2]
     else if c = 0xAB93 then Some [0x13C3]
     else if c = 0xAB94 then Some [0x13C4]
     else None)"

definition upper_blk_38 :: "codepoint \<Rightarrow> codepoint list option" where
  "upper_blk_38 c =
    (if c = 0xAB95 then Some [0x13C5]
     else if c = 0xAB96 then Some [0x13C6]
     else if c = 0xAB97 then Some [0x13C7]
     else if c = 0xAB98 then Some [0x13C8]
     else if c = 0xAB99 then Some [0x13C9]
     else if c = 0xAB9A then Some [0x13CA]
     else if c = 0xAB9B then Some [0x13CB]
     else if c = 0xAB9C then Some [0x13CC]
     else if c = 0xAB9D then Some [0x13CD]
     else if c = 0xAB9E then Some [0x13CE]
     else if c = 0xAB9F then Some [0x13CF]
     else if c = 0xABA0 then Some [0x13D0]
     else if c = 0xABA1 then Some [0x13D1]
     else if c = 0xABA2 then Some [0x13D2]
     else if c = 0xABA3 then Some [0x13D3]
     else if c = 0xABA4 then Some [0x13D4]
     else if c = 0xABA5 then Some [0x13D5]
     else if c = 0xABA6 then Some [0x13D6]
     else if c = 0xABA7 then Some [0x13D7]
     else if c = 0xABA8 then Some [0x13D8]
     else if c = 0xABA9 then Some [0x13D9]
     else if c = 0xABAA then Some [0x13DA]
     else if c = 0xABAB then Some [0x13DB]
     else if c = 0xABAC then Some [0x13DC]
     else if c = 0xABAD then Some [0x13DD]
     else if c = 0xABAE then Some [0x13DE]
     else if c = 0xABAF then Some [0x13DF]
     else if c = 0xABB0 then Some [0x13E0]
     else if c = 0xABB1 then Some [0x13E1]
     else if c = 0xABB2 then Some [0x13E2]
     else if c = 0xABB3 then Some [0x13E3]
     else if c = 0xABB4 then Some [0x13E4]
     else None)"

definition upper_blk_39 :: "codepoint \<Rightarrow> codepoint list option" where
  "upper_blk_39 c =
    (if c = 0xABB5 then Some [0x13E5]
     else if c = 0xABB6 then Some [0x13E6]
     else if c = 0xABB7 then Some [0x13E7]
     else if c = 0xABB8 then Some [0x13E8]
     else if c = 0xABB9 then Some [0x13E9]
     else if c = 0xABBA then Some [0x13EA]
     else if c = 0xABBB then Some [0x13EB]
     else if c = 0xABBC then Some [0x13EC]
     else if c = 0xABBD then Some [0x13ED]
     else if c = 0xABBE then Some [0x13EE]
     else if c = 0xABBF then Some [0x13EF]
     else if c = 0xFB00 then Some [0x46, 0x46]
     else if c = 0xFB01 then Some [0x46, 0x49]
     else if c = 0xFB02 then Some [0x46, 0x4C]
     else if c = 0xFB03 then Some [0x46, 0x46, 0x49]
     else if c = 0xFB04 then Some [0x46, 0x46, 0x4C]
     else if c = 0xFB05 then Some [0x53, 0x54]
     else if c = 0xFB06 then Some [0x53, 0x54]
     else if c = 0xFB13 then Some [0x544, 0x546]
     else if c = 0xFB14 then Some [0x544, 0x535]
     else if c = 0xFB15 then Some [0x544, 0x53B]
     else if c = 0xFB16 then Some [0x54E, 0x546]
     else if c = 0xFB17 then Some [0x544, 0x53D]
     else if c = 0xFF41 then Some [0xFF21]
     else if c = 0xFF42 then Some [0xFF22]
     else if c = 0xFF43 then Some [0xFF23]
     else if c = 0xFF44 then Some [0xFF24]
     else if c = 0xFF45 then Some [0xFF25]
     else if c = 0xFF46 then Some [0xFF26]
     else if c = 0xFF47 then Some [0xFF27]
     else if c = 0xFF48 then Some [0xFF28]
     else if c = 0xFF49 then Some [0xFF29]
     else None)"

definition upper_blk_40 :: "codepoint \<Rightarrow> codepoint list option" where
  "upper_blk_40 c =
    (if c = 0xFF4A then Some [0xFF2A]
     else if c = 0xFF4B then Some [0xFF2B]
     else if c = 0xFF4C then Some [0xFF2C]
     else if c = 0xFF4D then Some [0xFF2D]
     else if c = 0xFF4E then Some [0xFF2E]
     else if c = 0xFF4F then Some [0xFF2F]
     else if c = 0xFF50 then Some [0xFF30]
     else if c = 0xFF51 then Some [0xFF31]
     else if c = 0xFF52 then Some [0xFF32]
     else if c = 0xFF53 then Some [0xFF33]
     else if c = 0xFF54 then Some [0xFF34]
     else if c = 0xFF55 then Some [0xFF35]
     else if c = 0xFF56 then Some [0xFF36]
     else if c = 0xFF57 then Some [0xFF37]
     else if c = 0xFF58 then Some [0xFF38]
     else if c = 0xFF59 then Some [0xFF39]
     else if c = 0xFF5A then Some [0xFF3A]
     else if c = 0x10428 then Some [0x10400]
     else if c = 0x10429 then Some [0x10401]
     else if c = 0x1042A then Some [0x10402]
     else if c = 0x1042B then Some [0x10403]
     else if c = 0x1042C then Some [0x10404]
     else if c = 0x1042D then Some [0x10405]
     else if c = 0x1042E then Some [0x10406]
     else if c = 0x1042F then Some [0x10407]
     else if c = 0x10430 then Some [0x10408]
     else if c = 0x10431 then Some [0x10409]
     else if c = 0x10432 then Some [0x1040A]
     else if c = 0x10433 then Some [0x1040B]
     else if c = 0x10434 then Some [0x1040C]
     else if c = 0x10435 then Some [0x1040D]
     else if c = 0x10436 then Some [0x1040E]
     else None)"

definition upper_blk_41 :: "codepoint \<Rightarrow> codepoint list option" where
  "upper_blk_41 c =
    (if c = 0x10437 then Some [0x1040F]
     else if c = 0x10438 then Some [0x10410]
     else if c = 0x10439 then Some [0x10411]
     else if c = 0x1043A then Some [0x10412]
     else if c = 0x1043B then Some [0x10413]
     else if c = 0x1043C then Some [0x10414]
     else if c = 0x1043D then Some [0x10415]
     else if c = 0x1043E then Some [0x10416]
     else if c = 0x1043F then Some [0x10417]
     else if c = 0x10440 then Some [0x10418]
     else if c = 0x10441 then Some [0x10419]
     else if c = 0x10442 then Some [0x1041A]
     else if c = 0x10443 then Some [0x1041B]
     else if c = 0x10444 then Some [0x1041C]
     else if c = 0x10445 then Some [0x1041D]
     else if c = 0x10446 then Some [0x1041E]
     else if c = 0x10447 then Some [0x1041F]
     else if c = 0x10448 then Some [0x10420]
     else if c = 0x10449 then Some [0x10421]
     else if c = 0x1044A then Some [0x10422]
     else if c = 0x1044B then Some [0x10423]
     else if c = 0x1044C then Some [0x10424]
     else if c = 0x1044D then Some [0x10425]
     else if c = 0x1044E then Some [0x10426]
     else if c = 0x1044F then Some [0x10427]
     else if c = 0x104D8 then Some [0x104B0]
     else if c = 0x104D9 then Some [0x104B1]
     else if c = 0x104DA then Some [0x104B2]
     else if c = 0x104DB then Some [0x104B3]
     else if c = 0x104DC then Some [0x104B4]
     else if c = 0x104DD then Some [0x104B5]
     else if c = 0x104DE then Some [0x104B6]
     else None)"

definition upper_blk_42 :: "codepoint \<Rightarrow> codepoint list option" where
  "upper_blk_42 c =
    (if c = 0x104DF then Some [0x104B7]
     else if c = 0x104E0 then Some [0x104B8]
     else if c = 0x104E1 then Some [0x104B9]
     else if c = 0x104E2 then Some [0x104BA]
     else if c = 0x104E3 then Some [0x104BB]
     else if c = 0x104E4 then Some [0x104BC]
     else if c = 0x104E5 then Some [0x104BD]
     else if c = 0x104E6 then Some [0x104BE]
     else if c = 0x104E7 then Some [0x104BF]
     else if c = 0x104E8 then Some [0x104C0]
     else if c = 0x104E9 then Some [0x104C1]
     else if c = 0x104EA then Some [0x104C2]
     else if c = 0x104EB then Some [0x104C3]
     else if c = 0x104EC then Some [0x104C4]
     else if c = 0x104ED then Some [0x104C5]
     else if c = 0x104EE then Some [0x104C6]
     else if c = 0x104EF then Some [0x104C7]
     else if c = 0x104F0 then Some [0x104C8]
     else if c = 0x104F1 then Some [0x104C9]
     else if c = 0x104F2 then Some [0x104CA]
     else if c = 0x104F3 then Some [0x104CB]
     else if c = 0x104F4 then Some [0x104CC]
     else if c = 0x104F5 then Some [0x104CD]
     else if c = 0x104F6 then Some [0x104CE]
     else if c = 0x104F7 then Some [0x104CF]
     else if c = 0x104F8 then Some [0x104D0]
     else if c = 0x104F9 then Some [0x104D1]
     else if c = 0x104FA then Some [0x104D2]
     else if c = 0x104FB then Some [0x104D3]
     else if c = 0x10597 then Some [0x10570]
     else if c = 0x10598 then Some [0x10571]
     else if c = 0x10599 then Some [0x10572]
     else None)"

definition upper_blk_43 :: "codepoint \<Rightarrow> codepoint list option" where
  "upper_blk_43 c =
    (if c = 0x1059A then Some [0x10573]
     else if c = 0x1059B then Some [0x10574]
     else if c = 0x1059C then Some [0x10575]
     else if c = 0x1059D then Some [0x10576]
     else if c = 0x1059E then Some [0x10577]
     else if c = 0x1059F then Some [0x10578]
     else if c = 0x105A0 then Some [0x10579]
     else if c = 0x105A1 then Some [0x1057A]
     else if c = 0x105A3 then Some [0x1057C]
     else if c = 0x105A4 then Some [0x1057D]
     else if c = 0x105A5 then Some [0x1057E]
     else if c = 0x105A6 then Some [0x1057F]
     else if c = 0x105A7 then Some [0x10580]
     else if c = 0x105A8 then Some [0x10581]
     else if c = 0x105A9 then Some [0x10582]
     else if c = 0x105AA then Some [0x10583]
     else if c = 0x105AB then Some [0x10584]
     else if c = 0x105AC then Some [0x10585]
     else if c = 0x105AD then Some [0x10586]
     else if c = 0x105AE then Some [0x10587]
     else if c = 0x105AF then Some [0x10588]
     else if c = 0x105B0 then Some [0x10589]
     else if c = 0x105B1 then Some [0x1058A]
     else if c = 0x105B3 then Some [0x1058C]
     else if c = 0x105B4 then Some [0x1058D]
     else if c = 0x105B5 then Some [0x1058E]
     else if c = 0x105B6 then Some [0x1058F]
     else if c = 0x105B7 then Some [0x10590]
     else if c = 0x105B8 then Some [0x10591]
     else if c = 0x105B9 then Some [0x10592]
     else if c = 0x105BB then Some [0x10594]
     else if c = 0x105BC then Some [0x10595]
     else None)"

definition upper_blk_44 :: "codepoint \<Rightarrow> codepoint list option" where
  "upper_blk_44 c =
    (if c = 0x10CC0 then Some [0x10C80]
     else if c = 0x10CC1 then Some [0x10C81]
     else if c = 0x10CC2 then Some [0x10C82]
     else if c = 0x10CC3 then Some [0x10C83]
     else if c = 0x10CC4 then Some [0x10C84]
     else if c = 0x10CC5 then Some [0x10C85]
     else if c = 0x10CC6 then Some [0x10C86]
     else if c = 0x10CC7 then Some [0x10C87]
     else if c = 0x10CC8 then Some [0x10C88]
     else if c = 0x10CC9 then Some [0x10C89]
     else if c = 0x10CCA then Some [0x10C8A]
     else if c = 0x10CCB then Some [0x10C8B]
     else if c = 0x10CCC then Some [0x10C8C]
     else if c = 0x10CCD then Some [0x10C8D]
     else if c = 0x10CCE then Some [0x10C8E]
     else if c = 0x10CCF then Some [0x10C8F]
     else if c = 0x10CD0 then Some [0x10C90]
     else if c = 0x10CD1 then Some [0x10C91]
     else if c = 0x10CD2 then Some [0x10C92]
     else if c = 0x10CD3 then Some [0x10C93]
     else if c = 0x10CD4 then Some [0x10C94]
     else if c = 0x10CD5 then Some [0x10C95]
     else if c = 0x10CD6 then Some [0x10C96]
     else if c = 0x10CD7 then Some [0x10C97]
     else if c = 0x10CD8 then Some [0x10C98]
     else if c = 0x10CD9 then Some [0x10C99]
     else if c = 0x10CDA then Some [0x10C9A]
     else if c = 0x10CDB then Some [0x10C9B]
     else if c = 0x10CDC then Some [0x10C9C]
     else if c = 0x10CDD then Some [0x10C9D]
     else if c = 0x10CDE then Some [0x10C9E]
     else if c = 0x10CDF then Some [0x10C9F]
     else None)"

definition upper_blk_45 :: "codepoint \<Rightarrow> codepoint list option" where
  "upper_blk_45 c =
    (if c = 0x10CE0 then Some [0x10CA0]
     else if c = 0x10CE1 then Some [0x10CA1]
     else if c = 0x10CE2 then Some [0x10CA2]
     else if c = 0x10CE3 then Some [0x10CA3]
     else if c = 0x10CE4 then Some [0x10CA4]
     else if c = 0x10CE5 then Some [0x10CA5]
     else if c = 0x10CE6 then Some [0x10CA6]
     else if c = 0x10CE7 then Some [0x10CA7]
     else if c = 0x10CE8 then Some [0x10CA8]
     else if c = 0x10CE9 then Some [0x10CA9]
     else if c = 0x10CEA then Some [0x10CAA]
     else if c = 0x10CEB then Some [0x10CAB]
     else if c = 0x10CEC then Some [0x10CAC]
     else if c = 0x10CED then Some [0x10CAD]
     else if c = 0x10CEE then Some [0x10CAE]
     else if c = 0x10CEF then Some [0x10CAF]
     else if c = 0x10CF0 then Some [0x10CB0]
     else if c = 0x10CF1 then Some [0x10CB1]
     else if c = 0x10CF2 then Some [0x10CB2]
     else if c = 0x118C0 then Some [0x118A0]
     else if c = 0x118C1 then Some [0x118A1]
     else if c = 0x118C2 then Some [0x118A2]
     else if c = 0x118C3 then Some [0x118A3]
     else if c = 0x118C4 then Some [0x118A4]
     else if c = 0x118C5 then Some [0x118A5]
     else if c = 0x118C6 then Some [0x118A6]
     else if c = 0x118C7 then Some [0x118A7]
     else if c = 0x118C8 then Some [0x118A8]
     else if c = 0x118C9 then Some [0x118A9]
     else if c = 0x118CA then Some [0x118AA]
     else if c = 0x118CB then Some [0x118AB]
     else if c = 0x118CC then Some [0x118AC]
     else None)"

definition upper_blk_46 :: "codepoint \<Rightarrow> codepoint list option" where
  "upper_blk_46 c =
    (if c = 0x118CD then Some [0x118AD]
     else if c = 0x118CE then Some [0x118AE]
     else if c = 0x118CF then Some [0x118AF]
     else if c = 0x118D0 then Some [0x118B0]
     else if c = 0x118D1 then Some [0x118B1]
     else if c = 0x118D2 then Some [0x118B2]
     else if c = 0x118D3 then Some [0x118B3]
     else if c = 0x118D4 then Some [0x118B4]
     else if c = 0x118D5 then Some [0x118B5]
     else if c = 0x118D6 then Some [0x118B6]
     else if c = 0x118D7 then Some [0x118B7]
     else if c = 0x118D8 then Some [0x118B8]
     else if c = 0x118D9 then Some [0x118B9]
     else if c = 0x118DA then Some [0x118BA]
     else if c = 0x118DB then Some [0x118BB]
     else if c = 0x118DC then Some [0x118BC]
     else if c = 0x118DD then Some [0x118BD]
     else if c = 0x118DE then Some [0x118BE]
     else if c = 0x118DF then Some [0x118BF]
     else if c = 0x16E60 then Some [0x16E40]
     else if c = 0x16E61 then Some [0x16E41]
     else if c = 0x16E62 then Some [0x16E42]
     else if c = 0x16E63 then Some [0x16E43]
     else if c = 0x16E64 then Some [0x16E44]
     else if c = 0x16E65 then Some [0x16E45]
     else if c = 0x16E66 then Some [0x16E46]
     else if c = 0x16E67 then Some [0x16E47]
     else if c = 0x16E68 then Some [0x16E48]
     else if c = 0x16E69 then Some [0x16E49]
     else if c = 0x16E6A then Some [0x16E4A]
     else if c = 0x16E6B then Some [0x16E4B]
     else if c = 0x16E6C then Some [0x16E4C]
     else None)"

definition upper_blk_47 :: "codepoint \<Rightarrow> codepoint list option" where
  "upper_blk_47 c =
    (if c = 0x16E6D then Some [0x16E4D]
     else if c = 0x16E6E then Some [0x16E4E]
     else if c = 0x16E6F then Some [0x16E4F]
     else if c = 0x16E70 then Some [0x16E50]
     else if c = 0x16E71 then Some [0x16E51]
     else if c = 0x16E72 then Some [0x16E52]
     else if c = 0x16E73 then Some [0x16E53]
     else if c = 0x16E74 then Some [0x16E54]
     else if c = 0x16E75 then Some [0x16E55]
     else if c = 0x16E76 then Some [0x16E56]
     else if c = 0x16E77 then Some [0x16E57]
     else if c = 0x16E78 then Some [0x16E58]
     else if c = 0x16E79 then Some [0x16E59]
     else if c = 0x16E7A then Some [0x16E5A]
     else if c = 0x16E7B then Some [0x16E5B]
     else if c = 0x16E7C then Some [0x16E5C]
     else if c = 0x16E7D then Some [0x16E5D]
     else if c = 0x16E7E then Some [0x16E5E]
     else if c = 0x16E7F then Some [0x16E5F]
     else if c = 0x1E922 then Some [0x1E900]
     else if c = 0x1E923 then Some [0x1E901]
     else if c = 0x1E924 then Some [0x1E902]
     else if c = 0x1E925 then Some [0x1E903]
     else if c = 0x1E926 then Some [0x1E904]
     else if c = 0x1E927 then Some [0x1E905]
     else if c = 0x1E928 then Some [0x1E906]
     else if c = 0x1E929 then Some [0x1E907]
     else if c = 0x1E92A then Some [0x1E908]
     else if c = 0x1E92B then Some [0x1E909]
     else if c = 0x1E92C then Some [0x1E90A]
     else if c = 0x1E92D then Some [0x1E90B]
     else if c = 0x1E92E then Some [0x1E90C]
     else None)"

definition upper_blk_48 :: "codepoint \<Rightarrow> codepoint list option" where
  "upper_blk_48 c =
    (if c = 0x1E92F then Some [0x1E90D]
     else if c = 0x1E930 then Some [0x1E90E]
     else if c = 0x1E931 then Some [0x1E90F]
     else if c = 0x1E932 then Some [0x1E910]
     else if c = 0x1E933 then Some [0x1E911]
     else if c = 0x1E934 then Some [0x1E912]
     else if c = 0x1E935 then Some [0x1E913]
     else if c = 0x1E936 then Some [0x1E914]
     else if c = 0x1E937 then Some [0x1E915]
     else if c = 0x1E938 then Some [0x1E916]
     else if c = 0x1E939 then Some [0x1E917]
     else if c = 0x1E93A then Some [0x1E918]
     else if c = 0x1E93B then Some [0x1E919]
     else if c = 0x1E93C then Some [0x1E91A]
     else if c = 0x1E93D then Some [0x1E91B]
     else if c = 0x1E93E then Some [0x1E91C]
     else if c = 0x1E93F then Some [0x1E91D]
     else if c = 0x1E940 then Some [0x1E91E]
     else if c = 0x1E941 then Some [0x1E91F]
     else if c = 0x1E942 then Some [0x1E920]
     else if c = 0x1E943 then Some [0x1E921]
     else None)"

definition upper_lookup :: "codepoint \<Rightarrow> codepoint list option" where
  "upper_lookup c =
     (if c < 0x1F88
      then (if c < 0x495
            then (if c < 0x223
                  then (if c < 0x14B
                        then (if c < 0xE4
                              then upper_blk_1 c
                              else (if c < 0x10B
                                    then upper_blk_2 c
                                    else upper_blk_3 c))
                        else (if c < 0x192
                              then upper_blk_4 c
                              else (if c < 0x1E1
                                    then upper_blk_5 c
                                    else upper_blk_6 c)))
                  else (if c < 0x3CD
                        then (if c < 0x266
                              then upper_blk_7 c
                              else (if c < 0x3AD
                                    then upper_blk_8 c
                                    else upper_blk_9 c))
                        else (if c < 0x436
                              then upper_blk_10 c
                              else (if c < 0x456
                                    then upper_blk_11 c
                                    else upper_blk_12 c))))
            else (if c < 0x1E17
                  then (if c < 0x573
                        then (if c < 0x4D5
                              then upper_blk_13 c
                              else (if c < 0x515
                                    then upper_blk_14 c
                                    else upper_blk_15 c))
                        else (if c < 0x10DB
                              then upper_blk_16 c
                              else (if c < 0x10FD
                                    then upper_blk_17 c
                                    else upper_blk_18 c)))
                  else (if c < 0x1ED5
                        then (if c < 0x1E57
                              then upper_blk_19 c
                              else (if c < 0x1E96
                                    then upper_blk_20 c
                                    else upper_blk_21 c))
                        else (if c < 0x1F12
                              then upper_blk_22 c
                              else (if c < 0x1F56
                                    then upper_blk_23 c
                                    else upper_blk_24 c)))))
      else (if c < 0xAB75
            then (if c < 0x2CA3
                  then (if c < 0x24D3
                        then (if c < 0x1FA8
                              then upper_blk_25 c
                              else (if c < 0x1FE3
                                    then upper_blk_26 c
                                    else upper_blk_27 c))
                        else (if c < 0x2C39
                              then upper_blk_28 c
                              else (if c < 0x2C59
                                    then upper_blk_29 c
                                    else upper_blk_30 c)))
                  else (if c < 0xA669
                        then (if c < 0x2CE3
                              then upper_blk_31 c
                              else (if c < 0x2D1C
                                    then upper_blk_32 c
                                    else upper_blk_33 c))
                        else (if c < 0xA743
                              then upper_blk_34 c
                              else (if c < 0xA793
                                    then upper_blk_35 c
                                    else upper_blk_36 c))))
            else (if c < 0x1059A
                  then (if c < 0xFF4A
                        then (if c < 0xAB95
                              then upper_blk_37 c
                              else (if c < 0xABB5
                                    then upper_blk_38 c
                                    else upper_blk_39 c))
                        else (if c < 0x10437
                              then upper_blk_40 c
                              else (if c < 0x104DF
                                    then upper_blk_41 c
                                    else upper_blk_42 c)))
                  else (if c < 0x118CD
                        then (if c < 0x10CC0
                              then upper_blk_43 c
                              else (if c < 0x10CE0
                                    then upper_blk_44 c
                                    else upper_blk_45 c))
                        else (if c < 0x16E6D
                              then upper_blk_46 c
                              else (if c < 0x1E92F
                                    then upper_blk_47 c
                                    else upper_blk_48 c))))))"

definition lower_blk_1 :: "codepoint \<Rightarrow> codepoint list option" where
  "lower_blk_1 c =
    (if c = 0x41 then Some [0x61]
     else if c = 0x42 then Some [0x62]
     else if c = 0x43 then Some [0x63]
     else if c = 0x44 then Some [0x64]
     else if c = 0x45 then Some [0x65]
     else if c = 0x46 then Some [0x66]
     else if c = 0x47 then Some [0x67]
     else if c = 0x48 then Some [0x68]
     else if c = 0x49 then Some [0x69]
     else if c = 0x4A then Some [0x6A]
     else if c = 0x4B then Some [0x6B]
     else if c = 0x4C then Some [0x6C]
     else if c = 0x4D then Some [0x6D]
     else if c = 0x4E then Some [0x6E]
     else if c = 0x4F then Some [0x6F]
     else if c = 0x50 then Some [0x70]
     else if c = 0x51 then Some [0x71]
     else if c = 0x52 then Some [0x72]
     else if c = 0x53 then Some [0x73]
     else if c = 0x54 then Some [0x74]
     else if c = 0x55 then Some [0x75]
     else if c = 0x56 then Some [0x76]
     else if c = 0x57 then Some [0x77]
     else if c = 0x58 then Some [0x78]
     else if c = 0x59 then Some [0x79]
     else if c = 0x5A then Some [0x7A]
     else if c = 0xC0 then Some [0xE0]
     else if c = 0xC1 then Some [0xE1]
     else if c = 0xC2 then Some [0xE2]
     else if c = 0xC3 then Some [0xE3]
     else if c = 0xC4 then Some [0xE4]
     else if c = 0xC5 then Some [0xE5]
     else None)"

definition lower_blk_2 :: "codepoint \<Rightarrow> codepoint list option" where
  "lower_blk_2 c =
    (if c = 0xC6 then Some [0xE6]
     else if c = 0xC7 then Some [0xE7]
     else if c = 0xC8 then Some [0xE8]
     else if c = 0xC9 then Some [0xE9]
     else if c = 0xCA then Some [0xEA]
     else if c = 0xCB then Some [0xEB]
     else if c = 0xCC then Some [0xEC]
     else if c = 0xCD then Some [0xED]
     else if c = 0xCE then Some [0xEE]
     else if c = 0xCF then Some [0xEF]
     else if c = 0xD0 then Some [0xF0]
     else if c = 0xD1 then Some [0xF1]
     else if c = 0xD2 then Some [0xF2]
     else if c = 0xD3 then Some [0xF3]
     else if c = 0xD4 then Some [0xF4]
     else if c = 0xD5 then Some [0xF5]
     else if c = 0xD6 then Some [0xF6]
     else if c = 0xD8 then Some [0xF8]
     else if c = 0xD9 then Some [0xF9]
     else if c = 0xDA then Some [0xFA]
     else if c = 0xDB then Some [0xFB]
     else if c = 0xDC then Some [0xFC]
     else if c = 0xDD then Some [0xFD]
     else if c = 0xDE then Some [0xFE]
     else if c = 0x100 then Some [0x101]
     else if c = 0x102 then Some [0x103]
     else if c = 0x104 then Some [0x105]
     else if c = 0x106 then Some [0x107]
     else if c = 0x108 then Some [0x109]
     else if c = 0x10A then Some [0x10B]
     else if c = 0x10C then Some [0x10D]
     else if c = 0x10E then Some [0x10F]
     else None)"

definition lower_blk_3 :: "codepoint \<Rightarrow> codepoint list option" where
  "lower_blk_3 c =
    (if c = 0x110 then Some [0x111]
     else if c = 0x112 then Some [0x113]
     else if c = 0x114 then Some [0x115]
     else if c = 0x116 then Some [0x117]
     else if c = 0x118 then Some [0x119]
     else if c = 0x11A then Some [0x11B]
     else if c = 0x11C then Some [0x11D]
     else if c = 0x11E then Some [0x11F]
     else if c = 0x120 then Some [0x121]
     else if c = 0x122 then Some [0x123]
     else if c = 0x124 then Some [0x125]
     else if c = 0x126 then Some [0x127]
     else if c = 0x128 then Some [0x129]
     else if c = 0x12A then Some [0x12B]
     else if c = 0x12C then Some [0x12D]
     else if c = 0x12E then Some [0x12F]
     else if c = 0x130 then Some [0x69, 0x307]
     else if c = 0x132 then Some [0x133]
     else if c = 0x134 then Some [0x135]
     else if c = 0x136 then Some [0x137]
     else if c = 0x139 then Some [0x13A]
     else if c = 0x13B then Some [0x13C]
     else if c = 0x13D then Some [0x13E]
     else if c = 0x13F then Some [0x140]
     else if c = 0x141 then Some [0x142]
     else if c = 0x143 then Some [0x144]
     else if c = 0x145 then Some [0x146]
     else if c = 0x147 then Some [0x148]
     else if c = 0x14A then Some [0x14B]
     else if c = 0x14C then Some [0x14D]
     else if c = 0x14E then Some [0x14F]
     else if c = 0x150 then Some [0x151]
     else None)"

definition lower_blk_4 :: "codepoint \<Rightarrow> codepoint list option" where
  "lower_blk_4 c =
    (if c = 0x152 then Some [0x153]
     else if c = 0x154 then Some [0x155]
     else if c = 0x156 then Some [0x157]
     else if c = 0x158 then Some [0x159]
     else if c = 0x15A then Some [0x15B]
     else if c = 0x15C then Some [0x15D]
     else if c = 0x15E then Some [0x15F]
     else if c = 0x160 then Some [0x161]
     else if c = 0x162 then Some [0x163]
     else if c = 0x164 then Some [0x165]
     else if c = 0x166 then Some [0x167]
     else if c = 0x168 then Some [0x169]
     else if c = 0x16A then Some [0x16B]
     else if c = 0x16C then Some [0x16D]
     else if c = 0x16E then Some [0x16F]
     else if c = 0x170 then Some [0x171]
     else if c = 0x172 then Some [0x173]
     else if c = 0x174 then Some [0x175]
     else if c = 0x176 then Some [0x177]
     else if c = 0x178 then Some [0xFF]
     else if c = 0x179 then Some [0x17A]
     else if c = 0x17B then Some [0x17C]
     else if c = 0x17D then Some [0x17E]
     else if c = 0x181 then Some [0x253]
     else if c = 0x182 then Some [0x183]
     else if c = 0x184 then Some [0x185]
     else if c = 0x186 then Some [0x254]
     else if c = 0x187 then Some [0x188]
     else if c = 0x189 then Some [0x256]
     else if c = 0x18A then Some [0x257]
     else if c = 0x18B then Some [0x18C]
     else if c = 0x18E then Some [0x1DD]
     else None)"

definition lower_blk_5 :: "codepoint \<Rightarrow> codepoint list option" where
  "lower_blk_5 c =
    (if c = 0x18F then Some [0x259]
     else if c = 0x190 then Some [0x25B]
     else if c = 0x191 then Some [0x192]
     else if c = 0x193 then Some [0x260]
     else if c = 0x194 then Some [0x263]
     else if c = 0x196 then Some [0x269]
     else if c = 0x197 then Some [0x268]
     else if c = 0x198 then Some [0x199]
     else if c = 0x19C then Some [0x26F]
     else if c = 0x19D then Some [0x272]
     else if c = 0x19F then Some [0x275]
     else if c = 0x1A0 then Some [0x1A1]
     else if c = 0x1A2 then Some [0x1A3]
     else if c = 0x1A4 then Some [0x1A5]
     else if c = 0x1A6 then Some [0x280]
     else if c = 0x1A7 then Some [0x1A8]
     else if c = 0x1A9 then Some [0x283]
     else if c = 0x1AC then Some [0x1AD]
     else if c = 0x1AE then Some [0x288]
     else if c = 0x1AF then Some [0x1B0]
     else if c = 0x1B1 then Some [0x28A]
     else if c = 0x1B2 then Some [0x28B]
     else if c = 0x1B3 then Some [0x1B4]
     else if c = 0x1B5 then Some [0x1B6]
     else if c = 0x1B7 then Some [0x292]
     else if c = 0x1B8 then Some [0x1B9]
     else if c = 0x1BC then Some [0x1BD]
     else if c = 0x1C4 then Some [0x1C6]
     else if c = 0x1C5 then Some [0x1C6]
     else if c = 0x1C7 then Some [0x1C9]
     else if c = 0x1C8 then Some [0x1C9]
     else if c = 0x1CA then Some [0x1CC]
     else None)"

definition lower_blk_6 :: "codepoint \<Rightarrow> codepoint list option" where
  "lower_blk_6 c =
    (if c = 0x1CB then Some [0x1CC]
     else if c = 0x1CD then Some [0x1CE]
     else if c = 0x1CF then Some [0x1D0]
     else if c = 0x1D1 then Some [0x1D2]
     else if c = 0x1D3 then Some [0x1D4]
     else if c = 0x1D5 then Some [0x1D6]
     else if c = 0x1D7 then Some [0x1D8]
     else if c = 0x1D9 then Some [0x1DA]
     else if c = 0x1DB then Some [0x1DC]
     else if c = 0x1DE then Some [0x1DF]
     else if c = 0x1E0 then Some [0x1E1]
     else if c = 0x1E2 then Some [0x1E3]
     else if c = 0x1E4 then Some [0x1E5]
     else if c = 0x1E6 then Some [0x1E7]
     else if c = 0x1E8 then Some [0x1E9]
     else if c = 0x1EA then Some [0x1EB]
     else if c = 0x1EC then Some [0x1ED]
     else if c = 0x1EE then Some [0x1EF]
     else if c = 0x1F1 then Some [0x1F3]
     else if c = 0x1F2 then Some [0x1F3]
     else if c = 0x1F4 then Some [0x1F5]
     else if c = 0x1F6 then Some [0x195]
     else if c = 0x1F7 then Some [0x1BF]
     else if c = 0x1F8 then Some [0x1F9]
     else if c = 0x1FA then Some [0x1FB]
     else if c = 0x1FC then Some [0x1FD]
     else if c = 0x1FE then Some [0x1FF]
     else if c = 0x200 then Some [0x201]
     else if c = 0x202 then Some [0x203]
     else if c = 0x204 then Some [0x205]
     else if c = 0x206 then Some [0x207]
     else if c = 0x208 then Some [0x209]
     else None)"

definition lower_blk_7 :: "codepoint \<Rightarrow> codepoint list option" where
  "lower_blk_7 c =
    (if c = 0x20A then Some [0x20B]
     else if c = 0x20C then Some [0x20D]
     else if c = 0x20E then Some [0x20F]
     else if c = 0x210 then Some [0x211]
     else if c = 0x212 then Some [0x213]
     else if c = 0x214 then Some [0x215]
     else if c = 0x216 then Some [0x217]
     else if c = 0x218 then Some [0x219]
     else if c = 0x21A then Some [0x21B]
     else if c = 0x21C then Some [0x21D]
     else if c = 0x21E then Some [0x21F]
     else if c = 0x220 then Some [0x19E]
     else if c = 0x222 then Some [0x223]
     else if c = 0x224 then Some [0x225]
     else if c = 0x226 then Some [0x227]
     else if c = 0x228 then Some [0x229]
     else if c = 0x22A then Some [0x22B]
     else if c = 0x22C then Some [0x22D]
     else if c = 0x22E then Some [0x22F]
     else if c = 0x230 then Some [0x231]
     else if c = 0x232 then Some [0x233]
     else if c = 0x23A then Some [0x2C65]
     else if c = 0x23B then Some [0x23C]
     else if c = 0x23D then Some [0x19A]
     else if c = 0x23E then Some [0x2C66]
     else if c = 0x241 then Some [0x242]
     else if c = 0x243 then Some [0x180]
     else if c = 0x244 then Some [0x289]
     else if c = 0x245 then Some [0x28C]
     else if c = 0x246 then Some [0x247]
     else if c = 0x248 then Some [0x249]
     else if c = 0x24A then Some [0x24B]
     else None)"

definition lower_blk_8 :: "codepoint \<Rightarrow> codepoint list option" where
  "lower_blk_8 c =
    (if c = 0x24C then Some [0x24D]
     else if c = 0x24E then Some [0x24F]
     else if c = 0x370 then Some [0x371]
     else if c = 0x372 then Some [0x373]
     else if c = 0x376 then Some [0x377]
     else if c = 0x37F then Some [0x3F3]
     else if c = 0x386 then Some [0x3AC]
     else if c = 0x388 then Some [0x3AD]
     else if c = 0x389 then Some [0x3AE]
     else if c = 0x38A then Some [0x3AF]
     else if c = 0x38C then Some [0x3CC]
     else if c = 0x38E then Some [0x3CD]
     else if c = 0x38F then Some [0x3CE]
     else if c = 0x391 then Some [0x3B1]
     else if c = 0x392 then Some [0x3B2]
     else if c = 0x393 then Some [0x3B3]
     else if c = 0x394 then Some [0x3B4]
     else if c = 0x395 then Some [0x3B5]
     else if c = 0x396 then Some [0x3B6]
     else if c = 0x397 then Some [0x3B7]
     else if c = 0x398 then Some [0x3B8]
     else if c = 0x399 then Some [0x3B9]
     else if c = 0x39A then Some [0x3BA]
     else if c = 0x39B then Some [0x3BB]
     else if c = 0x39C then Some [0x3BC]
     else if c = 0x39D then Some [0x3BD]
     else if c = 0x39E then Some [0x3BE]
     else if c = 0x39F then Some [0x3BF]
     else if c = 0x3A0 then Some [0x3C0]
     else if c = 0x3A1 then Some [0x3C1]
     else if c = 0x3A3 then Some [0x3C3]
     else if c = 0x3A4 then Some [0x3C4]
     else None)"

definition lower_blk_9 :: "codepoint \<Rightarrow> codepoint list option" where
  "lower_blk_9 c =
    (if c = 0x3A5 then Some [0x3C5]
     else if c = 0x3A6 then Some [0x3C6]
     else if c = 0x3A7 then Some [0x3C7]
     else if c = 0x3A8 then Some [0x3C8]
     else if c = 0x3A9 then Some [0x3C9]
     else if c = 0x3AA then Some [0x3CA]
     else if c = 0x3AB then Some [0x3CB]
     else if c = 0x3CF then Some [0x3D7]
     else if c = 0x3D8 then Some [0x3D9]
     else if c = 0x3DA then Some [0x3DB]
     else if c = 0x3DC then Some [0x3DD]
     else if c = 0x3DE then Some [0x3DF]
     else if c = 0x3E0 then Some [0x3E1]
     else if c = 0x3E2 then Some [0x3E3]
     else if c = 0x3E4 then Some [0x3E5]
     else if c = 0x3E6 then Some [0x3E7]
     else if c = 0x3E8 then Some [0x3E9]
     else if c = 0x3EA then Some [0x3EB]
     else if c = 0x3EC then Some [0x3ED]
     else if c = 0x3EE then Some [0x3EF]
     else if c = 0x3F4 then Some [0x3B8]
     else if c = 0x3F7 then Some [0x3F8]
     else if c = 0x3F9 then Some [0x3F2]
     else if c = 0x3FA then Some [0x3FB]
     else if c = 0x3FD then Some [0x37B]
     else if c = 0x3FE then Some [0x37C]
     else if c = 0x3FF then Some [0x37D]
     else if c = 0x400 then Some [0x450]
     else if c = 0x401 then Some [0x451]
     else if c = 0x402 then Some [0x452]
     else if c = 0x403 then Some [0x453]
     else if c = 0x404 then Some [0x454]
     else None)"

definition lower_blk_10 :: "codepoint \<Rightarrow> codepoint list option" where
  "lower_blk_10 c =
    (if c = 0x405 then Some [0x455]
     else if c = 0x406 then Some [0x456]
     else if c = 0x407 then Some [0x457]
     else if c = 0x408 then Some [0x458]
     else if c = 0x409 then Some [0x459]
     else if c = 0x40A then Some [0x45A]
     else if c = 0x40B then Some [0x45B]
     else if c = 0x40C then Some [0x45C]
     else if c = 0x40D then Some [0x45D]
     else if c = 0x40E then Some [0x45E]
     else if c = 0x40F then Some [0x45F]
     else if c = 0x410 then Some [0x430]
     else if c = 0x411 then Some [0x431]
     else if c = 0x412 then Some [0x432]
     else if c = 0x413 then Some [0x433]
     else if c = 0x414 then Some [0x434]
     else if c = 0x415 then Some [0x435]
     else if c = 0x416 then Some [0x436]
     else if c = 0x417 then Some [0x437]
     else if c = 0x418 then Some [0x438]
     else if c = 0x419 then Some [0x439]
     else if c = 0x41A then Some [0x43A]
     else if c = 0x41B then Some [0x43B]
     else if c = 0x41C then Some [0x43C]
     else if c = 0x41D then Some [0x43D]
     else if c = 0x41E then Some [0x43E]
     else if c = 0x41F then Some [0x43F]
     else if c = 0x420 then Some [0x440]
     else if c = 0x421 then Some [0x441]
     else if c = 0x422 then Some [0x442]
     else if c = 0x423 then Some [0x443]
     else if c = 0x424 then Some [0x444]
     else None)"

definition lower_blk_11 :: "codepoint \<Rightarrow> codepoint list option" where
  "lower_blk_11 c =
    (if c = 0x425 then Some [0x445]
     else if c = 0x426 then Some [0x446]
     else if c = 0x427 then Some [0x447]
     else if c = 0x428 then Some [0x448]
     else if c = 0x429 then Some [0x449]
     else if c = 0x42A then Some [0x44A]
     else if c = 0x42B then Some [0x44B]
     else if c = 0x42C then Some [0x44C]
     else if c = 0x42D then Some [0x44D]
     else if c = 0x42E then Some [0x44E]
     else if c = 0x42F then Some [0x44F]
     else if c = 0x460 then Some [0x461]
     else if c = 0x462 then Some [0x463]
     else if c = 0x464 then Some [0x465]
     else if c = 0x466 then Some [0x467]
     else if c = 0x468 then Some [0x469]
     else if c = 0x46A then Some [0x46B]
     else if c = 0x46C then Some [0x46D]
     else if c = 0x46E then Some [0x46F]
     else if c = 0x470 then Some [0x471]
     else if c = 0x472 then Some [0x473]
     else if c = 0x474 then Some [0x475]
     else if c = 0x476 then Some [0x477]
     else if c = 0x478 then Some [0x479]
     else if c = 0x47A then Some [0x47B]
     else if c = 0x47C then Some [0x47D]
     else if c = 0x47E then Some [0x47F]
     else if c = 0x480 then Some [0x481]
     else if c = 0x48A then Some [0x48B]
     else if c = 0x48C then Some [0x48D]
     else if c = 0x48E then Some [0x48F]
     else if c = 0x490 then Some [0x491]
     else None)"

definition lower_blk_12 :: "codepoint \<Rightarrow> codepoint list option" where
  "lower_blk_12 c =
    (if c = 0x492 then Some [0x493]
     else if c = 0x494 then Some [0x495]
     else if c = 0x496 then Some [0x497]
     else if c = 0x498 then Some [0x499]
     else if c = 0x49A then Some [0x49B]
     else if c = 0x49C then Some [0x49D]
     else if c = 0x49E then Some [0x49F]
     else if c = 0x4A0 then Some [0x4A1]
     else if c = 0x4A2 then Some [0x4A3]
     else if c = 0x4A4 then Some [0x4A5]
     else if c = 0x4A6 then Some [0x4A7]
     else if c = 0x4A8 then Some [0x4A9]
     else if c = 0x4AA then Some [0x4AB]
     else if c = 0x4AC then Some [0x4AD]
     else if c = 0x4AE then Some [0x4AF]
     else if c = 0x4B0 then Some [0x4B1]
     else if c = 0x4B2 then Some [0x4B3]
     else if c = 0x4B4 then Some [0x4B5]
     else if c = 0x4B6 then Some [0x4B7]
     else if c = 0x4B8 then Some [0x4B9]
     else if c = 0x4BA then Some [0x4BB]
     else if c = 0x4BC then Some [0x4BD]
     else if c = 0x4BE then Some [0x4BF]
     else if c = 0x4C0 then Some [0x4CF]
     else if c = 0x4C1 then Some [0x4C2]
     else if c = 0x4C3 then Some [0x4C4]
     else if c = 0x4C5 then Some [0x4C6]
     else if c = 0x4C7 then Some [0x4C8]
     else if c = 0x4C9 then Some [0x4CA]
     else if c = 0x4CB then Some [0x4CC]
     else if c = 0x4CD then Some [0x4CE]
     else if c = 0x4D0 then Some [0x4D1]
     else None)"

definition lower_blk_13 :: "codepoint \<Rightarrow> codepoint list option" where
  "lower_blk_13 c =
    (if c = 0x4D2 then Some [0x4D3]
     else if c = 0x4D4 then Some [0x4D5]
     else if c = 0x4D6 then Some [0x4D7]
     else if c = 0x4D8 then Some [0x4D9]
     else if c = 0x4DA then Some [0x4DB]
     else if c = 0x4DC then Some [0x4DD]
     else if c = 0x4DE then Some [0x4DF]
     else if c = 0x4E0 then Some [0x4E1]
     else if c = 0x4E2 then Some [0x4E3]
     else if c = 0x4E4 then Some [0x4E5]
     else if c = 0x4E6 then Some [0x4E7]
     else if c = 0x4E8 then Some [0x4E9]
     else if c = 0x4EA then Some [0x4EB]
     else if c = 0x4EC then Some [0x4ED]
     else if c = 0x4EE then Some [0x4EF]
     else if c = 0x4F0 then Some [0x4F1]
     else if c = 0x4F2 then Some [0x4F3]
     else if c = 0x4F4 then Some [0x4F5]
     else if c = 0x4F6 then Some [0x4F7]
     else if c = 0x4F8 then Some [0x4F9]
     else if c = 0x4FA then Some [0x4FB]
     else if c = 0x4FC then Some [0x4FD]
     else if c = 0x4FE then Some [0x4FF]
     else if c = 0x500 then Some [0x501]
     else if c = 0x502 then Some [0x503]
     else if c = 0x504 then Some [0x505]
     else if c = 0x506 then Some [0x507]
     else if c = 0x508 then Some [0x509]
     else if c = 0x50A then Some [0x50B]
     else if c = 0x50C then Some [0x50D]
     else if c = 0x50E then Some [0x50F]
     else if c = 0x510 then Some [0x511]
     else None)"

definition lower_blk_14 :: "codepoint \<Rightarrow> codepoint list option" where
  "lower_blk_14 c =
    (if c = 0x512 then Some [0x513]
     else if c = 0x514 then Some [0x515]
     else if c = 0x516 then Some [0x517]
     else if c = 0x518 then Some [0x519]
     else if c = 0x51A then Some [0x51B]
     else if c = 0x51C then Some [0x51D]
     else if c = 0x51E then Some [0x51F]
     else if c = 0x520 then Some [0x521]
     else if c = 0x522 then Some [0x523]
     else if c = 0x524 then Some [0x525]
     else if c = 0x526 then Some [0x527]
     else if c = 0x528 then Some [0x529]
     else if c = 0x52A then Some [0x52B]
     else if c = 0x52C then Some [0x52D]
     else if c = 0x52E then Some [0x52F]
     else if c = 0x531 then Some [0x561]
     else if c = 0x532 then Some [0x562]
     else if c = 0x533 then Some [0x563]
     else if c = 0x534 then Some [0x564]
     else if c = 0x535 then Some [0x565]
     else if c = 0x536 then Some [0x566]
     else if c = 0x537 then Some [0x567]
     else if c = 0x538 then Some [0x568]
     else if c = 0x539 then Some [0x569]
     else if c = 0x53A then Some [0x56A]
     else if c = 0x53B then Some [0x56B]
     else if c = 0x53C then Some [0x56C]
     else if c = 0x53D then Some [0x56D]
     else if c = 0x53E then Some [0x56E]
     else if c = 0x53F then Some [0x56F]
     else if c = 0x540 then Some [0x570]
     else if c = 0x541 then Some [0x571]
     else None)"

definition lower_blk_15 :: "codepoint \<Rightarrow> codepoint list option" where
  "lower_blk_15 c =
    (if c = 0x542 then Some [0x572]
     else if c = 0x543 then Some [0x573]
     else if c = 0x544 then Some [0x574]
     else if c = 0x545 then Some [0x575]
     else if c = 0x546 then Some [0x576]
     else if c = 0x547 then Some [0x577]
     else if c = 0x548 then Some [0x578]
     else if c = 0x549 then Some [0x579]
     else if c = 0x54A then Some [0x57A]
     else if c = 0x54B then Some [0x57B]
     else if c = 0x54C then Some [0x57C]
     else if c = 0x54D then Some [0x57D]
     else if c = 0x54E then Some [0x57E]
     else if c = 0x54F then Some [0x57F]
     else if c = 0x550 then Some [0x580]
     else if c = 0x551 then Some [0x581]
     else if c = 0x552 then Some [0x582]
     else if c = 0x553 then Some [0x583]
     else if c = 0x554 then Some [0x584]
     else if c = 0x555 then Some [0x585]
     else if c = 0x556 then Some [0x586]
     else if c = 0x10A0 then Some [0x2D00]
     else if c = 0x10A1 then Some [0x2D01]
     else if c = 0x10A2 then Some [0x2D02]
     else if c = 0x10A3 then Some [0x2D03]
     else if c = 0x10A4 then Some [0x2D04]
     else if c = 0x10A5 then Some [0x2D05]
     else if c = 0x10A6 then Some [0x2D06]
     else if c = 0x10A7 then Some [0x2D07]
     else if c = 0x10A8 then Some [0x2D08]
     else if c = 0x10A9 then Some [0x2D09]
     else if c = 0x10AA then Some [0x2D0A]
     else None)"

definition lower_blk_16 :: "codepoint \<Rightarrow> codepoint list option" where
  "lower_blk_16 c =
    (if c = 0x10AB then Some [0x2D0B]
     else if c = 0x10AC then Some [0x2D0C]
     else if c = 0x10AD then Some [0x2D0D]
     else if c = 0x10AE then Some [0x2D0E]
     else if c = 0x10AF then Some [0x2D0F]
     else if c = 0x10B0 then Some [0x2D10]
     else if c = 0x10B1 then Some [0x2D11]
     else if c = 0x10B2 then Some [0x2D12]
     else if c = 0x10B3 then Some [0x2D13]
     else if c = 0x10B4 then Some [0x2D14]
     else if c = 0x10B5 then Some [0x2D15]
     else if c = 0x10B6 then Some [0x2D16]
     else if c = 0x10B7 then Some [0x2D17]
     else if c = 0x10B8 then Some [0x2D18]
     else if c = 0x10B9 then Some [0x2D19]
     else if c = 0x10BA then Some [0x2D1A]
     else if c = 0x10BB then Some [0x2D1B]
     else if c = 0x10BC then Some [0x2D1C]
     else if c = 0x10BD then Some [0x2D1D]
     else if c = 0x10BE then Some [0x2D1E]
     else if c = 0x10BF then Some [0x2D1F]
     else if c = 0x10C0 then Some [0x2D20]
     else if c = 0x10C1 then Some [0x2D21]
     else if c = 0x10C2 then Some [0x2D22]
     else if c = 0x10C3 then Some [0x2D23]
     else if c = 0x10C4 then Some [0x2D24]
     else if c = 0x10C5 then Some [0x2D25]
     else if c = 0x10C7 then Some [0x2D27]
     else if c = 0x10CD then Some [0x2D2D]
     else if c = 0x13A0 then Some [0xAB70]
     else if c = 0x13A1 then Some [0xAB71]
     else if c = 0x13A2 then Some [0xAB72]
     else None)"

definition lower_blk_17 :: "codepoint \<Rightarrow> codepoint list option" where
  "lower_blk_17 c =
    (if c = 0x13A3 then Some [0xAB73]
     else if c = 0x13A4 then Some [0xAB74]
     else if c = 0x13A5 then Some [0xAB75]
     else if c = 0x13A6 then Some [0xAB76]
     else if c = 0x13A7 then Some [0xAB77]
     else if c = 0x13A8 then Some [0xAB78]
     else if c = 0x13A9 then Some [0xAB79]
     else if c = 0x13AA then Some [0xAB7A]
     else if c = 0x13AB then Some [0xAB7B]
     else if c = 0x13AC then Some [0xAB7C]
     else if c = 0x13AD then Some [0xAB7D]
     else if c = 0x13AE then Some [0xAB7E]
     else if c = 0x13AF then Some [0xAB7F]
     else if c = 0x13B0 then Some [0xAB80]
     else if c = 0x13B1 then Some [0xAB81]
     else if c = 0x13B2 then Some [0xAB82]
     else if c = 0x13B3 then Some [0xAB83]
     else if c = 0x13B4 then Some [0xAB84]
     else if c = 0x13B5 then Some [0xAB85]
     else if c = 0x13B6 then Some [0xAB86]
     else if c = 0x13B7 then Some [0xAB87]
     else if c = 0x13B8 then Some [0xAB88]
     else if c = 0x13B9 then Some [0xAB89]
     else if c = 0x13BA then Some [0xAB8A]
     else if c = 0x13BB then Some [0xAB8B]
     else if c = 0x13BC then Some [0xAB8C]
     else if c = 0x13BD then Some [0xAB8D]
     else if c = 0x13BE then Some [0xAB8E]
     else if c = 0x13BF then Some [0xAB8F]
     else if c = 0x13C0 then Some [0xAB90]
     else if c = 0x13C1 then Some [0xAB91]
     else if c = 0x13C2 then Some [0xAB92]
     else None)"

definition lower_blk_18 :: "codepoint \<Rightarrow> codepoint list option" where
  "lower_blk_18 c =
    (if c = 0x13C3 then Some [0xAB93]
     else if c = 0x13C4 then Some [0xAB94]
     else if c = 0x13C5 then Some [0xAB95]
     else if c = 0x13C6 then Some [0xAB96]
     else if c = 0x13C7 then Some [0xAB97]
     else if c = 0x13C8 then Some [0xAB98]
     else if c = 0x13C9 then Some [0xAB99]
     else if c = 0x13CA then Some [0xAB9A]
     else if c = 0x13CB then Some [0xAB9B]
     else if c = 0x13CC then Some [0xAB9C]
     else if c = 0x13CD then Some [0xAB9D]
     else if c = 0x13CE then Some [0xAB9E]
     else if c = 0x13CF then Some [0xAB9F]
     else if c = 0x13D0 then Some [0xABA0]
     else if c = 0x13D1 then Some [0xABA1]
     else if c = 0x13D2 then Some [0xABA2]
     else if c = 0x13D3 then Some [0xABA3]
     else if c = 0x13D4 then Some [0xABA4]
     else if c = 0x13D5 then Some [0xABA5]
     else if c = 0x13D6 then Some [0xABA6]
     else if c = 0x13D7 then Some [0xABA7]
     else if c = 0x13D8 then Some [0xABA8]
     else if c = 0x13D9 then Some [0xABA9]
     else if c = 0x13DA then Some [0xABAA]
     else if c = 0x13DB then Some [0xABAB]
     else if c = 0x13DC then Some [0xABAC]
     else if c = 0x13DD then Some [0xABAD]
     else if c = 0x13DE then Some [0xABAE]
     else if c = 0x13DF then Some [0xABAF]
     else if c = 0x13E0 then Some [0xABB0]
     else if c = 0x13E1 then Some [0xABB1]
     else if c = 0x13E2 then Some [0xABB2]
     else None)"

definition lower_blk_19 :: "codepoint \<Rightarrow> codepoint list option" where
  "lower_blk_19 c =
    (if c = 0x13E3 then Some [0xABB3]
     else if c = 0x13E4 then Some [0xABB4]
     else if c = 0x13E5 then Some [0xABB5]
     else if c = 0x13E6 then Some [0xABB6]
     else if c = 0x13E7 then Some [0xABB7]
     else if c = 0x13E8 then Some [0xABB8]
     else if c = 0x13E9 then Some [0xABB9]
     else if c = 0x13EA then Some [0xABBA]
     else if c = 0x13EB then Some [0xABBB]
     else if c = 0x13EC then Some [0xABBC]
     else if c = 0x13ED then Some [0xABBD]
     else if c = 0x13EE then Some [0xABBE]
     else if c = 0x13EF then Some [0xABBF]
     else if c = 0x13F0 then Some [0x13F8]
     else if c = 0x13F1 then Some [0x13F9]
     else if c = 0x13F2 then Some [0x13FA]
     else if c = 0x13F3 then Some [0x13FB]
     else if c = 0x13F4 then Some [0x13FC]
     else if c = 0x13F5 then Some [0x13FD]
     else if c = 0x1C90 then Some [0x10D0]
     else if c = 0x1C91 then Some [0x10D1]
     else if c = 0x1C92 then Some [0x10D2]
     else if c = 0x1C93 then Some [0x10D3]
     else if c = 0x1C94 then Some [0x10D4]
     else if c = 0x1C95 then Some [0x10D5]
     else if c = 0x1C96 then Some [0x10D6]
     else if c = 0x1C97 then Some [0x10D7]
     else if c = 0x1C98 then Some [0x10D8]
     else if c = 0x1C99 then Some [0x10D9]
     else if c = 0x1C9A then Some [0x10DA]
     else if c = 0x1C9B then Some [0x10DB]
     else if c = 0x1C9C then Some [0x10DC]
     else None)"

definition lower_blk_20 :: "codepoint \<Rightarrow> codepoint list option" where
  "lower_blk_20 c =
    (if c = 0x1C9D then Some [0x10DD]
     else if c = 0x1C9E then Some [0x10DE]
     else if c = 0x1C9F then Some [0x10DF]
     else if c = 0x1CA0 then Some [0x10E0]
     else if c = 0x1CA1 then Some [0x10E1]
     else if c = 0x1CA2 then Some [0x10E2]
     else if c = 0x1CA3 then Some [0x10E3]
     else if c = 0x1CA4 then Some [0x10E4]
     else if c = 0x1CA5 then Some [0x10E5]
     else if c = 0x1CA6 then Some [0x10E6]
     else if c = 0x1CA7 then Some [0x10E7]
     else if c = 0x1CA8 then Some [0x10E8]
     else if c = 0x1CA9 then Some [0x10E9]
     else if c = 0x1CAA then Some [0x10EA]
     else if c = 0x1CAB then Some [0x10EB]
     else if c = 0x1CAC then Some [0x10EC]
     else if c = 0x1CAD then Some [0x10ED]
     else if c = 0x1CAE then Some [0x10EE]
     else if c = 0x1CAF then Some [0x10EF]
     else if c = 0x1CB0 then Some [0x10F0]
     else if c = 0x1CB1 then Some [0x10F1]
     else if c = 0x1CB2 then Some [0x10F2]
     else if c = 0x1CB3 then Some [0x10F3]
     else if c = 0x1CB4 then Some [0x10F4]
     else if c = 0x1CB5 then Some [0x10F5]
     else if c = 0x1CB6 then Some [0x10F6]
     else if c = 0x1CB7 then Some [0x10F7]
     else if c = 0x1CB8 then Some [0x10F8]
     else if c = 0x1CB9 then Some [0x10F9]
     else if c = 0x1CBA then Some [0x10FA]
     else if c = 0x1CBD then Some [0x10FD]
     else if c = 0x1CBE then Some [0x10FE]
     else None)"

definition lower_blk_21 :: "codepoint \<Rightarrow> codepoint list option" where
  "lower_blk_21 c =
    (if c = 0x1CBF then Some [0x10FF]
     else if c = 0x1E00 then Some [0x1E01]
     else if c = 0x1E02 then Some [0x1E03]
     else if c = 0x1E04 then Some [0x1E05]
     else if c = 0x1E06 then Some [0x1E07]
     else if c = 0x1E08 then Some [0x1E09]
     else if c = 0x1E0A then Some [0x1E0B]
     else if c = 0x1E0C then Some [0x1E0D]
     else if c = 0x1E0E then Some [0x1E0F]
     else if c = 0x1E10 then Some [0x1E11]
     else if c = 0x1E12 then Some [0x1E13]
     else if c = 0x1E14 then Some [0x1E15]
     else if c = 0x1E16 then Some [0x1E17]
     else if c = 0x1E18 then Some [0x1E19]
     else if c = 0x1E1A then Some [0x1E1B]
     else if c = 0x1E1C then Some [0x1E1D]
     else if c = 0x1E1E then Some [0x1E1F]
     else if c = 0x1E20 then Some [0x1E21]
     else if c = 0x1E22 then Some [0x1E23]
     else if c = 0x1E24 then Some [0x1E25]
     else if c = 0x1E26 then Some [0x1E27]
     else if c = 0x1E28 then Some [0x1E29]
     else if c = 0x1E2A then Some [0x1E2B]
     else if c = 0x1E2C then Some [0x1E2D]
     else if c = 0x1E2E then Some [0x1E2F]
     else if c = 0x1E30 then Some [0x1E31]
     else if c = 0x1E32 then Some [0x1E33]
     else if c = 0x1E34 then Some [0x1E35]
     else if c = 0x1E36 then Some [0x1E37]
     else if c = 0x1E38 then Some [0x1E39]
     else if c = 0x1E3A then Some [0x1E3B]
     else if c = 0x1E3C then Some [0x1E3D]
     else None)"

definition lower_blk_22 :: "codepoint \<Rightarrow> codepoint list option" where
  "lower_blk_22 c =
    (if c = 0x1E3E then Some [0x1E3F]
     else if c = 0x1E40 then Some [0x1E41]
     else if c = 0x1E42 then Some [0x1E43]
     else if c = 0x1E44 then Some [0x1E45]
     else if c = 0x1E46 then Some [0x1E47]
     else if c = 0x1E48 then Some [0x1E49]
     else if c = 0x1E4A then Some [0x1E4B]
     else if c = 0x1E4C then Some [0x1E4D]
     else if c = 0x1E4E then Some [0x1E4F]
     else if c = 0x1E50 then Some [0x1E51]
     else if c = 0x1E52 then Some [0x1E53]
     else if c = 0x1E54 then Some [0x1E55]
     else if c = 0x1E56 then Some [0x1E57]
     else if c = 0x1E58 then Some [0x1E59]
     else if c = 0x1E5A then Some [0x1E5B]
     else if c = 0x1E5C then Some [0x1E5D]
     else if c = 0x1E5E then Some [0x1E5F]
     else if c = 0x1E60 then Some [0x1E61]
     else if c = 0x1E62 then Some [0x1E63]
     else if c = 0x1E64 then Some [0x1E65]
     else if c = 0x1E66 then Some [0x1E67]
     else if c = 0x1E68 then Some [0x1E69]
     else if c = 0x1E6A then Some [0x1E6B]
     else if c = 0x1E6C then Some [0x1E6D]
     else if c = 0x1E6E then Some [0x1E6F]
     else if c = 0x1E70 then Some [0x1E71]
     else if c = 0x1E72 then Some [0x1E73]
     else if c = 0x1E74 then Some [0x1E75]
     else if c = 0x1E76 then Some [0x1E77]
     else if c = 0x1E78 then Some [0x1E79]
     else if c = 0x1E7A then Some [0x1E7B]
     else if c = 0x1E7C then Some [0x1E7D]
     else None)"

definition lower_blk_23 :: "codepoint \<Rightarrow> codepoint list option" where
  "lower_blk_23 c =
    (if c = 0x1E7E then Some [0x1E7F]
     else if c = 0x1E80 then Some [0x1E81]
     else if c = 0x1E82 then Some [0x1E83]
     else if c = 0x1E84 then Some [0x1E85]
     else if c = 0x1E86 then Some [0x1E87]
     else if c = 0x1E88 then Some [0x1E89]
     else if c = 0x1E8A then Some [0x1E8B]
     else if c = 0x1E8C then Some [0x1E8D]
     else if c = 0x1E8E then Some [0x1E8F]
     else if c = 0x1E90 then Some [0x1E91]
     else if c = 0x1E92 then Some [0x1E93]
     else if c = 0x1E94 then Some [0x1E95]
     else if c = 0x1E9E then Some [0xDF]
     else if c = 0x1EA0 then Some [0x1EA1]
     else if c = 0x1EA2 then Some [0x1EA3]
     else if c = 0x1EA4 then Some [0x1EA5]
     else if c = 0x1EA6 then Some [0x1EA7]
     else if c = 0x1EA8 then Some [0x1EA9]
     else if c = 0x1EAA then Some [0x1EAB]
     else if c = 0x1EAC then Some [0x1EAD]
     else if c = 0x1EAE then Some [0x1EAF]
     else if c = 0x1EB0 then Some [0x1EB1]
     else if c = 0x1EB2 then Some [0x1EB3]
     else if c = 0x1EB4 then Some [0x1EB5]
     else if c = 0x1EB6 then Some [0x1EB7]
     else if c = 0x1EB8 then Some [0x1EB9]
     else if c = 0x1EBA then Some [0x1EBB]
     else if c = 0x1EBC then Some [0x1EBD]
     else if c = 0x1EBE then Some [0x1EBF]
     else if c = 0x1EC0 then Some [0x1EC1]
     else if c = 0x1EC2 then Some [0x1EC3]
     else if c = 0x1EC4 then Some [0x1EC5]
     else None)"

definition lower_blk_24 :: "codepoint \<Rightarrow> codepoint list option" where
  "lower_blk_24 c =
    (if c = 0x1EC6 then Some [0x1EC7]
     else if c = 0x1EC8 then Some [0x1EC9]
     else if c = 0x1ECA then Some [0x1ECB]
     else if c = 0x1ECC then Some [0x1ECD]
     else if c = 0x1ECE then Some [0x1ECF]
     else if c = 0x1ED0 then Some [0x1ED1]
     else if c = 0x1ED2 then Some [0x1ED3]
     else if c = 0x1ED4 then Some [0x1ED5]
     else if c = 0x1ED6 then Some [0x1ED7]
     else if c = 0x1ED8 then Some [0x1ED9]
     else if c = 0x1EDA then Some [0x1EDB]
     else if c = 0x1EDC then Some [0x1EDD]
     else if c = 0x1EDE then Some [0x1EDF]
     else if c = 0x1EE0 then Some [0x1EE1]
     else if c = 0x1EE2 then Some [0x1EE3]
     else if c = 0x1EE4 then Some [0x1EE5]
     else if c = 0x1EE6 then Some [0x1EE7]
     else if c = 0x1EE8 then Some [0x1EE9]
     else if c = 0x1EEA then Some [0x1EEB]
     else if c = 0x1EEC then Some [0x1EED]
     else if c = 0x1EEE then Some [0x1EEF]
     else if c = 0x1EF0 then Some [0x1EF1]
     else if c = 0x1EF2 then Some [0x1EF3]
     else if c = 0x1EF4 then Some [0x1EF5]
     else if c = 0x1EF6 then Some [0x1EF7]
     else if c = 0x1EF8 then Some [0x1EF9]
     else if c = 0x1EFA then Some [0x1EFB]
     else if c = 0x1EFC then Some [0x1EFD]
     else if c = 0x1EFE then Some [0x1EFF]
     else if c = 0x1F08 then Some [0x1F00]
     else if c = 0x1F09 then Some [0x1F01]
     else if c = 0x1F0A then Some [0x1F02]
     else None)"

definition lower_blk_25 :: "codepoint \<Rightarrow> codepoint list option" where
  "lower_blk_25 c =
    (if c = 0x1F0B then Some [0x1F03]
     else if c = 0x1F0C then Some [0x1F04]
     else if c = 0x1F0D then Some [0x1F05]
     else if c = 0x1F0E then Some [0x1F06]
     else if c = 0x1F0F then Some [0x1F07]
     else if c = 0x1F18 then Some [0x1F10]
     else if c = 0x1F19 then Some [0x1F11]
     else if c = 0x1F1A then Some [0x1F12]
     else if c = 0x1F1B then Some [0x1F13]
     else if c = 0x1F1C then Some [0x1F14]
     else if c = 0x1F1D then Some [0x1F15]
     else if c = 0x1F28 then Some [0x1F20]
     else if c = 0x1F29 then Some [0x1F21]
     else if c = 0x1F2A then Some [0x1F22]
     else if c = 0x1F2B then Some [0x1F23]
     else if c = 0x1F2C then Some [0x1F24]
     else if c = 0x1F2D then Some [0x1F25]
     else if c = 0x1F2E then Some [0x1F26]
     else if c = 0x1F2F then Some [0x1F27]
     else if c = 0x1F38 then Some [0x1F30]
     else if c = 0x1F39 then Some [0x1F31]
     else if c = 0x1F3A then Some [0x1F32]
     else if c = 0x1F3B then Some [0x1F33]
     else if c = 0x1F3C then Some [0x1F34]
     else if c = 0x1F3D then Some [0x1F35]
     else if c = 0x1F3E then Some [0x1F36]
     else if c = 0x1F3F then Some [0x1F37]
     else if c = 0x1F48 then Some [0x1F40]
     else if c = 0x1F49 then Some [0x1F41]
     else if c = 0x1F4A then Some [0x1F42]
     else if c = 0x1F4B then Some [0x1F43]
     else if c = 0x1F4C then Some [0x1F44]
     else None)"

definition lower_blk_26 :: "codepoint \<Rightarrow> codepoint list option" where
  "lower_blk_26 c =
    (if c = 0x1F4D then Some [0x1F45]
     else if c = 0x1F59 then Some [0x1F51]
     else if c = 0x1F5B then Some [0x1F53]
     else if c = 0x1F5D then Some [0x1F55]
     else if c = 0x1F5F then Some [0x1F57]
     else if c = 0x1F68 then Some [0x1F60]
     else if c = 0x1F69 then Some [0x1F61]
     else if c = 0x1F6A then Some [0x1F62]
     else if c = 0x1F6B then Some [0x1F63]
     else if c = 0x1F6C then Some [0x1F64]
     else if c = 0x1F6D then Some [0x1F65]
     else if c = 0x1F6E then Some [0x1F66]
     else if c = 0x1F6F then Some [0x1F67]
     else if c = 0x1F88 then Some [0x1F80]
     else if c = 0x1F89 then Some [0x1F81]
     else if c = 0x1F8A then Some [0x1F82]
     else if c = 0x1F8B then Some [0x1F83]
     else if c = 0x1F8C then Some [0x1F84]
     else if c = 0x1F8D then Some [0x1F85]
     else if c = 0x1F8E then Some [0x1F86]
     else if c = 0x1F8F then Some [0x1F87]
     else if c = 0x1F98 then Some [0x1F90]
     else if c = 0x1F99 then Some [0x1F91]
     else if c = 0x1F9A then Some [0x1F92]
     else if c = 0x1F9B then Some [0x1F93]
     else if c = 0x1F9C then Some [0x1F94]
     else if c = 0x1F9D then Some [0x1F95]
     else if c = 0x1F9E then Some [0x1F96]
     else if c = 0x1F9F then Some [0x1F97]
     else if c = 0x1FA8 then Some [0x1FA0]
     else if c = 0x1FA9 then Some [0x1FA1]
     else if c = 0x1FAA then Some [0x1FA2]
     else None)"

definition lower_blk_27 :: "codepoint \<Rightarrow> codepoint list option" where
  "lower_blk_27 c =
    (if c = 0x1FAB then Some [0x1FA3]
     else if c = 0x1FAC then Some [0x1FA4]
     else if c = 0x1FAD then Some [0x1FA5]
     else if c = 0x1FAE then Some [0x1FA6]
     else if c = 0x1FAF then Some [0x1FA7]
     else if c = 0x1FB8 then Some [0x1FB0]
     else if c = 0x1FB9 then Some [0x1FB1]
     else if c = 0x1FBA then Some [0x1F70]
     else if c = 0x1FBB then Some [0x1F71]
     else if c = 0x1FBC then Some [0x1FB3]
     else if c = 0x1FC8 then Some [0x1F72]
     else if c = 0x1FC9 then Some [0x1F73]
     else if c = 0x1FCA then Some [0x1F74]
     else if c = 0x1FCB then Some [0x1F75]
     else if c = 0x1FCC then Some [0x1FC3]
     else if c = 0x1FD8 then Some [0x1FD0]
     else if c = 0x1FD9 then Some [0x1FD1]
     else if c = 0x1FDA then Some [0x1F76]
     else if c = 0x1FDB then Some [0x1F77]
     else if c = 0x1FE8 then Some [0x1FE0]
     else if c = 0x1FE9 then Some [0x1FE1]
     else if c = 0x1FEA then Some [0x1F7A]
     else if c = 0x1FEB then Some [0x1F7B]
     else if c = 0x1FEC then Some [0x1FE5]
     else if c = 0x1FF8 then Some [0x1F78]
     else if c = 0x1FF9 then Some [0x1F79]
     else if c = 0x1FFA then Some [0x1F7C]
     else if c = 0x1FFB then Some [0x1F7D]
     else if c = 0x1FFC then Some [0x1FF3]
     else if c = 0x2126 then Some [0x3C9]
     else if c = 0x212A then Some [0x6B]
     else if c = 0x212B then Some [0xE5]
     else None)"

definition lower_blk_28 :: "codepoint \<Rightarrow> codepoint list option" where
  "lower_blk_28 c =
    (if c = 0x2132 then Some [0x214E]
     else if c = 0x2160 then Some [0x2170]
     else if c = 0x2161 then Some [0x2171]
     else if c = 0x2162 then Some [0x2172]
     else if c = 0x2163 then Some [0x2173]
     else if c = 0x2164 then Some [0x2174]
     else if c = 0x2165 then Some [0x2175]
     else if c = 0x2166 then Some [0x2176]
     else if c = 0x2167 then Some [0x2177]
     else if c = 0x2168 then Some [0x2178]
     else if c = 0x2169 then Some [0x2179]
     else if c = 0x216A then Some [0x217A]
     else if c = 0x216B then Some [0x217B]
     else if c = 0x216C then Some [0x217C]
     else if c = 0x216D then Some [0x217D]
     else if c = 0x216E then Some [0x217E]
     else if c = 0x216F then Some [0x217F]
     else if c = 0x2183 then Some [0x2184]
     else if c = 0x24B6 then Some [0x24D0]
     else if c = 0x24B7 then Some [0x24D1]
     else if c = 0x24B8 then Some [0x24D2]
     else if c = 0x24B9 then Some [0x24D3]
     else if c = 0x24BA then Some [0x24D4]
     else if c = 0x24BB then Some [0x24D5]
     else if c = 0x24BC then Some [0x24D6]
     else if c = 0x24BD then Some [0x24D7]
     else if c = 0x24BE then Some [0x24D8]
     else if c = 0x24BF then Some [0x24D9]
     else if c = 0x24C0 then Some [0x24DA]
     else if c = 0x24C1 then Some [0x24DB]
     else if c = 0x24C2 then Some [0x24DC]
     else if c = 0x24C3 then Some [0x24DD]
     else None)"

definition lower_blk_29 :: "codepoint \<Rightarrow> codepoint list option" where
  "lower_blk_29 c =
    (if c = 0x24C4 then Some [0x24DE]
     else if c = 0x24C5 then Some [0x24DF]
     else if c = 0x24C6 then Some [0x24E0]
     else if c = 0x24C7 then Some [0x24E1]
     else if c = 0x24C8 then Some [0x24E2]
     else if c = 0x24C9 then Some [0x24E3]
     else if c = 0x24CA then Some [0x24E4]
     else if c = 0x24CB then Some [0x24E5]
     else if c = 0x24CC then Some [0x24E6]
     else if c = 0x24CD then Some [0x24E7]
     else if c = 0x24CE then Some [0x24E8]
     else if c = 0x24CF then Some [0x24E9]
     else if c = 0x2C00 then Some [0x2C30]
     else if c = 0x2C01 then Some [0x2C31]
     else if c = 0x2C02 then Some [0x2C32]
     else if c = 0x2C03 then Some [0x2C33]
     else if c = 0x2C04 then Some [0x2C34]
     else if c = 0x2C05 then Some [0x2C35]
     else if c = 0x2C06 then Some [0x2C36]
     else if c = 0x2C07 then Some [0x2C37]
     else if c = 0x2C08 then Some [0x2C38]
     else if c = 0x2C09 then Some [0x2C39]
     else if c = 0x2C0A then Some [0x2C3A]
     else if c = 0x2C0B then Some [0x2C3B]
     else if c = 0x2C0C then Some [0x2C3C]
     else if c = 0x2C0D then Some [0x2C3D]
     else if c = 0x2C0E then Some [0x2C3E]
     else if c = 0x2C0F then Some [0x2C3F]
     else if c = 0x2C10 then Some [0x2C40]
     else if c = 0x2C11 then Some [0x2C41]
     else if c = 0x2C12 then Some [0x2C42]
     else if c = 0x2C13 then Some [0x2C43]
     else None)"

definition lower_blk_30 :: "codepoint \<Rightarrow> codepoint list option" where
  "lower_blk_30 c =
    (if c = 0x2C14 then Some [0x2C44]
     else if c = 0x2C15 then Some [0x2C45]
     else if c = 0x2C16 then Some [0x2C46]
     else if c = 0x2C17 then Some [0x2C47]
     else if c = 0x2C18 then Some [0x2C48]
     else if c = 0x2C19 then Some [0x2C49]
     else if c = 0x2C1A then Some [0x2C4A]
     else if c = 0x2C1B then Some [0x2C4B]
     else if c = 0x2C1C then Some [0x2C4C]
     else if c = 0x2C1D then Some [0x2C4D]
     else if c = 0x2C1E then Some [0x2C4E]
     else if c = 0x2C1F then Some [0x2C4F]
     else if c = 0x2C20 then Some [0x2C50]
     else if c = 0x2C21 then Some [0x2C51]
     else if c = 0x2C22 then Some [0x2C52]
     else if c = 0x2C23 then Some [0x2C53]
     else if c = 0x2C24 then Some [0x2C54]
     else if c = 0x2C25 then Some [0x2C55]
     else if c = 0x2C26 then Some [0x2C56]
     else if c = 0x2C27 then Some [0x2C57]
     else if c = 0x2C28 then Some [0x2C58]
     else if c = 0x2C29 then Some [0x2C59]
     else if c = 0x2C2A then Some [0x2C5A]
     else if c = 0x2C2B then Some [0x2C5B]
     else if c = 0x2C2C then Some [0x2C5C]
     else if c = 0x2C2D then Some [0x2C5D]
     else if c = 0x2C2E then Some [0x2C5E]
     else if c = 0x2C2F then Some [0x2C5F]
     else if c = 0x2C60 then Some [0x2C61]
     else if c = 0x2C62 then Some [0x26B]
     else if c = 0x2C63 then Some [0x1D7D]
     else if c = 0x2C64 then Some [0x27D]
     else None)"

definition lower_blk_31 :: "codepoint \<Rightarrow> codepoint list option" where
  "lower_blk_31 c =
    (if c = 0x2C67 then Some [0x2C68]
     else if c = 0x2C69 then Some [0x2C6A]
     else if c = 0x2C6B then Some [0x2C6C]
     else if c = 0x2C6D then Some [0x251]
     else if c = 0x2C6E then Some [0x271]
     else if c = 0x2C6F then Some [0x250]
     else if c = 0x2C70 then Some [0x252]
     else if c = 0x2C72 then Some [0x2C73]
     else if c = 0x2C75 then Some [0x2C76]
     else if c = 0x2C7E then Some [0x23F]
     else if c = 0x2C7F then Some [0x240]
     else if c = 0x2C80 then Some [0x2C81]
     else if c = 0x2C82 then Some [0x2C83]
     else if c = 0x2C84 then Some [0x2C85]
     else if c = 0x2C86 then Some [0x2C87]
     else if c = 0x2C88 then Some [0x2C89]
     else if c = 0x2C8A then Some [0x2C8B]
     else if c = 0x2C8C then Some [0x2C8D]
     else if c = 0x2C8E then Some [0x2C8F]
     else if c = 0x2C90 then Some [0x2C91]
     else if c = 0x2C92 then Some [0x2C93]
     else if c = 0x2C94 then Some [0x2C95]
     else if c = 0x2C96 then Some [0x2C97]
     else if c = 0x2C98 then Some [0x2C99]
     else if c = 0x2C9A then Some [0x2C9B]
     else if c = 0x2C9C then Some [0x2C9D]
     else if c = 0x2C9E then Some [0x2C9F]
     else if c = 0x2CA0 then Some [0x2CA1]
     else if c = 0x2CA2 then Some [0x2CA3]
     else if c = 0x2CA4 then Some [0x2CA5]
     else if c = 0x2CA6 then Some [0x2CA7]
     else if c = 0x2CA8 then Some [0x2CA9]
     else None)"

definition lower_blk_32 :: "codepoint \<Rightarrow> codepoint list option" where
  "lower_blk_32 c =
    (if c = 0x2CAA then Some [0x2CAB]
     else if c = 0x2CAC then Some [0x2CAD]
     else if c = 0x2CAE then Some [0x2CAF]
     else if c = 0x2CB0 then Some [0x2CB1]
     else if c = 0x2CB2 then Some [0x2CB3]
     else if c = 0x2CB4 then Some [0x2CB5]
     else if c = 0x2CB6 then Some [0x2CB7]
     else if c = 0x2CB8 then Some [0x2CB9]
     else if c = 0x2CBA then Some [0x2CBB]
     else if c = 0x2CBC then Some [0x2CBD]
     else if c = 0x2CBE then Some [0x2CBF]
     else if c = 0x2CC0 then Some [0x2CC1]
     else if c = 0x2CC2 then Some [0x2CC3]
     else if c = 0x2CC4 then Some [0x2CC5]
     else if c = 0x2CC6 then Some [0x2CC7]
     else if c = 0x2CC8 then Some [0x2CC9]
     else if c = 0x2CCA then Some [0x2CCB]
     else if c = 0x2CCC then Some [0x2CCD]
     else if c = 0x2CCE then Some [0x2CCF]
     else if c = 0x2CD0 then Some [0x2CD1]
     else if c = 0x2CD2 then Some [0x2CD3]
     else if c = 0x2CD4 then Some [0x2CD5]
     else if c = 0x2CD6 then Some [0x2CD7]
     else if c = 0x2CD8 then Some [0x2CD9]
     else if c = 0x2CDA then Some [0x2CDB]
     else if c = 0x2CDC then Some [0x2CDD]
     else if c = 0x2CDE then Some [0x2CDF]
     else if c = 0x2CE0 then Some [0x2CE1]
     else if c = 0x2CE2 then Some [0x2CE3]
     else if c = 0x2CEB then Some [0x2CEC]
     else if c = 0x2CED then Some [0x2CEE]
     else if c = 0x2CF2 then Some [0x2CF3]
     else None)"

definition lower_blk_33 :: "codepoint \<Rightarrow> codepoint list option" where
  "lower_blk_33 c =
    (if c = 0xA640 then Some [0xA641]
     else if c = 0xA642 then Some [0xA643]
     else if c = 0xA644 then Some [0xA645]
     else if c = 0xA646 then Some [0xA647]
     else if c = 0xA648 then Some [0xA649]
     else if c = 0xA64A then Some [0xA64B]
     else if c = 0xA64C then Some [0xA64D]
     else if c = 0xA64E then Some [0xA64F]
     else if c = 0xA650 then Some [0xA651]
     else if c = 0xA652 then Some [0xA653]
     else if c = 0xA654 then Some [0xA655]
     else if c = 0xA656 then Some [0xA657]
     else if c = 0xA658 then Some [0xA659]
     else if c = 0xA65A then Some [0xA65B]
     else if c = 0xA65C then Some [0xA65D]
     else if c = 0xA65E then Some [0xA65F]
     else if c = 0xA660 then Some [0xA661]
     else if c = 0xA662 then Some [0xA663]
     else if c = 0xA664 then Some [0xA665]
     else if c = 0xA666 then Some [0xA667]
     else if c = 0xA668 then Some [0xA669]
     else if c = 0xA66A then Some [0xA66B]
     else if c = 0xA66C then Some [0xA66D]
     else if c = 0xA680 then Some [0xA681]
     else if c = 0xA682 then Some [0xA683]
     else if c = 0xA684 then Some [0xA685]
     else if c = 0xA686 then Some [0xA687]
     else if c = 0xA688 then Some [0xA689]
     else if c = 0xA68A then Some [0xA68B]
     else if c = 0xA68C then Some [0xA68D]
     else if c = 0xA68E then Some [0xA68F]
     else if c = 0xA690 then Some [0xA691]
     else None)"

definition lower_blk_34 :: "codepoint \<Rightarrow> codepoint list option" where
  "lower_blk_34 c =
    (if c = 0xA692 then Some [0xA693]
     else if c = 0xA694 then Some [0xA695]
     else if c = 0xA696 then Some [0xA697]
     else if c = 0xA698 then Some [0xA699]
     else if c = 0xA69A then Some [0xA69B]
     else if c = 0xA722 then Some [0xA723]
     else if c = 0xA724 then Some [0xA725]
     else if c = 0xA726 then Some [0xA727]
     else if c = 0xA728 then Some [0xA729]
     else if c = 0xA72A then Some [0xA72B]
     else if c = 0xA72C then Some [0xA72D]
     else if c = 0xA72E then Some [0xA72F]
     else if c = 0xA732 then Some [0xA733]
     else if c = 0xA734 then Some [0xA735]
     else if c = 0xA736 then Some [0xA737]
     else if c = 0xA738 then Some [0xA739]
     else if c = 0xA73A then Some [0xA73B]
     else if c = 0xA73C then Some [0xA73D]
     else if c = 0xA73E then Some [0xA73F]
     else if c = 0xA740 then Some [0xA741]
     else if c = 0xA742 then Some [0xA743]
     else if c = 0xA744 then Some [0xA745]
     else if c = 0xA746 then Some [0xA747]
     else if c = 0xA748 then Some [0xA749]
     else if c = 0xA74A then Some [0xA74B]
     else if c = 0xA74C then Some [0xA74D]
     else if c = 0xA74E then Some [0xA74F]
     else if c = 0xA750 then Some [0xA751]
     else if c = 0xA752 then Some [0xA753]
     else if c = 0xA754 then Some [0xA755]
     else if c = 0xA756 then Some [0xA757]
     else if c = 0xA758 then Some [0xA759]
     else None)"

definition lower_blk_35 :: "codepoint \<Rightarrow> codepoint list option" where
  "lower_blk_35 c =
    (if c = 0xA75A then Some [0xA75B]
     else if c = 0xA75C then Some [0xA75D]
     else if c = 0xA75E then Some [0xA75F]
     else if c = 0xA760 then Some [0xA761]
     else if c = 0xA762 then Some [0xA763]
     else if c = 0xA764 then Some [0xA765]
     else if c = 0xA766 then Some [0xA767]
     else if c = 0xA768 then Some [0xA769]
     else if c = 0xA76A then Some [0xA76B]
     else if c = 0xA76C then Some [0xA76D]
     else if c = 0xA76E then Some [0xA76F]
     else if c = 0xA779 then Some [0xA77A]
     else if c = 0xA77B then Some [0xA77C]
     else if c = 0xA77D then Some [0x1D79]
     else if c = 0xA77E then Some [0xA77F]
     else if c = 0xA780 then Some [0xA781]
     else if c = 0xA782 then Some [0xA783]
     else if c = 0xA784 then Some [0xA785]
     else if c = 0xA786 then Some [0xA787]
     else if c = 0xA78B then Some [0xA78C]
     else if c = 0xA78D then Some [0x265]
     else if c = 0xA790 then Some [0xA791]
     else if c = 0xA792 then Some [0xA793]
     else if c = 0xA796 then Some [0xA797]
     else if c = 0xA798 then Some [0xA799]
     else if c = 0xA79A then Some [0xA79B]
     else if c = 0xA79C then Some [0xA79D]
     else if c = 0xA79E then Some [0xA79F]
     else if c = 0xA7A0 then Some [0xA7A1]
     else if c = 0xA7A2 then Some [0xA7A3]
     else if c = 0xA7A4 then Some [0xA7A5]
     else if c = 0xA7A6 then Some [0xA7A7]
     else None)"

definition lower_blk_36 :: "codepoint \<Rightarrow> codepoint list option" where
  "lower_blk_36 c =
    (if c = 0xA7A8 then Some [0xA7A9]
     else if c = 0xA7AA then Some [0x266]
     else if c = 0xA7AB then Some [0x25C]
     else if c = 0xA7AC then Some [0x261]
     else if c = 0xA7AD then Some [0x26C]
     else if c = 0xA7AE then Some [0x26A]
     else if c = 0xA7B0 then Some [0x29E]
     else if c = 0xA7B1 then Some [0x287]
     else if c = 0xA7B2 then Some [0x29D]
     else if c = 0xA7B3 then Some [0xAB53]
     else if c = 0xA7B4 then Some [0xA7B5]
     else if c = 0xA7B6 then Some [0xA7B7]
     else if c = 0xA7B8 then Some [0xA7B9]
     else if c = 0xA7BA then Some [0xA7BB]
     else if c = 0xA7BC then Some [0xA7BD]
     else if c = 0xA7BE then Some [0xA7BF]
     else if c = 0xA7C0 then Some [0xA7C1]
     else if c = 0xA7C2 then Some [0xA7C3]
     else if c = 0xA7C4 then Some [0xA794]
     else if c = 0xA7C5 then Some [0x282]
     else if c = 0xA7C6 then Some [0x1D8E]
     else if c = 0xA7C7 then Some [0xA7C8]
     else if c = 0xA7C9 then Some [0xA7CA]
     else if c = 0xA7D0 then Some [0xA7D1]
     else if c = 0xA7D6 then Some [0xA7D7]
     else if c = 0xA7D8 then Some [0xA7D9]
     else if c = 0xA7F5 then Some [0xA7F6]
     else if c = 0xFF21 then Some [0xFF41]
     else if c = 0xFF22 then Some [0xFF42]
     else if c = 0xFF23 then Some [0xFF43]
     else if c = 0xFF24 then Some [0xFF44]
     else if c = 0xFF25 then Some [0xFF45]
     else None)"

definition lower_blk_37 :: "codepoint \<Rightarrow> codepoint list option" where
  "lower_blk_37 c =
    (if c = 0xFF26 then Some [0xFF46]
     else if c = 0xFF27 then Some [0xFF47]
     else if c = 0xFF28 then Some [0xFF48]
     else if c = 0xFF29 then Some [0xFF49]
     else if c = 0xFF2A then Some [0xFF4A]
     else if c = 0xFF2B then Some [0xFF4B]
     else if c = 0xFF2C then Some [0xFF4C]
     else if c = 0xFF2D then Some [0xFF4D]
     else if c = 0xFF2E then Some [0xFF4E]
     else if c = 0xFF2F then Some [0xFF4F]
     else if c = 0xFF30 then Some [0xFF50]
     else if c = 0xFF31 then Some [0xFF51]
     else if c = 0xFF32 then Some [0xFF52]
     else if c = 0xFF33 then Some [0xFF53]
     else if c = 0xFF34 then Some [0xFF54]
     else if c = 0xFF35 then Some [0xFF55]
     else if c = 0xFF36 then Some [0xFF56]
     else if c = 0xFF37 then Some [0xFF57]
     else if c = 0xFF38 then Some [0xFF58]
     else if c = 0xFF39 then Some [0xFF59]
     else if c = 0xFF3A then Some [0xFF5A]
     else if c = 0x10400 then Some [0x10428]
     else if c = 0x10401 then Some [0x10429]
     else if c = 0x10402 then Some [0x1042A]
     else if c = 0x10403 then Some [0x1042B]
     else if c = 0x10404 then Some [0x1042C]
     else if c = 0x10405 then Some [0x1042D]
     else if c = 0x10406 then Some [0x1042E]
     else if c = 0x10407 then Some [0x1042F]
     else if c = 0x10408 then Some [0x10430]
     else if c = 0x10409 then Some [0x10431]
     else if c = 0x1040A then Some [0x10432]
     else None)"

definition lower_blk_38 :: "codepoint \<Rightarrow> codepoint list option" where
  "lower_blk_38 c =
    (if c = 0x1040B then Some [0x10433]
     else if c = 0x1040C then Some [0x10434]
     else if c = 0x1040D then Some [0x10435]
     else if c = 0x1040E then Some [0x10436]
     else if c = 0x1040F then Some [0x10437]
     else if c = 0x10410 then Some [0x10438]
     else if c = 0x10411 then Some [0x10439]
     else if c = 0x10412 then Some [0x1043A]
     else if c = 0x10413 then Some [0x1043B]
     else if c = 0x10414 then Some [0x1043C]
     else if c = 0x10415 then Some [0x1043D]
     else if c = 0x10416 then Some [0x1043E]
     else if c = 0x10417 then Some [0x1043F]
     else if c = 0x10418 then Some [0x10440]
     else if c = 0x10419 then Some [0x10441]
     else if c = 0x1041A then Some [0x10442]
     else if c = 0x1041B then Some [0x10443]
     else if c = 0x1041C then Some [0x10444]
     else if c = 0x1041D then Some [0x10445]
     else if c = 0x1041E then Some [0x10446]
     else if c = 0x1041F then Some [0x10447]
     else if c = 0x10420 then Some [0x10448]
     else if c = 0x10421 then Some [0x10449]
     else if c = 0x10422 then Some [0x1044A]
     else if c = 0x10423 then Some [0x1044B]
     else if c = 0x10424 then Some [0x1044C]
     else if c = 0x10425 then Some [0x1044D]
     else if c = 0x10426 then Some [0x1044E]
     else if c = 0x10427 then Some [0x1044F]
     else if c = 0x104B0 then Some [0x104D8]
     else if c = 0x104B1 then Some [0x104D9]
     else if c = 0x104B2 then Some [0x104DA]
     else None)"

definition lower_blk_39 :: "codepoint \<Rightarrow> codepoint list option" where
  "lower_blk_39 c =
    (if c = 0x104B3 then Some [0x104DB]
     else if c = 0x104B4 then Some [0x104DC]
     else if c = 0x104B5 then Some [0x104DD]
     else if c = 0x104B6 then Some [0x104DE]
     else if c = 0x104B7 then Some [0x104DF]
     else if c = 0x104B8 then Some [0x104E0]
     else if c = 0x104B9 then Some [0x104E1]
     else if c = 0x104BA then Some [0x104E2]
     else if c = 0x104BB then Some [0x104E3]
     else if c = 0x104BC then Some [0x104E4]
     else if c = 0x104BD then Some [0x104E5]
     else if c = 0x104BE then Some [0x104E6]
     else if c = 0x104BF then Some [0x104E7]
     else if c = 0x104C0 then Some [0x104E8]
     else if c = 0x104C1 then Some [0x104E9]
     else if c = 0x104C2 then Some [0x104EA]
     else if c = 0x104C3 then Some [0x104EB]
     else if c = 0x104C4 then Some [0x104EC]
     else if c = 0x104C5 then Some [0x104ED]
     else if c = 0x104C6 then Some [0x104EE]
     else if c = 0x104C7 then Some [0x104EF]
     else if c = 0x104C8 then Some [0x104F0]
     else if c = 0x104C9 then Some [0x104F1]
     else if c = 0x104CA then Some [0x104F2]
     else if c = 0x104CB then Some [0x104F3]
     else if c = 0x104CC then Some [0x104F4]
     else if c = 0x104CD then Some [0x104F5]
     else if c = 0x104CE then Some [0x104F6]
     else if c = 0x104CF then Some [0x104F7]
     else if c = 0x104D0 then Some [0x104F8]
     else if c = 0x104D1 then Some [0x104F9]
     else if c = 0x104D2 then Some [0x104FA]
     else None)"

definition lower_blk_40 :: "codepoint \<Rightarrow> codepoint list option" where
  "lower_blk_40 c =
    (if c = 0x104D3 then Some [0x104FB]
     else if c = 0x10570 then Some [0x10597]
     else if c = 0x10571 then Some [0x10598]
     else if c = 0x10572 then Some [0x10599]
     else if c = 0x10573 then Some [0x1059A]
     else if c = 0x10574 then Some [0x1059B]
     else if c = 0x10575 then Some [0x1059C]
     else if c = 0x10576 then Some [0x1059D]
     else if c = 0x10577 then Some [0x1059E]
     else if c = 0x10578 then Some [0x1059F]
     else if c = 0x10579 then Some [0x105A0]
     else if c = 0x1057A then Some [0x105A1]
     else if c = 0x1057C then Some [0x105A3]
     else if c = 0x1057D then Some [0x105A4]
     else if c = 0x1057E then Some [0x105A5]
     else if c = 0x1057F then Some [0x105A6]
     else if c = 0x10580 then Some [0x105A7]
     else if c = 0x10581 then Some [0x105A8]
     else if c = 0x10582 then Some [0x105A9]
     else if c = 0x10583 then Some [0x105AA]
     else if c = 0x10584 then Some [0x105AB]
     else if c = 0x10585 then Some [0x105AC]
     else if c = 0x10586 then Some [0x105AD]
     else if c = 0x10587 then Some [0x105AE]
     else if c = 0x10588 then Some [0x105AF]
     else if c = 0x10589 then Some [0x105B0]
     else if c = 0x1058A then Some [0x105B1]
     else if c = 0x1058C then Some [0x105B3]
     else if c = 0x1058D then Some [0x105B4]
     else if c = 0x1058E then Some [0x105B5]
     else if c = 0x1058F then Some [0x105B6]
     else if c = 0x10590 then Some [0x105B7]
     else None)"

definition lower_blk_41 :: "codepoint \<Rightarrow> codepoint list option" where
  "lower_blk_41 c =
    (if c = 0x10591 then Some [0x105B8]
     else if c = 0x10592 then Some [0x105B9]
     else if c = 0x10594 then Some [0x105BB]
     else if c = 0x10595 then Some [0x105BC]
     else if c = 0x10C80 then Some [0x10CC0]
     else if c = 0x10C81 then Some [0x10CC1]
     else if c = 0x10C82 then Some [0x10CC2]
     else if c = 0x10C83 then Some [0x10CC3]
     else if c = 0x10C84 then Some [0x10CC4]
     else if c = 0x10C85 then Some [0x10CC5]
     else if c = 0x10C86 then Some [0x10CC6]
     else if c = 0x10C87 then Some [0x10CC7]
     else if c = 0x10C88 then Some [0x10CC8]
     else if c = 0x10C89 then Some [0x10CC9]
     else if c = 0x10C8A then Some [0x10CCA]
     else if c = 0x10C8B then Some [0x10CCB]
     else if c = 0x10C8C then Some [0x10CCC]
     else if c = 0x10C8D then Some [0x10CCD]
     else if c = 0x10C8E then Some [0x10CCE]
     else if c = 0x10C8F then Some [0x10CCF]
     else if c = 0x10C90 then Some [0x10CD0]
     else if c = 0x10C91 then Some [0x10CD1]
     else if c = 0x10C92 then Some [0x10CD2]
     else if c = 0x10C93 then Some [0x10CD3]
     else if c = 0x10C94 then Some [0x10CD4]
     else if c = 0x10C95 then Some [0x10CD5]
     else if c = 0x10C96 then Some [0x10CD6]
     else if c = 0x10C97 then Some [0x10CD7]
     else if c = 0x10C98 then Some [0x10CD8]
     else if c = 0x10C99 then Some [0x10CD9]
     else if c = 0x10C9A then Some [0x10CDA]
     else if c = 0x10C9B then Some [0x10CDB]
     else None)"

definition lower_blk_42 :: "codepoint \<Rightarrow> codepoint list option" where
  "lower_blk_42 c =
    (if c = 0x10C9C then Some [0x10CDC]
     else if c = 0x10C9D then Some [0x10CDD]
     else if c = 0x10C9E then Some [0x10CDE]
     else if c = 0x10C9F then Some [0x10CDF]
     else if c = 0x10CA0 then Some [0x10CE0]
     else if c = 0x10CA1 then Some [0x10CE1]
     else if c = 0x10CA2 then Some [0x10CE2]
     else if c = 0x10CA3 then Some [0x10CE3]
     else if c = 0x10CA4 then Some [0x10CE4]
     else if c = 0x10CA5 then Some [0x10CE5]
     else if c = 0x10CA6 then Some [0x10CE6]
     else if c = 0x10CA7 then Some [0x10CE7]
     else if c = 0x10CA8 then Some [0x10CE8]
     else if c = 0x10CA9 then Some [0x10CE9]
     else if c = 0x10CAA then Some [0x10CEA]
     else if c = 0x10CAB then Some [0x10CEB]
     else if c = 0x10CAC then Some [0x10CEC]
     else if c = 0x10CAD then Some [0x10CED]
     else if c = 0x10CAE then Some [0x10CEE]
     else if c = 0x10CAF then Some [0x10CEF]
     else if c = 0x10CB0 then Some [0x10CF0]
     else if c = 0x10CB1 then Some [0x10CF1]
     else if c = 0x10CB2 then Some [0x10CF2]
     else if c = 0x118A0 then Some [0x118C0]
     else if c = 0x118A1 then Some [0x118C1]
     else if c = 0x118A2 then Some [0x118C2]
     else if c = 0x118A3 then Some [0x118C3]
     else if c = 0x118A4 then Some [0x118C4]
     else if c = 0x118A5 then Some [0x118C5]
     else if c = 0x118A6 then Some [0x118C6]
     else if c = 0x118A7 then Some [0x118C7]
     else if c = 0x118A8 then Some [0x118C8]
     else None)"

definition lower_blk_43 :: "codepoint \<Rightarrow> codepoint list option" where
  "lower_blk_43 c =
    (if c = 0x118A9 then Some [0x118C9]
     else if c = 0x118AA then Some [0x118CA]
     else if c = 0x118AB then Some [0x118CB]
     else if c = 0x118AC then Some [0x118CC]
     else if c = 0x118AD then Some [0x118CD]
     else if c = 0x118AE then Some [0x118CE]
     else if c = 0x118AF then Some [0x118CF]
     else if c = 0x118B0 then Some [0x118D0]
     else if c = 0x118B1 then Some [0x118D1]
     else if c = 0x118B2 then Some [0x118D2]
     else if c = 0x118B3 then Some [0x118D3]
     else if c = 0x118B4 then Some [0x118D4]
     else if c = 0x118B5 then Some [0x118D5]
     else if c = 0x118B6 then Some [0x118D6]
     else if c = 0x118B7 then Some [0x118D7]
     else if c = 0x118B8 then Some [0x118D8]
     else if c = 0x118B9 then Some [0x118D9]
     else if c = 0x118BA then Some [0x118DA]
     else if c = 0x118BB then Some [0x118DB]
     else if c = 0x118BC then Some [0x118DC]
     else if c = 0x118BD then Some [0x118DD]
     else if c = 0x118BE then Some [0x118DE]
     else if c = 0x118BF then Some [0x118DF]
     else if c = 0x16E40 then Some [0x16E60]
     else if c = 0x16E41 then Some [0x16E61]
     else if c = 0x16E42 then Some [0x16E62]
     else if c = 0x16E43 then Some [0x16E63]
     else if c = 0x16E44 then Some [0x16E64]
     else if c = 0x16E45 then Some [0x16E65]
     else if c = 0x16E46 then Some [0x16E66]
     else if c = 0x16E47 then Some [0x16E67]
     else if c = 0x16E48 then Some [0x16E68]
     else None)"

definition lower_blk_44 :: "codepoint \<Rightarrow> codepoint list option" where
  "lower_blk_44 c =
    (if c = 0x16E49 then Some [0x16E69]
     else if c = 0x16E4A then Some [0x16E6A]
     else if c = 0x16E4B then Some [0x16E6B]
     else if c = 0x16E4C then Some [0x16E6C]
     else if c = 0x16E4D then Some [0x16E6D]
     else if c = 0x16E4E then Some [0x16E6E]
     else if c = 0x16E4F then Some [0x16E6F]
     else if c = 0x16E50 then Some [0x16E70]
     else if c = 0x16E51 then Some [0x16E71]
     else if c = 0x16E52 then Some [0x16E72]
     else if c = 0x16E53 then Some [0x16E73]
     else if c = 0x16E54 then Some [0x16E74]
     else if c = 0x16E55 then Some [0x16E75]
     else if c = 0x16E56 then Some [0x16E76]
     else if c = 0x16E57 then Some [0x16E77]
     else if c = 0x16E58 then Some [0x16E78]
     else if c = 0x16E59 then Some [0x16E79]
     else if c = 0x16E5A then Some [0x16E7A]
     else if c = 0x16E5B then Some [0x16E7B]
     else if c = 0x16E5C then Some [0x16E7C]
     else if c = 0x16E5D then Some [0x16E7D]
     else if c = 0x16E5E then Some [0x16E7E]
     else if c = 0x16E5F then Some [0x16E7F]
     else if c = 0x1E900 then Some [0x1E922]
     else if c = 0x1E901 then Some [0x1E923]
     else if c = 0x1E902 then Some [0x1E924]
     else if c = 0x1E903 then Some [0x1E925]
     else if c = 0x1E904 then Some [0x1E926]
     else if c = 0x1E905 then Some [0x1E927]
     else if c = 0x1E906 then Some [0x1E928]
     else if c = 0x1E907 then Some [0x1E929]
     else if c = 0x1E908 then Some [0x1E92A]
     else None)"

definition lower_blk_45 :: "codepoint \<Rightarrow> codepoint list option" where
  "lower_blk_45 c =
    (if c = 0x1E909 then Some [0x1E92B]
     else if c = 0x1E90A then Some [0x1E92C]
     else if c = 0x1E90B then Some [0x1E92D]
     else if c = 0x1E90C then Some [0x1E92E]
     else if c = 0x1E90D then Some [0x1E92F]
     else if c = 0x1E90E then Some [0x1E930]
     else if c = 0x1E90F then Some [0x1E931]
     else if c = 0x1E910 then Some [0x1E932]
     else if c = 0x1E911 then Some [0x1E933]
     else if c = 0x1E912 then Some [0x1E934]
     else if c = 0x1E913 then Some [0x1E935]
     else if c = 0x1E914 then Some [0x1E936]
     else if c = 0x1E915 then Some [0x1E937]
     else if c = 0x1E916 then Some [0x1E938]
     else if c = 0x1E917 then Some [0x1E939]
     else if c = 0x1E918 then Some [0x1E93A]
     else if c = 0x1E919 then Some [0x1E93B]
     else if c = 0x1E91A then Some [0x1E93C]
     else if c = 0x1E91B then Some [0x1E93D]
     else if c = 0x1E91C then Some [0x1E93E]
     else if c = 0x1E91D then Some [0x1E93F]
     else if c = 0x1E91E then Some [0x1E940]
     else if c = 0x1E91F then Some [0x1E941]
     else if c = 0x1E920 then Some [0x1E942]
     else if c = 0x1E921 then Some [0x1E943]
     else None)"

definition lower_lookup :: "codepoint \<Rightarrow> codepoint list option" where
  "lower_lookup c =
     (if c < 0x1E7E
      then (if c < 0x492
            then (if c < 0x1CB
                  then (if c < 0x110
                        then (if c < 0xC6
                              then lower_blk_1 c
                              else lower_blk_2 c)
                        else (if c < 0x152
                              then lower_blk_3 c
                              else (if c < 0x18F
                                    then lower_blk_4 c
                                    else lower_blk_5 c)))
                  else (if c < 0x3A5
                        then (if c < 0x20A
                              then lower_blk_6 c
                              else (if c < 0x24C
                                    then lower_blk_7 c
                                    else lower_blk_8 c))
                        else (if c < 0x405
                              then lower_blk_9 c
                              else (if c < 0x425
                                    then lower_blk_10 c
                                    else lower_blk_11 c))))
            else (if c < 0x13A3
                  then (if c < 0x512
                        then (if c < 0x4D2
                              then lower_blk_12 c
                              else lower_blk_13 c)
                        else (if c < 0x542
                              then lower_blk_14 c
                              else (if c < 0x10AB
                                    then lower_blk_15 c
                                    else lower_blk_16 c)))
                  else (if c < 0x1C9D
                        then (if c < 0x13C3
                              then lower_blk_17 c
                              else (if c < 0x13E3
                                    then lower_blk_18 c
                                    else lower_blk_19 c))
                        else (if c < 0x1CBF
                              then lower_blk_20 c
                              else (if c < 0x1E3E
                                    then lower_blk_21 c
                                    else lower_blk_22 c)))))
      else (if c < 0xA692
            then (if c < 0x2132
                  then (if c < 0x1F0B
                        then (if c < 0x1EC6
                              then lower_blk_23 c
                              else lower_blk_24 c)
                        else (if c < 0x1F4D
                              then lower_blk_25 c
                              else (if c < 0x1FAB
                                    then lower_blk_26 c
                                    else lower_blk_27 c)))
                  else (if c < 0x2C67
                        then (if c < 0x24C4
                              then lower_blk_28 c
                              else (if c < 0x2C14
                                    then lower_blk_29 c
                                    else lower_blk_30 c))
                        else (if c < 0x2CAA
                              then lower_blk_31 c
                              else (if c < 0xA640
                                    then lower_blk_32 c
                                    else lower_blk_33 c))))
            else (if c < 0x104D3
                  then (if c < 0xFF26
                        then (if c < 0xA75A
                              then lower_blk_34 c
                              else (if c < 0xA7A8
                                    then lower_blk_35 c
                                    else lower_blk_36 c))
                        else (if c < 0x1040B
                              then lower_blk_37 c
                              else (if c < 0x104B3
                                    then lower_blk_38 c
                                    else lower_blk_39 c)))
                  else (if c < 0x118A9
                        then (if c < 0x10591
                              then lower_blk_40 c
                              else (if c < 0x10C9C
                                    then lower_blk_41 c
                                    else lower_blk_42 c))
                        else (if c < 0x16E49
                              then lower_blk_43 c
                              else (if c < 0x1E909
                                    then lower_blk_44 c
                                    else lower_blk_45 c))))))"

definition unicode_upper :: "codepoint \<Rightarrow> codepoint list" where
  "unicode_upper c = (case upper_lookup c of None \<Rightarrow> [c] | Some us \<Rightarrow> us)"

definition unicode_lower :: "codepoint \<Rightarrow> codepoint list" where
  "unicode_lower c = (case lower_lookup c of None \<Rightarrow> [c] | Some us \<Rightarrow> us)"

section \<open>Basic facts\<close>

lemma lit_eq_iff [simp]: "lit a = lit b \<longleftrightarrow> a = b"
  by (simp add: lit_def inj_on_def)

lemma lit_Nil [simp]: "lit [] = []"
  by (simp add: lit_def)

lemma lit_eq_Nil [simp]: "lit s = [] \<longleftrightarrow> s = []"
  by (simp add: lit_def)

lemma bind_exc_Inr [simp]: "bind_exc (Inr v) f = f v"
  by (simp add: bind_exc_def)

lemma bind_exc_Inl [simp]: "bind_exc (Inl e) f = Inl e"
  by (simp add: bind_exc_def)

lemma map_of_dict_delete:
  "map_of (dict_delete k d) k' = (if k' = k then None else map_of d k')"
  by (induction d) (auto simp add: dict_delete_def)

text \<open>
  When the document is an object whose \<open>input\<close> is an object, or is absent and so
  read as the empty object, the block reduces to the dispatch on the operation, \<open>echo\<close>
  standing in for an absent one.
\<close>

lemma main_body_user_input:
  assumes "map_of d (lit ''input'') = Some (VDict ui)
           \<or> (map_of d (lit ''input'') = None \<and> ui = [])"
  shows "main_body rt (Inr (VDict d)) =
     bind_exc (dispatch rt (VDict ui)
        (case map_of ui (lit ''operation'') of None \<Rightarrow> VStr (lit ''echo'') | Some v \<Rightarrow> v))
       (\<lambda>result. Inr (VDict [(lit ''output'', result)]))"
  using assms by (auto simp add: main_body_def)

lemma main_body_input:
  assumes "map_of d (lit ''input'') = Some (VDict ui)"
  shows "main_body rt (Inr (VDict d)) =
     bind_exc (dispatch rt (VDict ui)
        (case map_of ui (lit ''operation'') of None \<Rightarrow> VStr (lit ''echo'') | Some v \<Rightarrow> v))
       (\<lambda>result. Inr (VDict [(lit ''output'', result)]))"
  using assms by (simp add: main_body_user_input)

section \<open>The text operations succeed on a non-empty message\<close>

text \<open>
  C1. When the operation is \<open>echo\<close>, \<open>uppercase\<close> or \<open>lowercase\<close> and the message is a
  non-empty string \<open>m\<close>, the handler writes the single success envelope whose message is
  \<open>m\<close> itself, \<open>m.upper()\<close> or \<open>m.lower()\<close>, and the process exits with code 0.
\<close>

theorem text_operation_succeeds:
  assumes "map_of d (lit ''input'') = Some (VDict ui)"
    and "map_of ui (lit ''operation'') = Some (VStr opname)"
    and "opname \<in> {lit ''echo'', lit ''uppercase'', lit ''lowercase''}"
    and "map_of ui (lit ''message'') = Some (VStr m)"
    and "m \<noteq> []"
  shows "main rt (Inr (VDict d)) =
     Exit [success_envelope opname
             (VStr (if opname = lit ''echo'' then m
                    else if opname = lit ''uppercase'' then py_upper rt m
                    else py_lower rt m))] 0"
  using assms
  by (auto simp add: main_def main_body_input dispatch_def success_envelope_def
      process_echo_def process_uppercase_def process_lowercase_def)

text \<open>
  The concrete case of the specification: \<open>{"input": {"operation": "uppercase",
  "message": "hello"}}\<close> gives the message \<open>HELLO\<close> and exit code 0.
\<close>

theorem text_operation_succeeds_witness:
  "main ascii_runtime (Inr (VDict [(lit ''input'',
       VDict [(lit ''operation'', VStr (lit ''uppercase'')),
              (lit ''message'', VStr (lit ''hello''))])])) =
     Exit [VDict [(lit ''output'',
        VDict [(lit ''status'', VStr (lit ''success'')),
               (lit ''operation'', VStr (lit ''uppercase'')),
               (lit ''message'', VStr (lit ''HELLO''))])]] 0"
proof -
  have up: "py_upper ascii_runtime (lit ''hello'') = lit ''HELLO''"
    by (simp add: py_upper_def ascii_runtime_def lit_def)
  show ?thesis
    using text_operation_succeeds [of
        "[(lit ''input'', VDict [(lit ''operation'', VStr (lit ''uppercase'')),
                                 (lit ''message'', VStr (lit ''hello''))])]"
        "[(lit ''operation'', VStr (lit ''uppercase'')),
          (lit ''message'', VStr (lit ''hello''))]"
        "lit ''uppercase''" "lit ''hello''" ascii_runtime]
    by (simp add: up success_envelope_def)
qed

section \<open>A document that is not an object\<close>

text \<open>
  C2 fails on the code. The document \<open>[]\<close> is valid JSON and not an object;
  \<open>json.load\<close> returns the empty list, \<open>input_data.get\<close> raises \<open>AttributeError\<close>, and
  the last handler reports it under that name, not as \<open>JSONDecodeError\<close>.
\<close>

theorem non_object_document_counterexample:
  "main ascii_runtime (Inr (VList [])) =
     Exit [error_envelope
             (lit ''Unexpected error: '' @ [0x27] @ lit ''list'' @ [0x27]
                @ lit '' object has no attribute '' @ [0x27] @ lit ''get'' @ [0x27])
             (lit ''AttributeError'')] 1
   \<and> lit ''AttributeError'' \<noteq> lit ''JSONDecodeError''"
  by (simp add: main_def main_body_def AttributeError_def isinstance_def)

text \<open>
  C2, as amended. Whenever \<open>json.load\<close> returns, and what it returns is not an object
  (a list, a string, a number, a boolean or \<open>None\<close>), the handler writes the single
  error envelope of type \<open>AttributeError\<close> whose message is
  \<open>Unexpected error: '<type>' object has no attribute 'get'\<close>, \<open><type>\<close> being the Python
  type of the value, and exits with code 1. A stream on which \<open>json.load\<close> raises,
  valid JSON or not, is reported by the handler of what was raised.
\<close>

theorem non_object_document:
  assumes "type_name v \<noteq> lit ''dict''"
  shows "main rt (Inr v) =
     Exit [error_envelope
             (lit ''Unexpected error: '' @ [0x27] @ type_name v @ [0x27]
                @ lit '' object has no attribute '' @ [0x27] @ lit ''get'' @ [0x27])
             (lit ''AttributeError'')] 1"
  using assms
  by (cases v) (simp_all add: main_def main_body_def AttributeError_def isinstance_def)

theorem non_object_document_witness:
  "type_name (VStr (lit ''hello'')) \<noteq> lit ''dict'' \<and>
   main ascii_runtime (Inr (VStr (lit ''hello''))) =
     Exit [error_envelope
             (lit ''Unexpected error: '' @ [0x27] @ lit ''str'' @ [0x27]
                @ lit '' object has no attribute '' @ [0x27] @ lit ''get'' @ [0x27])
             (lit ''AttributeError'')] 1"
  using non_object_document [of "VStr (lit ''hello'')" ascii_runtime] by simp

section \<open>Validation errors\<close>

text \<open>
  C3. When the operation is a string other than \<open>describe\<close>, known or not, and the
  message is absent or the empty string, the handler writes exactly
  \<open>{"error": "Message is required", "type": "ValueError"}\<close> and exits with code 1: the
  message is checked before the operation name is.
\<close>

theorem message_required:
  assumes "map_of d (lit ''input'') = Some (VDict ui)"
    and "map_of ui (lit ''operation'') = Some (VStr opname)"
    and "opname \<noteq> lit ''describe''"
    and "map_of ui (lit ''message'') = None \<or> map_of ui (lit ''message'') = Some (VStr [])"
  shows "main rt (Inr (VDict d)) =
     Exit [VDict [(lit ''error'', VStr (lit ''Message is required'')),
                  (lit ''type'', VStr (lit ''ValueError''))]] 1"
  using assms
  by (auto simp add: main_def main_body_input dispatch_def ValueError_def isinstance_def
      error_envelope_def)

text \<open>An unknown operation without a message, and a known one with an empty message.\<close>

theorem message_required_witness:
  "main ascii_runtime (Inr (VDict [(lit ''input'',
       VDict [(lit ''operation'', VStr (lit ''reverse''))])])) =
     Exit [VDict [(lit ''error'', VStr (lit ''Message is required'')),
                  (lit ''type'', VStr (lit ''ValueError''))]] 1
   \<and> main ascii_runtime (Inr (VDict [(lit ''input'',
       VDict [(lit ''operation'', VStr (lit ''uppercase'')), (lit ''message'', VStr [])])])) =
     Exit [VDict [(lit ''error'', VStr (lit ''Message is required'')),
                  (lit ''type'', VStr (lit ''ValueError''))]] 1"
  using message_required [of
      "[(lit ''input'', VDict [(lit ''operation'', VStr (lit ''reverse''))])]"
      "[(lit ''operation'', VStr (lit ''reverse''))]" "lit ''reverse''" ascii_runtime]
    message_required [of
      "[(lit ''input'', VDict [(lit ''operation'', VStr (lit ''uppercase'')),
                               (lit ''message'', VStr [])])]"
      "[(lit ''operation'', VStr (lit ''uppercase'')), (lit ''message'', VStr [])]"
      "lit ''uppercase''" ascii_runtime]
  by simp

text \<open>
  C4. When the operation is a string that is none of the four names and the message is
  a non-empty string, the handler writes exactly
  \<open>{"error": "Unknown operation: <name>", "type": "ValueError"}\<close> and exits with code 1.
\<close>

theorem unknown_operation:
  assumes "map_of d (lit ''input'') = Some (VDict ui)"
    and "map_of ui (lit ''operation'') = Some (VStr opname)"
    and "opname \<notin> {lit ''echo'', lit ''uppercase'', lit ''lowercase'', lit ''describe''}"
    and "map_of ui (lit ''message'') = Some (VStr m)"
    and "m \<noteq> []"
  shows "main rt (Inr (VDict d)) =
     Exit [VDict [(lit ''error'', VStr (lit ''Unknown operation: '' @ opname)),
                  (lit ''type'', VStr (lit ''ValueError''))]] 1"
  using assms
  by (auto simp add: main_def main_body_input dispatch_def ValueError_def isinstance_def
      error_envelope_def)

theorem unknown_operation_witness:
  "main ascii_runtime (Inr (VDict [(lit ''input'',
       VDict [(lit ''operation'', VStr (lit ''reverse'')),
              (lit ''message'', VStr (lit ''hello''))])])) =
     Exit [VDict [(lit ''error'', VStr (lit ''Unknown operation: reverse'')),
                  (lit ''type'', VStr (lit ''ValueError''))]] 1"
  using unknown_operation [of
      "[(lit ''input'', VDict [(lit ''operation'', VStr (lit ''reverse'')),
                               (lit ''message'', VStr (lit ''hello''))])]"
      "[(lit ''operation'', VStr (lit ''reverse'')), (lit ''message'', VStr (lit ''hello''))]"
      "lit ''reverse''" "lit ''hello''" ascii_runtime]
  by (simp add: lit_def)

section \<open>The describe operation\<close>

text \<open>
  C5. When the operation is \<open>describe\<close>, the handler succeeds whatever the message
  field holds, present or not: it writes
  \<open>{"output": {"status": "success", "operation": "describe", "data": D}}\<close>, where \<open>D\<close>
  is the static structure of section 6 of the specification, the same for every input
  and every runtime, and exits with code 0.
\<close>

theorem describe_succeeds:
  assumes "map_of d (lit ''input'') = Some (VDict ui)"
    and "map_of ui (lit ''operation'') = Some (VStr (lit ''describe''))"
  shows "main rt (Inr (VDict d)) =
     Exit [VDict [(lit ''output'',
        VDict [(lit ''status'', VStr (lit ''success'')),
               (lit ''operation'', VStr (lit ''describe'')),
               (lit ''data'', spec_describe_data)])]] 0"
proof -
  have "describe_data = spec_describe_data"
    by (simp add: describe_data_def spec_describe_data_def)
  with assms show ?thesis
    by (simp add: main_def main_body_input dispatch_def process_describe_def)
qed

text \<open>Without a message field, and with an empty message.\<close>

theorem describe_succeeds_witness:
  "main ascii_runtime (Inr (VDict [(lit ''input'',
       VDict [(lit ''operation'', VStr (lit ''describe''))])])) =
     Exit [VDict [(lit ''output'',
        VDict [(lit ''status'', VStr (lit ''success'')),
               (lit ''operation'', VStr (lit ''describe'')),
               (lit ''data'', spec_describe_data)])]] 0
   \<and> main ascii_runtime (Inr (VDict [(lit ''input'',
       VDict [(lit ''operation'', VStr (lit ''describe'')), (lit ''message'', VStr [])])])) =
     Exit [VDict [(lit ''output'',
        VDict [(lit ''status'', VStr (lit ''success'')),
               (lit ''operation'', VStr (lit ''describe'')),
               (lit ''data'', spec_describe_data)])]] 0"
  using describe_succeeds [of
      "[(lit ''input'', VDict [(lit ''operation'', VStr (lit ''describe''))])]"
      "[(lit ''operation'', VStr (lit ''describe''))]" ascii_runtime]
    describe_succeeds [of
      "[(lit ''input'', VDict [(lit ''operation'', VStr (lit ''describe'')),
                               (lit ''message'', VStr [])])]"
      "[(lit ''operation'', VStr (lit ''describe'')), (lit ''message'', VStr [])]"
      ascii_runtime]
  by simp

section \<open>Idempotence of the transforms\<close>

lemma py_upper_append: "py_upper rt (a @ b) = py_upper rt a @ py_upper rt b"
  by (simp add: py_upper_def)

text \<open>Upper-casing is idempotent on every string when it is on the strings of length one.\<close>

lemma py_upper_idem:
  assumes "\<forall>c. py_upper rt (py_upper rt [c]) = py_upper rt [c]"
  shows "py_upper rt (py_upper rt m) = py_upper rt m"
proof (induction m)
  case Nil
  show ?case by (simp add: py_upper_def)
next
  case (Cons c m)
  have split: "py_upper rt (c # m) = py_upper rt [c] @ py_upper rt m"
    by (simp add: py_upper_def)
  show ?case
    using assms Cons.IH by (simp only: split py_upper_append)
qed

text \<open>Without a capital sigma, lower-casing does not look at the context.\<close>

lemma lower_from_no_sigma:
  "0x3A3 \<notin> set t \<Longrightarrow> lower_from rt seen t = concat (map (lower_full rt) t)"
  by (induction t arbitrary: seen) auto

lemma py_lower_single:
  "py_lower rt [c] = (if c = 0x3A3 then [0x3C3] else lower_full rt c)"
  by (simp add: py_lower_def final_sigma_def)

lemma lower_from_sigma_free:
  assumes "\<forall>c. 0x3A3 \<notin> set (py_lower rt [c])"
  shows "0x3A3 \<notin> set (lower_from rt seen s)"
proof (induction s arbitrary: seen)
  case Nil
  show ?case by simp
next
  case (Cons c s)
  have "0x3A3 \<notin> set (py_lower rt [c])"
    using assms by blast
  then show ?case
    using Cons.IH by (simp add: py_lower_single split: if_splits)
qed

lemma lower_from_stable:
  assumes idem: "\<forall>c. py_lower rt (py_lower rt [c]) = py_lower rt [c]"
    and free: "\<forall>c. 0x3A3 \<notin> set (py_lower rt [c])"
    and final: "py_lower rt [0x3C2] = [0x3C2]"
  shows "concat (map (lower_full rt) (lower_from rt seen s)) = lower_from rt seen s"
proof (induction s arbitrary: seen)
  case Nil
  show ?case by simp
next
  case (Cons c s)
  have small: "lower_full rt 0x3C3 = [0x3C3]"
    using idem [rule_format, of "0x3A3"] by (simp add: py_lower_single)
  have fin: "lower_full rt 0x3C2 = [0x3C2]"
    using final by (simp add: py_lower_single)
  have other: "concat (map (lower_full rt) (lower_full rt c)) = lower_full rt c"
    if "c \<noteq> 0x3A3"
  proof -
    have "0x3A3 \<notin> set (lower_full rt c)"
      using free [rule_format, of c] that by (simp add: py_lower_single)
    then have "py_lower rt (lower_full rt c) = concat (map (lower_full rt) (lower_full rt c))"
      by (simp add: py_lower_def lower_from_no_sigma)
    moreover have "py_lower rt (lower_full rt c) = lower_full rt c"
      using idem [rule_format, of c] that by (simp add: py_lower_single)
    ultimately show ?thesis by simp
  qed
  show ?case
    using Cons.IH small fin other by simp
qed

lemma py_lower_idem:
  assumes "\<forall>c. py_lower rt (py_lower rt [c]) = py_lower rt [c]"
    and "\<forall>c. 0x3A3 \<notin> set (py_lower rt [c])"
    and "py_lower rt [0x3C2] = [0x3C2]"
  shows "py_lower rt (py_lower rt m) = py_lower rt m"
proof -
  have "py_lower rt (py_lower rt m) = concat (map (lower_full rt) (lower_from rt [] m))"
    using lower_from_sigma_free [OF assms(2)]
    by (simp add: py_lower_def lower_from_no_sigma)
  then show ?thesis
    using lower_from_stable [OF assms] by (simp add: py_lower_def)
qed

text \<open>
  No code point in a row of the upper-case table has a row of its own, and likewise for
  the lower-case table, where moreover no row holds a capital sigma. Block by block,
  each row is looked up.
\<close>

lemmas upper_blk_defs =
  upper_blk_1_def upper_blk_2_def upper_blk_3_def upper_blk_4_def
  upper_blk_5_def upper_blk_6_def upper_blk_7_def upper_blk_8_def
  upper_blk_9_def upper_blk_10_def upper_blk_11_def upper_blk_12_def
  upper_blk_13_def upper_blk_14_def upper_blk_15_def upper_blk_16_def
  upper_blk_17_def upper_blk_18_def upper_blk_19_def upper_blk_20_def
  upper_blk_21_def upper_blk_22_def upper_blk_23_def upper_blk_24_def
  upper_blk_25_def upper_blk_26_def upper_blk_27_def upper_blk_28_def
  upper_blk_29_def upper_blk_30_def upper_blk_31_def upper_blk_32_def
  upper_blk_33_def upper_blk_34_def upper_blk_35_def upper_blk_36_def
  upper_blk_37_def upper_blk_38_def upper_blk_39_def upper_blk_40_def
  upper_blk_41_def upper_blk_42_def upper_blk_43_def upper_blk_44_def
  upper_blk_45_def upper_blk_46_def upper_blk_47_def upper_blk_48_def

lemmas lower_blk_defs =
  lower_blk_1_def lower_blk_2_def lower_blk_3_def lower_blk_4_def
  lower_blk_5_def lower_blk_6_def lower_blk_7_def lower_blk_8_def
  lower_blk_9_def lower_blk_10_def lower_blk_11_def lower_blk_12_def
  lower_blk_13_def lower_blk_14_def lower_blk_15_def lower_blk_16_def
  lower_blk_17_def lower_blk_18_def lower_blk_19_def lower_blk_20_def
  lower_blk_21_def lower_blk_22_def lower_blk_23_def lower_blk_24_def
  lower_blk_25_def lower_blk_26_def lower_blk_27_def lower_blk_28_def
  lower_blk_29_def lower_blk_30_def lower_blk_31_def lower_blk_32_def
  lower_blk_33_def lower_blk_34_def lower_blk_35_def lower_blk_36_def
  lower_blk_37_def lower_blk_38_def lower_blk_39_def lower_blk_40_def
  lower_blk_41_def lower_blk_42_def lower_blk_43_def lower_blk_44_def
  lower_blk_45_def

lemma upper_blk_1_closed:
  "case upper_blk_1 c of None \<Rightarrow> True
   | Some us \<Rightarrow> list_all (\<lambda>u. upper_lookup u = None) us"
  by (simp add: upper_lookup_def upper_blk_defs)

lemma upper_blk_2_closed:
  "case upper_blk_2 c of None \<Rightarrow> True
   | Some us \<Rightarrow> list_all (\<lambda>u. upper_lookup u = None) us"
  by (simp add: upper_lookup_def upper_blk_defs)

lemma upper_blk_3_closed:
  "case upper_blk_3 c of None \<Rightarrow> True
   | Some us \<Rightarrow> list_all (\<lambda>u. upper_lookup u = None) us"
  by (simp add: upper_lookup_def upper_blk_defs)

lemma upper_blk_4_closed:
  "case upper_blk_4 c of None \<Rightarrow> True
   | Some us \<Rightarrow> list_all (\<lambda>u. upper_lookup u = None) us"
  by (simp add: upper_lookup_def upper_blk_defs)

lemma upper_blk_5_closed:
  "case upper_blk_5 c of None \<Rightarrow> True
   | Some us \<Rightarrow> list_all (\<lambda>u. upper_lookup u = None) us"
  by (simp add: upper_lookup_def upper_blk_defs)

lemma upper_blk_6_closed:
  "case upper_blk_6 c of None \<Rightarrow> True
   | Some us \<Rightarrow> list_all (\<lambda>u. upper_lookup u = None) us"
  by (simp add: upper_lookup_def upper_blk_defs)

lemma upper_blk_7_closed:
  "case upper_blk_7 c of None \<Rightarrow> True
   | Some us \<Rightarrow> list_all (\<lambda>u. upper_lookup u = None) us"
  by (simp add: upper_lookup_def upper_blk_defs)

lemma upper_blk_8_closed:
  "case upper_blk_8 c of None \<Rightarrow> True
   | Some us \<Rightarrow> list_all (\<lambda>u. upper_lookup u = None) us"
  by (simp add: upper_lookup_def upper_blk_defs)

lemma upper_blk_9_closed:
  "case upper_blk_9 c of None \<Rightarrow> True
   | Some us \<Rightarrow> list_all (\<lambda>u. upper_lookup u = None) us"
  by (simp add: upper_lookup_def upper_blk_defs)

lemma upper_blk_10_closed:
  "case upper_blk_10 c of None \<Rightarrow> True
   | Some us \<Rightarrow> list_all (\<lambda>u. upper_lookup u = None) us"
  by (simp add: upper_lookup_def upper_blk_defs)

lemma upper_blk_11_closed:
  "case upper_blk_11 c of None \<Rightarrow> True
   | Some us \<Rightarrow> list_all (\<lambda>u. upper_lookup u = None) us"
  by (simp add: upper_lookup_def upper_blk_defs)

lemma upper_blk_12_closed:
  "case upper_blk_12 c of None \<Rightarrow> True
   | Some us \<Rightarrow> list_all (\<lambda>u. upper_lookup u = None) us"
  by (simp add: upper_lookup_def upper_blk_defs)

lemma upper_blk_13_closed:
  "case upper_blk_13 c of None \<Rightarrow> True
   | Some us \<Rightarrow> list_all (\<lambda>u. upper_lookup u = None) us"
  by (simp add: upper_lookup_def upper_blk_defs)

lemma upper_blk_14_closed:
  "case upper_blk_14 c of None \<Rightarrow> True
   | Some us \<Rightarrow> list_all (\<lambda>u. upper_lookup u = None) us"
  by (simp add: upper_lookup_def upper_blk_defs)

lemma upper_blk_15_closed:
  "case upper_blk_15 c of None \<Rightarrow> True
   | Some us \<Rightarrow> list_all (\<lambda>u. upper_lookup u = None) us"
  by (simp add: upper_lookup_def upper_blk_defs)

lemma upper_blk_16_closed:
  "case upper_blk_16 c of None \<Rightarrow> True
   | Some us \<Rightarrow> list_all (\<lambda>u. upper_lookup u = None) us"
  by (simp add: upper_lookup_def upper_blk_defs)

lemma upper_blk_17_closed:
  "case upper_blk_17 c of None \<Rightarrow> True
   | Some us \<Rightarrow> list_all (\<lambda>u. upper_lookup u = None) us"
  by (simp add: upper_lookup_def upper_blk_defs)

lemma upper_blk_18_closed:
  "case upper_blk_18 c of None \<Rightarrow> True
   | Some us \<Rightarrow> list_all (\<lambda>u. upper_lookup u = None) us"
  by (simp add: upper_lookup_def upper_blk_defs)

lemma upper_blk_19_closed:
  "case upper_blk_19 c of None \<Rightarrow> True
   | Some us \<Rightarrow> list_all (\<lambda>u. upper_lookup u = None) us"
  by (simp add: upper_lookup_def upper_blk_defs)

lemma upper_blk_20_closed:
  "case upper_blk_20 c of None \<Rightarrow> True
   | Some us \<Rightarrow> list_all (\<lambda>u. upper_lookup u = None) us"
  by (simp add: upper_lookup_def upper_blk_defs)

lemma upper_blk_21_closed:
  "case upper_blk_21 c of None \<Rightarrow> True
   | Some us \<Rightarrow> list_all (\<lambda>u. upper_lookup u = None) us"
  by (simp add: upper_lookup_def upper_blk_defs)

lemma upper_blk_22_closed:
  "case upper_blk_22 c of None \<Rightarrow> True
   | Some us \<Rightarrow> list_all (\<lambda>u. upper_lookup u = None) us"
  by (simp add: upper_lookup_def upper_blk_defs)

lemma upper_blk_23_closed:
  "case upper_blk_23 c of None \<Rightarrow> True
   | Some us \<Rightarrow> list_all (\<lambda>u. upper_lookup u = None) us"
  by (simp add: upper_lookup_def upper_blk_defs)

lemma upper_blk_24_closed:
  "case upper_blk_24 c of None \<Rightarrow> True
   | Some us \<Rightarrow> list_all (\<lambda>u. upper_lookup u = None) us"
  by (simp add: upper_lookup_def upper_blk_defs)

lemma upper_blk_25_closed:
  "case upper_blk_25 c of None \<Rightarrow> True
   | Some us \<Rightarrow> list_all (\<lambda>u. upper_lookup u = None) us"
  by (simp add: upper_lookup_def upper_blk_defs)

lemma upper_blk_26_closed:
  "case upper_blk_26 c of None \<Rightarrow> True
   | Some us \<Rightarrow> list_all (\<lambda>u. upper_lookup u = None) us"
  by (simp add: upper_lookup_def upper_blk_defs)

lemma upper_blk_27_closed:
  "case upper_blk_27 c of None \<Rightarrow> True
   | Some us \<Rightarrow> list_all (\<lambda>u. upper_lookup u = None) us"
  by (simp add: upper_lookup_def upper_blk_defs)

lemma upper_blk_28_closed:
  "case upper_blk_28 c of None \<Rightarrow> True
   | Some us \<Rightarrow> list_all (\<lambda>u. upper_lookup u = None) us"
  by (simp add: upper_lookup_def upper_blk_defs)

lemma upper_blk_29_closed:
  "case upper_blk_29 c of None \<Rightarrow> True
   | Some us \<Rightarrow> list_all (\<lambda>u. upper_lookup u = None) us"
  by (simp add: upper_lookup_def upper_blk_defs)

lemma upper_blk_30_closed:
  "case upper_blk_30 c of None \<Rightarrow> True
   | Some us \<Rightarrow> list_all (\<lambda>u. upper_lookup u = None) us"
  by (simp add: upper_lookup_def upper_blk_defs)

lemma upper_blk_31_closed:
  "case upper_blk_31 c of None \<Rightarrow> True
   | Some us \<Rightarrow> list_all (\<lambda>u. upper_lookup u = None) us"
  by (simp add: upper_lookup_def upper_blk_defs)

lemma upper_blk_32_closed:
  "case upper_blk_32 c of None \<Rightarrow> True
   | Some us \<Rightarrow> list_all (\<lambda>u. upper_lookup u = None) us"
  by (simp add: upper_lookup_def upper_blk_defs)

lemma upper_blk_33_closed:
  "case upper_blk_33 c of None \<Rightarrow> True
   | Some us \<Rightarrow> list_all (\<lambda>u. upper_lookup u = None) us"
  by (simp add: upper_lookup_def upper_blk_defs)

lemma upper_blk_34_closed:
  "case upper_blk_34 c of None \<Rightarrow> True
   | Some us \<Rightarrow> list_all (\<lambda>u. upper_lookup u = None) us"
  by (simp add: upper_lookup_def upper_blk_defs)

lemma upper_blk_35_closed:
  "case upper_blk_35 c of None \<Rightarrow> True
   | Some us \<Rightarrow> list_all (\<lambda>u. upper_lookup u = None) us"
  by (simp add: upper_lookup_def upper_blk_defs)

lemma upper_blk_36_closed:
  "case upper_blk_36 c of None \<Rightarrow> True
   | Some us \<Rightarrow> list_all (\<lambda>u. upper_lookup u = None) us"
  by (simp add: upper_lookup_def upper_blk_defs)

lemma upper_blk_37_closed:
  "case upper_blk_37 c of None \<Rightarrow> True
   | Some us \<Rightarrow> list_all (\<lambda>u. upper_lookup u = None) us"
  by (simp add: upper_lookup_def upper_blk_defs)

lemma upper_blk_38_closed:
  "case upper_blk_38 c of None \<Rightarrow> True
   | Some us \<Rightarrow> list_all (\<lambda>u. upper_lookup u = None) us"
  by (simp add: upper_lookup_def upper_blk_defs)

lemma upper_blk_39_closed:
  "case upper_blk_39 c of None \<Rightarrow> True
   | Some us \<Rightarrow> list_all (\<lambda>u. upper_lookup u = None) us"
  by (simp add: upper_lookup_def upper_blk_defs)

lemma upper_blk_40_closed:
  "case upper_blk_40 c of None \<Rightarrow> True
   | Some us \<Rightarrow> list_all (\<lambda>u. upper_lookup u = None) us"
  by (simp add: upper_lookup_def upper_blk_defs)

lemma upper_blk_41_closed:
  "case upper_blk_41 c of None \<Rightarrow> True
   | Some us \<Rightarrow> list_all (\<lambda>u. upper_lookup u = None) us"
  by (simp add: upper_lookup_def upper_blk_defs)

lemma upper_blk_42_closed:
  "case upper_blk_42 c of None \<Rightarrow> True
   | Some us \<Rightarrow> list_all (\<lambda>u. upper_lookup u = None) us"
  by (simp add: upper_lookup_def upper_blk_defs)

lemma upper_blk_43_closed:
  "case upper_blk_43 c of None \<Rightarrow> True
   | Some us \<Rightarrow> list_all (\<lambda>u. upper_lookup u = None) us"
  by (simp add: upper_lookup_def upper_blk_defs)

lemma upper_blk_44_closed:
  "case upper_blk_44 c of None \<Rightarrow> True
   | Some us \<Rightarrow> list_all (\<lambda>u. upper_lookup u = None) us"
  by (simp add: upper_lookup_def upper_blk_defs)

lemma upper_blk_45_closed:
  "case upper_blk_45 c of None \<Rightarrow> True
   | Some us \<Rightarrow> list_all (\<lambda>u. upper_lookup u = None) us"
  by (simp add: upper_lookup_def upper_blk_defs)

lemma upper_blk_46_closed:
  "case upper_blk_46 c of None \<Rightarrow> True
   | Some us \<Rightarrow> list_all (\<lambda>u. upper_lookup u = None) us"
  by (simp add: upper_lookup_def upper_blk_defs)

lemma upper_blk_47_closed:
  "case upper_blk_47 c of None \<Rightarrow> True
   | Some us \<Rightarrow> list_all (\<lambda>u. upper_lookup u = None) us"
  by (simp add: upper_lookup_def upper_blk_defs)

lemma upper_blk_48_closed:
  "case upper_blk_48 c of None \<Rightarrow> True
   | Some us \<Rightarrow> list_all (\<lambda>u. upper_lookup u = None) us"
  by (simp add: upper_lookup_def upper_blk_defs)

lemma lower_blk_1_closed:
  "case lower_blk_1 c of None \<Rightarrow> True
   | Some us \<Rightarrow> list_all (\<lambda>u. u \<noteq> 0x3A3 \<and> lower_lookup u = None) us"
  by (simp add: lower_lookup_def lower_blk_defs)

lemma lower_blk_2_closed:
  "case lower_blk_2 c of None \<Rightarrow> True
   | Some us \<Rightarrow> list_all (\<lambda>u. u \<noteq> 0x3A3 \<and> lower_lookup u = None) us"
  by (simp add: lower_lookup_def lower_blk_defs)

lemma lower_blk_3_closed:
  "case lower_blk_3 c of None \<Rightarrow> True
   | Some us \<Rightarrow> list_all (\<lambda>u. u \<noteq> 0x3A3 \<and> lower_lookup u = None) us"
  by (simp add: lower_lookup_def lower_blk_defs)

lemma lower_blk_4_closed:
  "case lower_blk_4 c of None \<Rightarrow> True
   | Some us \<Rightarrow> list_all (\<lambda>u. u \<noteq> 0x3A3 \<and> lower_lookup u = None) us"
  by (simp add: lower_lookup_def lower_blk_defs)

lemma lower_blk_5_closed:
  "case lower_blk_5 c of None \<Rightarrow> True
   | Some us \<Rightarrow> list_all (\<lambda>u. u \<noteq> 0x3A3 \<and> lower_lookup u = None) us"
  by (simp add: lower_lookup_def lower_blk_defs)

lemma lower_blk_6_closed:
  "case lower_blk_6 c of None \<Rightarrow> True
   | Some us \<Rightarrow> list_all (\<lambda>u. u \<noteq> 0x3A3 \<and> lower_lookup u = None) us"
  by (simp add: lower_lookup_def lower_blk_defs)

lemma lower_blk_7_closed:
  "case lower_blk_7 c of None \<Rightarrow> True
   | Some us \<Rightarrow> list_all (\<lambda>u. u \<noteq> 0x3A3 \<and> lower_lookup u = None) us"
  by (simp add: lower_lookup_def lower_blk_defs)

lemma lower_blk_8_closed:
  "case lower_blk_8 c of None \<Rightarrow> True
   | Some us \<Rightarrow> list_all (\<lambda>u. u \<noteq> 0x3A3 \<and> lower_lookup u = None) us"
  by (simp add: lower_lookup_def lower_blk_defs)

lemma lower_blk_9_closed:
  "case lower_blk_9 c of None \<Rightarrow> True
   | Some us \<Rightarrow> list_all (\<lambda>u. u \<noteq> 0x3A3 \<and> lower_lookup u = None) us"
  by (simp add: lower_lookup_def lower_blk_defs)

lemma lower_blk_10_closed:
  "case lower_blk_10 c of None \<Rightarrow> True
   | Some us \<Rightarrow> list_all (\<lambda>u. u \<noteq> 0x3A3 \<and> lower_lookup u = None) us"
  by (simp add: lower_lookup_def lower_blk_defs)

lemma lower_blk_11_closed:
  "case lower_blk_11 c of None \<Rightarrow> True
   | Some us \<Rightarrow> list_all (\<lambda>u. u \<noteq> 0x3A3 \<and> lower_lookup u = None) us"
  by (simp add: lower_lookup_def lower_blk_defs)

lemma lower_blk_12_closed:
  "case lower_blk_12 c of None \<Rightarrow> True
   | Some us \<Rightarrow> list_all (\<lambda>u. u \<noteq> 0x3A3 \<and> lower_lookup u = None) us"
  by (simp add: lower_lookup_def lower_blk_defs)

lemma lower_blk_13_closed:
  "case lower_blk_13 c of None \<Rightarrow> True
   | Some us \<Rightarrow> list_all (\<lambda>u. u \<noteq> 0x3A3 \<and> lower_lookup u = None) us"
  by (simp add: lower_lookup_def lower_blk_defs)

lemma lower_blk_14_closed:
  "case lower_blk_14 c of None \<Rightarrow> True
   | Some us \<Rightarrow> list_all (\<lambda>u. u \<noteq> 0x3A3 \<and> lower_lookup u = None) us"
  by (simp add: lower_lookup_def lower_blk_defs)

lemma lower_blk_15_closed:
  "case lower_blk_15 c of None \<Rightarrow> True
   | Some us \<Rightarrow> list_all (\<lambda>u. u \<noteq> 0x3A3 \<and> lower_lookup u = None) us"
  by (simp add: lower_lookup_def lower_blk_defs)

lemma lower_blk_16_closed:
  "case lower_blk_16 c of None \<Rightarrow> True
   | Some us \<Rightarrow> list_all (\<lambda>u. u \<noteq> 0x3A3 \<and> lower_lookup u = None) us"
  by (simp add: lower_lookup_def lower_blk_defs)

lemma lower_blk_17_closed:
  "case lower_blk_17 c of None \<Rightarrow> True
   | Some us \<Rightarrow> list_all (\<lambda>u. u \<noteq> 0x3A3 \<and> lower_lookup u = None) us"
  by (simp add: lower_lookup_def lower_blk_defs)

lemma lower_blk_18_closed:
  "case lower_blk_18 c of None \<Rightarrow> True
   | Some us \<Rightarrow> list_all (\<lambda>u. u \<noteq> 0x3A3 \<and> lower_lookup u = None) us"
  by (simp add: lower_lookup_def lower_blk_defs)

lemma lower_blk_19_closed:
  "case lower_blk_19 c of None \<Rightarrow> True
   | Some us \<Rightarrow> list_all (\<lambda>u. u \<noteq> 0x3A3 \<and> lower_lookup u = None) us"
  by (simp add: lower_lookup_def lower_blk_defs)

lemma lower_blk_20_closed:
  "case lower_blk_20 c of None \<Rightarrow> True
   | Some us \<Rightarrow> list_all (\<lambda>u. u \<noteq> 0x3A3 \<and> lower_lookup u = None) us"
  by (simp add: lower_lookup_def lower_blk_defs)

lemma lower_blk_21_closed:
  "case lower_blk_21 c of None \<Rightarrow> True
   | Some us \<Rightarrow> list_all (\<lambda>u. u \<noteq> 0x3A3 \<and> lower_lookup u = None) us"
  by (simp add: lower_lookup_def lower_blk_defs)

lemma lower_blk_22_closed:
  "case lower_blk_22 c of None \<Rightarrow> True
   | Some us \<Rightarrow> list_all (\<lambda>u. u \<noteq> 0x3A3 \<and> lower_lookup u = None) us"
  by (simp add: lower_lookup_def lower_blk_defs)

lemma lower_blk_23_closed:
  "case lower_blk_23 c of None \<Rightarrow> True
   | Some us \<Rightarrow> list_all (\<lambda>u. u \<noteq> 0x3A3 \<and> lower_lookup u = None) us"
  by (simp add: lower_lookup_def lower_blk_defs)

lemma lower_blk_24_closed:
  "case lower_blk_24 c of None \<Rightarrow> True
   | Some us \<Rightarrow> list_all (\<lambda>u. u \<noteq> 0x3A3 \<and> lower_lookup u = None) us"
  by (simp add: lower_lookup_def lower_blk_defs)

lemma lower_blk_25_closed:
  "case lower_blk_25 c of None \<Rightarrow> True
   | Some us \<Rightarrow> list_all (\<lambda>u. u \<noteq> 0x3A3 \<and> lower_lookup u = None) us"
  by (simp add: lower_lookup_def lower_blk_defs)

lemma lower_blk_26_closed:
  "case lower_blk_26 c of None \<Rightarrow> True
   | Some us \<Rightarrow> list_all (\<lambda>u. u \<noteq> 0x3A3 \<and> lower_lookup u = None) us"
  by (simp add: lower_lookup_def lower_blk_defs)

lemma lower_blk_27_closed:
  "case lower_blk_27 c of None \<Rightarrow> True
   | Some us \<Rightarrow> list_all (\<lambda>u. u \<noteq> 0x3A3 \<and> lower_lookup u = None) us"
  by (simp add: lower_lookup_def lower_blk_defs)

lemma lower_blk_28_closed:
  "case lower_blk_28 c of None \<Rightarrow> True
   | Some us \<Rightarrow> list_all (\<lambda>u. u \<noteq> 0x3A3 \<and> lower_lookup u = None) us"
  by (simp add: lower_lookup_def lower_blk_defs)

lemma lower_blk_29_closed:
  "case lower_blk_29 c of None \<Rightarrow> True
   | Some us \<Rightarrow> list_all (\<lambda>u. u \<noteq> 0x3A3 \<and> lower_lookup u = None) us"
  by (simp add: lower_lookup_def lower_blk_defs)

lemma lower_blk_30_closed:
  "case lower_blk_30 c of None \<Rightarrow> True
   | Some us \<Rightarrow> list_all (\<lambda>u. u \<noteq> 0x3A3 \<and> lower_lookup u = None) us"
  by (simp add: lower_lookup_def lower_blk_defs)

lemma lower_blk_31_closed:
  "case lower_blk_31 c of None \<Rightarrow> True
   | Some us \<Rightarrow> list_all (\<lambda>u. u \<noteq> 0x3A3 \<and> lower_lookup u = None) us"
  by (simp add: lower_lookup_def lower_blk_defs)

lemma lower_blk_32_closed:
  "case lower_blk_32 c of None \<Rightarrow> True
   | Some us \<Rightarrow> list_all (\<lambda>u. u \<noteq> 0x3A3 \<and> lower_lookup u = None) us"
  by (simp add: lower_lookup_def lower_blk_defs)

lemma lower_blk_33_closed:
  "case lower_blk_33 c of None \<Rightarrow> True
   | Some us \<Rightarrow> list_all (\<lambda>u. u \<noteq> 0x3A3 \<and> lower_lookup u = None) us"
  by (simp add: lower_lookup_def lower_blk_defs)

lemma lower_blk_34_closed:
  "case lower_blk_34 c of None \<Rightarrow> True
   | Some us \<Rightarrow> list_all (\<lambda>u. u \<noteq> 0x3A3 \<and> lower_lookup u = None) us"
  by (simp add: lower_lookup_def lower_blk_defs)

lemma lower_blk_35_closed:
  "case lower_blk_35 c of None \<Rightarrow> True
   | Some us \<Rightarrow> list_all (\<lambda>u. u \<noteq> 0x3A3 \<and> lower_lookup u = None) us"
  by (simp add: lower_lookup_def lower_blk_defs)

lemma lower_blk_36_closed:
  "case lower_blk_36 c of None \<Rightarrow> True
   | Some us \<Rightarrow> list_all (\<lambda>u. u \<noteq> 0x3A3 \<and> lower_lookup u = None) us"
  by (simp add: lower_lookup_def lower_blk_defs)

lemma lower_blk_37_closed:
  "case lower_blk_37 c of None \<Rightarrow> True
   | Some us \<Rightarrow> list_all (\<lambda>u. u \<noteq> 0x3A3 \<and> lower_lookup u = None) us"
  by (simp add: lower_lookup_def lower_blk_defs)

lemma lower_blk_38_closed:
  "case lower_blk_38 c of None \<Rightarrow> True
   | Some us \<Rightarrow> list_all (\<lambda>u. u \<noteq> 0x3A3 \<and> lower_lookup u = None) us"
  by (simp add: lower_lookup_def lower_blk_defs)

lemma lower_blk_39_closed:
  "case lower_blk_39 c of None \<Rightarrow> True
   | Some us \<Rightarrow> list_all (\<lambda>u. u \<noteq> 0x3A3 \<and> lower_lookup u = None) us"
  by (simp add: lower_lookup_def lower_blk_defs)

lemma lower_blk_40_closed:
  "case lower_blk_40 c of None \<Rightarrow> True
   | Some us \<Rightarrow> list_all (\<lambda>u. u \<noteq> 0x3A3 \<and> lower_lookup u = None) us"
  by (simp add: lower_lookup_def lower_blk_defs)

lemma lower_blk_41_closed:
  "case lower_blk_41 c of None \<Rightarrow> True
   | Some us \<Rightarrow> list_all (\<lambda>u. u \<noteq> 0x3A3 \<and> lower_lookup u = None) us"
  by (simp add: lower_lookup_def lower_blk_defs)

lemma lower_blk_42_closed:
  "case lower_blk_42 c of None \<Rightarrow> True
   | Some us \<Rightarrow> list_all (\<lambda>u. u \<noteq> 0x3A3 \<and> lower_lookup u = None) us"
  by (simp add: lower_lookup_def lower_blk_defs)

lemma lower_blk_43_closed:
  "case lower_blk_43 c of None \<Rightarrow> True
   | Some us \<Rightarrow> list_all (\<lambda>u. u \<noteq> 0x3A3 \<and> lower_lookup u = None) us"
  by (simp add: lower_lookup_def lower_blk_defs)

lemma lower_blk_44_closed:
  "case lower_blk_44 c of None \<Rightarrow> True
   | Some us \<Rightarrow> list_all (\<lambda>u. u \<noteq> 0x3A3 \<and> lower_lookup u = None) us"
  by (simp add: lower_lookup_def lower_blk_defs)

lemma lower_blk_45_closed:
  "case lower_blk_45 c of None \<Rightarrow> True
   | Some us \<Rightarrow> list_all (\<lambda>u. u \<noteq> 0x3A3 \<and> lower_lookup u = None) us"
  by (simp add: lower_lookup_def lower_blk_defs)

lemmas upper_blk_closed =
  upper_blk_1_closed upper_blk_2_closed upper_blk_3_closed upper_blk_4_closed
  upper_blk_5_closed upper_blk_6_closed upper_blk_7_closed upper_blk_8_closed
  upper_blk_9_closed upper_blk_10_closed upper_blk_11_closed upper_blk_12_closed
  upper_blk_13_closed upper_blk_14_closed upper_blk_15_closed upper_blk_16_closed
  upper_blk_17_closed upper_blk_18_closed upper_blk_19_closed upper_blk_20_closed
  upper_blk_21_closed upper_blk_22_closed upper_blk_23_closed upper_blk_24_closed
  upper_blk_25_closed upper_blk_26_closed upper_blk_27_closed upper_blk_28_closed
  upper_blk_29_closed upper_blk_30_closed upper_blk_31_closed upper_blk_32_closed
  upper_blk_33_closed upper_blk_34_closed upper_blk_35_closed upper_blk_36_closed
  upper_blk_37_closed upper_blk_38_closed upper_blk_39_closed upper_blk_40_closed
  upper_blk_41_closed upper_blk_42_closed upper_blk_43_closed upper_blk_44_closed
  upper_blk_45_closed upper_blk_46_closed upper_blk_47_closed upper_blk_48_closed

lemmas lower_blk_closed =
  lower_blk_1_closed lower_blk_2_closed lower_blk_3_closed lower_blk_4_closed
  lower_blk_5_closed lower_blk_6_closed lower_blk_7_closed lower_blk_8_closed
  lower_blk_9_closed lower_blk_10_closed lower_blk_11_closed lower_blk_12_closed
  lower_blk_13_closed lower_blk_14_closed lower_blk_15_closed lower_blk_16_closed
  lower_blk_17_closed lower_blk_18_closed lower_blk_19_closed lower_blk_20_closed
  lower_blk_21_closed lower_blk_22_closed lower_blk_23_closed lower_blk_24_closed
  lower_blk_25_closed lower_blk_26_closed lower_blk_27_closed lower_blk_28_closed
  lower_blk_29_closed lower_blk_30_closed lower_blk_31_closed lower_blk_32_closed
  lower_blk_33_closed lower_blk_34_closed lower_blk_35_closed lower_blk_36_closed
  lower_blk_37_closed lower_blk_38_closed lower_blk_39_closed lower_blk_40_closed
  lower_blk_41_closed lower_blk_42_closed lower_blk_43_closed lower_blk_44_closed
  lower_blk_45_closed

lemma upper_lookup_closed:
  "case upper_lookup c of None \<Rightarrow> True
   | Some us \<Rightarrow> list_all (\<lambda>u. upper_lookup u = None) us"
  by (simp add: upper_lookup_def [of c] upper_blk_closed)

lemma lower_lookup_closed:
  "case lower_lookup c of None \<Rightarrow> True
   | Some us \<Rightarrow> list_all (\<lambda>u. u \<noteq> 0x3A3 \<and> lower_lookup u = None) us"
  by (simp add: lower_lookup_def [of c] lower_blk_closed)

lemma lower_lookup_sigma:
  "lower_lookup 0x3C2 = None" "lower_lookup 0x3C3 = None"
  by (simp_all add: lower_lookup_def lower_blk_defs)

lemma unicode_upper_closed:
  assumes "u \<in> set (unicode_upper c)"
  shows "unicode_upper u = [u]"
proof (cases "upper_lookup c")
  case None
  with assms show ?thesis by (simp add: unicode_upper_def)
next
  case (Some us)
  with assms upper_lookup_closed [of c] have "upper_lookup u = None"
    by (simp add: unicode_upper_def list_all_iff)
  then show ?thesis by (simp add: unicode_upper_def)
qed

lemma unicode_lower_closed:
  assumes "u \<in> set (unicode_lower c)" and "c \<noteq> 0x3A3"
  shows "u \<noteq> 0x3A3 \<and> unicode_lower u = [u]"
proof (cases "lower_lookup c")
  case None
  with assms show ?thesis by (simp add: unicode_lower_def)
next
  case (Some us)
  with assms lower_lookup_closed [of c] have "u \<noteq> 0x3A3 \<and> lower_lookup u = None"
    by (simp add: unicode_lower_def list_all_iff)
  then show ?thesis by (simp add: unicode_lower_def)
qed

lemma concat_map_fixed:
  "(\<And>x. x \<in> set xs \<Longrightarrow> f x = [x]) \<Longrightarrow> concat (map f xs) = xs"
  by (induction xs) auto

lemma unicode_upper_single:
  assumes "upper_full rt = unicode_upper"
  shows "py_upper rt (py_upper rt [c]) = py_upper rt [c]"
proof -
  have "concat (map unicode_upper (unicode_upper c)) = unicode_upper c"
    by (rule concat_map_fixed) (rule unicode_upper_closed)
  with assms show ?thesis by (simp add: py_upper_def)
qed

lemma unicode_lower_single:
  assumes "lower_full rt = unicode_lower"
  shows "0x3A3 \<notin> set (py_lower rt [c])"
    and "py_lower rt (py_lower rt [c]) = py_lower rt [c]"
    and "py_lower rt [0x3C2] = [0x3C2]"
proof -
  have small: "unicode_lower 0x3C3 = [0x3C3]" and final: "unicode_lower 0x3C2 = [0x3C2]"
    by (simp_all add: unicode_lower_def lower_lookup_sigma)
  show "py_lower rt [0x3C2] = [0x3C2]"
    using assms final by (simp add: py_lower_single)
  show "0x3A3 \<notin> set (py_lower rt [c])"
    using assms unicode_lower_closed [of "0x3A3" c] by (auto simp add: py_lower_single)
  show "py_lower rt (py_lower rt [c]) = py_lower rt [c]"
  proof (cases "c = 0x3A3")
    case True
    with assms small show ?thesis by (simp add: py_lower_single)
  next
    case False
    have free: "0x3A3 \<notin> set (unicode_lower c)"
      using unicode_lower_closed [of "0x3A3" c] False by auto
    have "concat (map unicode_lower (unicode_lower c)) = unicode_lower c"
      by (rule concat_map_fixed) (use unicode_lower_closed False in blast)
    with assms False free show ?thesis
      by (simp add: py_lower_single py_lower_def lower_from_no_sigma)
  qed
qed

text \<open>
  C6. The message that \<open>echo\<close> returns is its argument, so echoing twice is echoing
  once; the messages that \<open>uppercase\<close> and \<open>lowercase\<close> return are \<open>m.upper()\<close> and
  \<open>m.lower()\<close>, and with the case mappings of Unicode each of the two is idempotent on
  every string \<open>m\<close>, whatever the context of a capital sigma.
\<close>

theorem transforms_idempotent:
  assumes "upper_full rt = unicode_upper"
    and "lower_full rt = unicode_lower"
  shows "result_message (Inr (process_echo (VStr m))) = Some (VStr m)
     \<and> result_message (process_uppercase rt (VStr m)) = Some (VStr (py_upper rt m))
     \<and> result_message (process_lowercase rt (VStr m)) = Some (VStr (py_lower rt m))
     \<and> py_upper rt (py_upper rt m) = py_upper rt m
     \<and> py_lower rt (py_lower rt m) = py_lower rt m"
proof -
  have "py_upper rt (py_upper rt m) = py_upper rt m"
    by (rule py_upper_idem) (simp add: unicode_upper_single [OF assms(1)])
  moreover have "py_lower rt (py_lower rt m) = py_lower rt m"
    by (rule py_lower_idem) (simp_all add: unicode_lower_single [OF assms(2)])
  ultimately show ?thesis
    by (simp add: result_message_def process_echo_def process_uppercase_def
        process_lowercase_def)
qed

text \<open>
  \<open>ascii_runtime\<close> with the two tables in place of its case mappings: the upper case of
  \<open>Stra\<close>U+00DF\<open>e\<close> is \<open>STRASSE\<close>, the lower case of U+0130 \<open>S\<close> is \<open>i\<close> U+0307 \<open>s\<close>, and
  neither changes when the mapping is applied again.
\<close>

theorem transforms_idempotent_witness:
  "py_upper (ascii_runtime\<lparr>upper_full := unicode_upper, lower_full := unicode_lower\<rparr>)
       [0x53, 0x74, 0x72, 0x61, 0xDF, 0x65] = lit ''STRASSE''
   \<and> py_upper (ascii_runtime\<lparr>upper_full := unicode_upper, lower_full := unicode_lower\<rparr>)
       (lit ''STRASSE'') = lit ''STRASSE''
   \<and> py_lower (ascii_runtime\<lparr>upper_full := unicode_upper, lower_full := unicode_lower\<rparr>)
       [0x130, 0x53] = [0x69, 0x307, 0x73]
   \<and> py_lower (ascii_runtime\<lparr>upper_full := unicode_upper, lower_full := unicode_lower\<rparr>)
       [0x69, 0x307, 0x73] = [0x69, 0x307, 0x73]"
proof -
  define rt where
    "rt = ascii_runtime\<lparr>upper_full := unicode_upper, lower_full := unicode_lower\<rparr>"
  have u: "upper_full rt = unicode_upper" and l: "lower_full rt = unicode_lower"
    by (simp_all add: rt_def)
  have up: "py_upper rt [0x53, 0x74, 0x72, 0x61, 0xDF, 0x65] = lit ''STRASSE''"
    by (simp add: py_upper_def u unicode_upper_def upper_lookup_def upper_blk_defs lit_def)
  have low: "py_lower rt [0x130, 0x53] = [0x69, 0x307, 0x73]"
    by (simp add: py_lower_def l unicode_lower_def lower_lookup_def lower_blk_defs)
  show ?thesis
    using transforms_idempotent [OF u l, of "[0x53, 0x74, 0x72, 0x61, 0xDF, 0x65]"]
      transforms_idempotent [OF u l, of "[0x130, 0x53]"] up low
    by (simp add: rt_def [symmetric])
qed

section \<open>Which handler reports which error\<close>







section \<open>Which messages count as missing\<close>

text \<open>
  C8. A message made of whitespace only is not taken for a missing one: with \<open>echo\<close>,
  \<open>uppercase\<close> or \<open>lowercase\<close> the handler succeeds and applies the transform to the
  message as it is, nothing trimmed, and does not fail with \<open>Message is required\<close>.
\<close>

theorem whitespace_message_accepted:
  assumes "map_of d (lit ''input'') = Some (VDict ui)"
    and "map_of ui (lit ''operation'') = Some (VStr opname)"
    and "opname \<in> {lit ''echo'', lit ''uppercase'', lit ''lowercase''}"
    and "map_of ui (lit ''message'') = Some (VStr m)"
    and "m \<noteq> []"
    and "\<forall>c \<in> set m. py_isspace c"
  shows "main rt (Inr (VDict d)) =
       Exit [success_envelope opname
               (VStr (if opname = lit ''echo'' then m
                      else if opname = lit ''uppercase'' then py_upper rt m
                      else py_lower rt m))] 0
     \<and> main rt (Inr (VDict d)) \<noteq>
       Exit [error_envelope (lit ''Message is required'') (lit ''ValueError'')] 1"
  using assms
  by (auto simp add: main_def main_body_input dispatch_def success_envelope_def
      process_echo_def process_uppercase_def process_lowercase_def)

text \<open>The message of one space, upper-cased.\<close>

theorem whitespace_message_accepted_witness:
  "list_all py_isspace (lit '' '')
   \<and> main ascii_runtime (Inr (VDict [(lit ''input'',
       VDict [(lit ''operation'', VStr (lit ''uppercase'')),
              (lit ''message'', VStr (lit '' ''))])])) =
     Exit [success_envelope (lit ''uppercase'') (VStr (lit '' ''))] 0"
proof -
  have ws: "\<forall>c \<in> set (lit '' ''). py_isspace c"
    by (simp add: lit_def py_isspace_def)
  have up: "py_upper ascii_runtime (lit '' '') = lit '' ''"
    by (simp add: py_upper_def ascii_runtime_def lit_def)
  show ?thesis
    using ws whitespace_message_accepted [of
        "[(lit ''input'', VDict [(lit ''operation'', VStr (lit ''uppercase'')),
                                 (lit ''message'', VStr (lit '' ''))])]"
        "[(lit ''operation'', VStr (lit ''uppercase'')), (lit ''message'', VStr (lit '' ''))]"
        "lit ''uppercase''" "lit '' ''" ascii_runtime]
    by (simp add: up list_all_iff)
qed

text \<open>
  C9. When the operation field is absent (the \<open>input\<close> object has none, or \<open>input\<close>
  itself is absent), the handler does what it does for the same input with the operation
  \<open>echo\<close>: a non-empty string message comes back in the success envelope of \<open>echo\<close>, and
  an absent or empty message fails with \<open>Message is required\<close>.
\<close>

theorem absent_operation_is_echo:
  assumes "map_of d (lit ''input'') = Some (VDict ui)
           \<or> (map_of d (lit ''input'') = None \<and> ui = [])"
    and "map_of ui (lit ''operation'') = None"
  shows "main rt (Inr (VDict d)) =
       main rt (Inr (VDict [(lit ''input'',
                             VDict ((lit ''operation'', VStr (lit ''echo'')) # ui))]))
     \<and> (\<forall>m. map_of ui (lit ''message'') = Some (VStr m) \<and> m \<noteq> [] \<longrightarrow>
          main rt (Inr (VDict d)) = Exit [success_envelope (lit ''echo'') (VStr m)] 0)
     \<and> (map_of ui (lit ''message'') = None \<or> map_of ui (lit ''message'') = Some (VStr []) \<longrightarrow>
          main rt (Inr (VDict d)) =
            Exit [error_envelope (lit ''Message is required'') (lit ''ValueError'')] 1)"
proof -
  have same: "main_body rt (Inr (VDict d)) =
      main_body rt (Inr (VDict [(lit ''input'',
                                 VDict ((lit ''operation'', VStr (lit ''echo'')) # ui))]))"
    using assms
    by (simp add: main_body_user_input [of d ui]
        main_body_input [of _ "(lit ''operation'', VStr (lit ''echo'')) # ui"] dispatch_def)
  have "main rt (Inr (VDict d)) =
       main rt (Inr (VDict [(lit ''input'',
                             VDict ((lit ''operation'', VStr (lit ''echo'')) # ui))]))"
    by (simp add: main_def same)
  moreover have "\<forall>m. map_of ui (lit ''message'') = Some (VStr m) \<and> m \<noteq> [] \<longrightarrow>
          main rt (Inr (VDict d)) = Exit [success_envelope (lit ''echo'') (VStr m)] 0"
    using assms
    by (simp add: main_def main_body_user_input [of d ui] dispatch_def process_echo_def
        success_envelope_def)
  moreover have "map_of ui (lit ''message'') = None
        \<or> map_of ui (lit ''message'') = Some (VStr []) \<longrightarrow>
          main rt (Inr (VDict d)) =
            Exit [error_envelope (lit ''Message is required'') (lit ''ValueError'')] 1"
    using assms
    by (auto simp add: main_def main_body_user_input [of d ui] dispatch_def ValueError_def
        isinstance_def)
  ultimately show ?thesis by blast
qed

text \<open>
  The documents \<open>{"input": {"message": "hello"}}\<close>, \<open>{"input": {}}\<close> (the concrete case
  of the specification) and \<open>{}\<close>.
\<close>

theorem absent_operation_is_echo_witness:
  "main ascii_runtime
       (Inr (VDict [(lit ''input'', VDict [(lit ''message'', VStr (lit ''hello''))])])) =
     Exit [success_envelope (lit ''echo'') (VStr (lit ''hello''))] 0
   \<and> main ascii_runtime (Inr (VDict [(lit ''input'', VDict [])])) =
     Exit [error_envelope (lit ''Message is required'') (lit ''ValueError'')] 1
   \<and> main ascii_runtime (Inr (VDict [])) =
     Exit [error_envelope (lit ''Message is required'') (lit ''ValueError'')] 1"
  using absent_operation_is_echo [of
      "[(lit ''input'', VDict [(lit ''message'', VStr (lit ''hello''))])]"
      "[(lit ''message'', VStr (lit ''hello''))]" ascii_runtime, THEN conjunct2]
    absent_operation_is_echo [of "[(lit ''input'', VDict [])]" "[]" ascii_runtime,
      THEN conjunct2]
    absent_operation_is_echo [of "[]" "[]" ascii_runtime, THEN conjunct2]
  by simp

text \<open>
  C10. When the operation is not \<open>describe\<close> and the message field holds a falsy value
  (\<open>null\<close>, \<open>false\<close>, \<open>0\<close>, \<open>0.0\<close> or \<open>-0.0\<close>, the empty string, the empty array or the empty
  object), the handler writes exactly
  \<open>{"error": "Message is required", "type": "ValueError"}\<close> and exits with code 1, which
  is also what it does for the same input with the message field removed.
\<close>

theorem falsy_message_is_missing:
  assumes "map_of d (lit ''input'') = Some (VDict ui)"
    and "map_of ui (lit ''operation'') \<noteq> Some (VStr (lit ''describe''))"
    and "map_of ui (lit ''message'') = Some v"
    and "v \<in> {VNone, VBool False, VInt 0, VFloat (PyFinite neg 0 e), VStr [], VList [],
               VDict []}"
  shows "main rt (Inr (VDict d)) =
       Exit [VDict [(lit ''error'', VStr (lit ''Message is required'')),
                    (lit ''type'', VStr (lit ''ValueError''))]] 1
     \<and> main rt (Inr (VDict d)) =
       main rt (Inr (VDict [(lit ''input'', VDict (dict_delete (lit ''message'') ui))]))"
proof -
  have falsy: "\<not> truthy v"
    using assms(4) by auto
  have op: "(case map_of ui (lit ''operation'') of None \<Rightarrow> VStr (lit ''echo'') | Some v \<Rightarrow> v)
      \<noteq> VStr (lit ''describe'')"
    using assms(2) by (auto split: option.splits)
  have present: "main_body rt (Inr (VDict d)) = Inl (ValueError (lit ''Message is required''))"
    using assms(1,3) falsy op by (simp add: main_body_input dispatch_def)
  have absent:
    "main_body rt (Inr (VDict [(lit ''input'', VDict (dict_delete (lit ''message'') ui))]))
      = Inl (ValueError (lit ''Message is required''))"
    using op
    by (simp add: main_body_input [of _ "dict_delete (lit ''message'') ui"] dispatch_def
        map_of_dict_delete)
  show ?thesis
    by (simp add: main_def present absent ValueError_def isinstance_def error_envelope_def)
qed

text \<open>The message \<open>0\<close> with \<open>uppercase\<close>, and the message \<open>-0.0\<close> with no operation.\<close>

theorem falsy_message_is_missing_witness:
  "main ascii_runtime (Inr (VDict [(lit ''input'',
       VDict [(lit ''operation'', VStr (lit ''uppercase'')), (lit ''message'', VInt 0)])])) =
     Exit [VDict [(lit ''error'', VStr (lit ''Message is required'')),
                  (lit ''type'', VStr (lit ''ValueError''))]] 1
   \<and> main ascii_runtime (Inr (VDict [(lit ''input'',
       VDict [(lit ''message'', VFloat (PyFinite True 0 0))])])) =
     Exit [VDict [(lit ''error'', VStr (lit ''Message is required'')),
                  (lit ''type'', VStr (lit ''ValueError''))]] 1"
  using falsy_message_is_missing [of
      "[(lit ''input'', VDict [(lit ''operation'', VStr (lit ''uppercase'')),
                               (lit ''message'', VInt 0)])]"
      "[(lit ''operation'', VStr (lit ''uppercase'')), (lit ''message'', VInt 0)]"
      "VInt 0" False 0 ascii_runtime]
    falsy_message_is_missing [of
      "[(lit ''input'', VDict [(lit ''message'', VFloat (PyFinite True 0 0))])]"
      "[(lit ''message'', VFloat (PyFinite True 0 0))]"
      "VFloat (PyFinite True 0 0)" True 0 ascii_runtime]
  by simp

end
